theory Spec2Isabelle
  imports Main
begin

section \<open>JavaScript strings\<close>

text \<open>
  A JavaScript string is a sequence of UTF-16 code units. The model keeps the code
  units as natural numbers, so that the non-breaking space (160) and the other
  white space characters beyond Latin-1 are ordinary elements. \<open>js\<close> turns an
  ASCII literal into such a string.
\<close>

type_synonym jsstring = "nat list"

definition js :: "string \<Rightarrow> jsstring" where
  "js s = map of_char s"

text \<open>The class \<open>\s\<close> of a JavaScript regular expression (white space and line terminators).\<close>

definition isWhiteSpace :: "nat \<Rightarrow> bool" where
  "isWhiteSpace c =
     (c = 9 \<or> c = 10 \<or> c = 11 \<or> c = 12 \<or> c = 13 \<or> c = 32 \<or> c = 160 \<or> c = 5760 \<or>
      (8192 \<le> c \<and> c \<le> 8202) \<or> c = 8232 \<or> c = 8233 \<or> c = 8239 \<or> c = 8287 \<or>
      c = 12288 \<or> c = 65279)"

text \<open>\<open>s.replace(/\s+/g, "")\<close>\<close>

definition removeWhitespace :: "jsstring \<Rightarrow> jsstring" where
  "removeWhitespace s = filter (\<lambda>c. \<not> isWhiteSpace c) s"

text \<open>the replacement of every non-breaking space (code unit 160) by a space\<close>

definition replaceNbsp :: "jsstring \<Rightarrow> jsstring" where
  "replaceNbsp s = map (\<lambda>c. if c = 160 then 32 else c) s"

text \<open>\<open>s.trimEnd()\<close>, \<open>s.trim()\<close>\<close>

definition trimEnd :: "jsstring \<Rightarrow> jsstring" where
  "trimEnd s = rev (dropWhile isWhiteSpace (rev s))"

definition trim :: "jsstring \<Rightarrow> jsstring" where
  "trim s = dropWhile isWhiteSpace (trimEnd s)"

text \<open>\<open>s.split(c)\<close> for a separator of one code unit: the empty string gives one empty piece.\<close>

fun splitChar :: "nat \<Rightarrow> jsstring \<Rightarrow> jsstring list" where
  "splitChar c [] = [[]]"
| "splitChar c (x # xs) =
     (if x = c then [] # splitChar c xs
      else (case splitChar c xs of [] \<Rightarrow> [[x]] | y # ys \<Rightarrow> (x # y) # ys))"

text \<open>
  \<open>s.indexOf(c, from)\<close> for a needle of one code unit: \<open>from\<close> is clamped to
  \<open>[0, s.length]\<close>, the answer is \<open>-1\<close> when there is no occurrence.
\<close>

fun indexOfAux :: "nat \<Rightarrow> jsstring \<Rightarrow> nat \<Rightarrow> int" where
  "indexOfAux c [] i = - 1"
| "indexOfAux c (x # xs) i = (if x = c then int i else indexOfAux c xs (Suc i))"

definition indexOf :: "jsstring \<Rightarrow> nat \<Rightarrow> int \<Rightarrow> int" where
  "indexOf s c from = indexOfAux c (drop (nat from) s) (nat from)"

text \<open>\<open>s.lastIndexOf(c)\<close>\<close>

fun lastIndexOfAux :: "nat \<Rightarrow> jsstring \<Rightarrow> nat \<Rightarrow> int \<Rightarrow> int" where
  "lastIndexOfAux c [] i found = found"
| "lastIndexOfAux c (x # xs) i found =
     lastIndexOfAux c xs (Suc i) (if x = c then int i else found)"

definition lastIndexOf :: "jsstring \<Rightarrow> nat \<Rightarrow> int" where
  "lastIndexOf s c = lastIndexOfAux c s 0 (- 1)"

text \<open>
  \<open>s.slice(start, end)\<close>: a negative index counts from the end, both are clamped
  to \<open>[0, s.length]\<close>, and the result is empty when the end is not after the start.
  \<open>sliceFrom\<close> is \<open>s.slice(start)\<close>.
\<close>

definition sliceIndex :: "jsstring \<Rightarrow> int \<Rightarrow> nat" where
  "sliceIndex s i =
     (if i < 0 then nat (max (int (length s) + i) 0) else nat (min i (int (length s))))"

definition slice :: "jsstring \<Rightarrow> int \<Rightarrow> int \<Rightarrow> jsstring" where
  "slice s start endp = take (sliceIndex s endp - sliceIndex s start) (drop (sliceIndex s start) s)"

definition sliceFrom :: "jsstring \<Rightarrow> int \<Rightarrow> jsstring" where
  "sliceFrom s start = drop (sliceIndex s start) s"

text \<open>\<open>s.charAt(i)\<close>: the empty string outside the string.\<close>

definition charAt :: "jsstring \<Rightarrow> int \<Rightarrow> jsstring" where
  "charAt s i = (if 0 \<le> i \<and> i < int (length s) then [s ! nat i] else [])"

text \<open>\<open>s.startsWith(t)\<close>\<close>

definition startsWith :: "jsstring \<Rightarrow> jsstring \<Rightarrow> bool" where
  "startsWith s t = (take (length t) s = t)"

section \<open>Emphasis of a macro argument (\<open>providers/signatureHelp.ts\<close>)\<close>

definition emphasizePrefix :: jsstring where
  "emphasizePrefix = js ''%%%%%''"

definition emphasizeSuffix :: jsstring where
  "emphasizeSuffix = js ''@@@@@''"

text \<open>
  The \<open>while\<close> loop of \<open>emphasizeArgument\<close> that looks for the argument by its
  spaces. The loop has no bound of its own: where it does not end, the value is \<open>None\<close>.
  The result is the value of \<open>result\<close> when the loop is left.
\<close>

partial_function (option) emphasizeLoop ::
  "jsstring \<Rightarrow> jsstring \<Rightarrow> int \<Rightarrow> int \<Rightarrow> int \<Rightarrow> int \<Rightarrow> jsstring option" where
  "emphasizeLoop arglist normalized arg endp lastspace spacesfound =
     (if indexOf normalized 32 (lastspace + 1) \<noteq> - 1 then
        (if arg = (spacesfound + 1) + 1 then
           Some (slice arglist 0 (indexOf normalized 32 lastspace + 1) @ emphasizePrefix @
                 slice arglist (indexOf normalized 32 lastspace + 1)
                   (if endp = - 1
                    then indexOf normalized 32 (indexOf normalized 32 lastspace + 1) - 1
                    else endp) @
                 emphasizeSuffix @
                 sliceFrom arglist
                   (if endp = - 1
                    then indexOf normalized 32 (indexOf normalized 32 lastspace + 1) - 1
                    else endp))
         else emphasizeLoop arglist normalized arg endp
                (indexOf normalized 32 lastspace) (spacesfound + 1))
      else Some arglist)"

declare emphasizeLoop.simps [code]

text \<open>
  \<open>emphasizeArgument(arglist, arg)\<close>. The argument number is an integer (the callers
  pass an active parameter index plus one).
\<close>

definition emphasizeArgument :: "jsstring \<Rightarrow> int \<Rightarrow> jsstring option" where
  "emphasizeArgument arglist arg =
     (let normalized = replaceNbsp arglist;
          numargs = int (length (splitChar 32 normalized))
      in if arg > numargs then Some (removeWhitespace normalized)
         else
           let end0 = (if arg = numargs then int (length normalized) - 1 else - 1);
               start0 = (if arg = numargs \<and> numargs > 1
                         then lastIndexOf normalized 32 + 1 else - 1);
               start = (if arg = 1 then 1 else start0);
               endp = (if arg = 1 \<and> end0 = - 1 then indexOf normalized 32 0 - 1 else end0)
           in if start \<noteq> - 1 \<and> endp \<noteq> - 1
              then Some (removeWhitespace
                     (slice arglist 0 start @ emphasizePrefix @ slice arglist start endp @
                      emphasizeSuffix @ sliceFrom arglist endp))
              else map_option removeWhitespace
                     (emphasizeLoop arglist normalized arg endp 0 0))"


section \<open>Parameter spans of a formal spec (\<open>ccs/signatureHelp/routineSupport.ts\<close>)\<close>

text \<open>
  \<open>Array.from(s)\<close> iterates over code points: a high surrogate followed by a low
  surrogate is one element of two code units, every other code unit is an element of
  its own.
\<close>

definition isHighSurrogate :: "nat \<Rightarrow> bool" where
  "isHighSurrogate c = (55296 \<le> c \<and> c \<le> 56319)"

definition isLowSurrogate :: "nat \<Rightarrow> bool" where
  "isLowSurrogate c = (56320 \<le> c \<and> c \<le> 57343)"

fun arrayFrom :: "jsstring \<Rightarrow> jsstring list" where
  "arrayFrom (h # l # cs) =
     (if isHighSurrogate h \<and> isLowSurrogate l then [h, l] # arrayFrom cs
      else [h] # arrayFrom (l # cs))"
| "arrayFrom [c] = [[c]]"
| "arrayFrom [] = []"

text \<open>
  The local variables of \<open>formalSpecToParamsArr\<close>; a parameter is the pair
  \<open>[start, end]\<close> of offsets into the formal spec.
\<close>

record formalSpecScan =
  currentParamStart :: int
  openParenCount :: int
  openBraceCount :: int
  inQuote :: bool
  result :: "(int \<times> int) list"

definition formalSpecInit :: formalSpecScan where
  "formalSpecInit =
     \<lparr>currentParamStart = 1, openParenCount = 0, openBraceCount = 0, inQuote = False,
      result = []\<rparr>"

text \<open>The body of the \<open>forEach\<close>: the \<open>switch\<close> on the character at index \<open>idx\<close>.\<close>

definition formalSpecStep :: "jsstring \<Rightarrow> int \<Rightarrow> formalSpecScan \<Rightarrow> formalSpecScan" where
  "formalSpecStep char idx st =
     (if char = js ''{'' then
        (if \<not> inQuote st then st\<lparr>openBraceCount := openBraceCount st + 1\<rparr> else st)
      else if char = js ''}'' then
        (if \<not> inQuote st then st\<lparr>openBraceCount := openBraceCount st - 1\<rparr> else st)
      else if char = js ''('' then
        (if \<not> inQuote st then st\<lparr>openParenCount := openParenCount st + 1\<rparr> else st)
      else if char = js '')'' then
        (if \<not> inQuote st then st\<lparr>openParenCount := openParenCount st - 1\<rparr> else st)
      else if char = [34] then st\<lparr>inQuote := \<not> inQuote st\<rparr>
      else if char = js '','' then
        (if \<not> inQuote st \<and> openBraceCount st = 0 \<and> openParenCount st = 1
         then st\<lparr>result := result st @ [(currentParamStart st, idx)],
                 currentParamStart := idx + 1\<rparr>
         else st)
      else st)"

fun formalSpecLoop :: "jsstring list \<Rightarrow> int \<Rightarrow> formalSpecScan \<Rightarrow> formalSpecScan" where
  "formalSpecLoop [] idx st = st"
| "formalSpecLoop (char # rest) idx st =
     formalSpecLoop rest (idx + 1) (formalSpecStep char idx st)"

definition formalSpecToParamsArr :: "jsstring \<Rightarrow> (int \<times> int) list" where
  "formalSpecToParamsArr formalSpec =
     (if removeWhitespace formalSpec = js ''()'' then []
      else
        let st = formalSpecLoop (arrayFrom formalSpec) 0 formalSpecInit
        in result st @ [(currentParamStart st, int (length formalSpec) - 1)])"

text \<open>
  The state of the scan when it reaches the element of index \<open>i\<close>, and the condition
  under which a comma ends a parameter there.
\<close>

definition scanBefore :: "jsstring \<Rightarrow> nat \<Rightarrow> formalSpecScan" where
  "scanBefore formalSpec i = formalSpecLoop (take i (arrayFrom formalSpec)) 0 formalSpecInit"

definition atTopLevel :: "formalSpecScan \<Rightarrow> bool" where
  "atTopLevel st = (\<not> inQuote st \<and> openBraceCount st = 0 \<and> openParenCount st = 1)"

definition parameterEnds :: "jsstring \<Rightarrow> nat list" where
  "parameterEnds formalSpec =
     filter (\<lambda>i. arrayFrom formalSpec ! i = js '','' \<and> atTopLevel (scanBefore formalSpec i))
       [0 ..< length (arrayFrom formalSpec)]"

text \<open>The same indices, for the elements of a scan given as a list.\<close>

definition endsOf :: "jsstring list \<Rightarrow> nat list" where
  "endsOf cps =
     filter (\<lambda>i. cps ! i = js '','' \<and> atTopLevel (formalSpecLoop (take i cps) 0 formalSpecInit))
       [0 ..< length cps]"

section \<open>Parameters of a routine label (\<open>ccs/signatureHelp/routineSupport.ts\<close>)\<close>

text \<open>\<open>line.indexOf(';')\<close> and the cut before it.\<close>

definition stripRoutineComment :: "jsstring \<Rightarrow> jsstring" where
  "stripRoutineComment line =
     (let commentIdx = indexOf line 59 0
      in if commentIdx = - 1 then line else slice line 0 commentIdx)"

text \<open>\<open>paramStr.replace(/\r?\n/g, ' ')\<close>\<close>

fun replaceNewlines :: "jsstring \<Rightarrow> jsstring" where
  "replaceNewlines (a # b # cs) =
     (if a = 13 \<and> b = 10 then 32 # replaceNewlines cs
      else if a = 10 then 32 # replaceNewlines (b # cs)
      else a # replaceNewlines (b # cs))"
| "replaceNewlines [a] = (if a = 10 then [32] else [a])"
| "replaceNewlines [] = []"

text \<open>
  The local variables of \<open>splitRoutineParams\<close>: \<open>pieces\<close> is its \<open>result\<close> and
  \<open>quoted\<close> its \<open>inQuote\<close> (the names of the record above are taken).
\<close>

record splitScan =
  pieces :: "jsstring list"
  current :: jsstring
  quoted :: bool
  parenDepth :: int

text \<open>The body of the \<open>for\<close> loop at index \<open>i\<close>; each \<open>continue\<close> is a branch.\<close>

definition splitRoutineStep :: "jsstring \<Rightarrow> nat \<Rightarrow> splitScan \<Rightarrow> splitScan" where
  "splitRoutineStep normalized i st =
     (let char = charAt normalized (int i)
      in if char = [34] \<and> charAt normalized (int i - 1) \<noteq> [92] then
           st\<lparr>quoted := \<not> quoted st, current := current st @ char\<rparr>
         else if \<not> quoted st \<and> char = js ''('' then
           st\<lparr>parenDepth := parenDepth st + 1, current := current st @ char\<rparr>
         else if \<not> quoted st \<and> char = js '')'' \<and> parenDepth st > 0 then
           st\<lparr>parenDepth := parenDepth st - 1, current := current st @ char\<rparr>
         else if \<not> quoted st \<and> char = js '','' \<and> parenDepth st = 0 then
           st\<lparr>pieces := pieces st @ [trim (current st)], current := []\<rparr>
         else st\<lparr>current := current st @ char\<rparr>)"

definition splitRoutineParams :: "jsstring \<Rightarrow> jsstring list" where
  "splitRoutineParams paramStr =
     (let normalized = replaceNewlines paramStr
      in if trim normalized = [] then []
         else
           let st = fold (splitRoutineStep normalized) [0 ..< length normalized]
                      \<lparr>pieces = [], current = [], quoted = False, parenDepth = 0\<rparr>;
               finalParam = trim (current st);
               result = (if length finalParam \<noteq> 0 then pieces st @ [finalParam] else pieces st)
           in filter (\<lambda>param. length param > 0) result)"

subsection \<open>Regular expressions\<close>

text \<open>
  The three patterns of \<open>extractRoutineCall\<close> use character classes, greedy repetition
  of a class, an optional group, capture groups, the word boundary and the end anchor.
  \<open>rmatch\<close> returns the ways a pattern matches from a position, in the order in which
  a backtracking matcher tries them (longest repetition first, the optional group taken
  first); each way is the end position and the captured groups.
\<close>

datatype regex =
    Cls "nat \<Rightarrow> bool"
  | Star "nat \<Rightarrow> bool"
  | WordB
  | Eoi
  | Seq regex regex
  | Opt regex
  | Grp nat regex

definition isAlpha :: "nat \<Rightarrow> bool" where
  "isAlpha c = ((65 \<le> c \<and> c \<le> 90) \<or> (97 \<le> c \<and> c \<le> 122))"

text \<open>\<open>\w\<close>, \<open>[%A-Za-z]\<close> and \<open>[\w%]\<close>\<close>

definition isWordChar :: "nat \<Rightarrow> bool" where
  "isWordChar c = (isAlpha c \<or> (48 \<le> c \<and> c \<le> 57) \<or> c = 95)"

definition isLabelStart :: "nat \<Rightarrow> bool" where
  "isLabelStart c = (c = 37 \<or> isAlpha c)"

definition isLabelChar :: "nat \<Rightarrow> bool" where
  "isLabelChar c = (isWordChar c \<or> c = 37)"

definition wordAt :: "jsstring \<Rightarrow> int \<Rightarrow> bool" where
  "wordAt str i = (0 \<le> i \<and> i < int (length str) \<and> isWordChar (str ! nat i))"

primrec rmatch ::
  "regex \<Rightarrow> jsstring \<Rightarrow> nat \<times> (nat \<rightharpoonup> jsstring) \<Rightarrow> (nat \<times> (nat \<rightharpoonup> jsstring)) list" where
  "rmatch (Cls P) str st =
     (if fst st < length str \<and> P (str ! fst st) then [(Suc (fst st), snd st)] else [])"
| "rmatch (Star P) str st =
     map (\<lambda>k. (fst st + k, snd st))
       (rev [0 ..< Suc (length (takeWhile P (drop (fst st) str)))])"
| "rmatch WordB str st =
     (if wordAt str (int (fst st) - 1) \<noteq> wordAt str (int (fst st)) then [st] else [])"
| "rmatch Eoi str st = (if fst st = length str then [st] else [])"
| "rmatch (Seq r1 r2) str st = concat (map (rmatch r2 str) (rmatch r1 str st))"
| "rmatch (Opt r) str st = rmatch r str st @ [st]"
| "rmatch (Grp n r) str st =
     map (\<lambda>m. (fst m, (snd m)(n \<mapsto> take (fst m - fst st) (drop (fst st) str))))
       (rmatch r str st)"

text \<open>\<open>str.match(re)\<close> without the global flag: the first way at the leftmost start.\<close>

primrec firstMatch :: "regex \<Rightarrow> jsstring \<Rightarrow> nat list \<Rightarrow> (nat \<rightharpoonup> jsstring) option" where
  "firstMatch re str [] = None"
| "firstMatch re str (start # starts) =
     (case rmatch re str (start, Map.empty) of
        [] \<Rightarrow> firstMatch re str starts
      | m # _ \<Rightarrow> Some (snd m))"

definition jsMatch :: "regex \<Rightarrow> jsstring \<Rightarrow> (nat \<rightharpoonup> jsstring) option" where
  "jsMatch re str = firstMatch re str [0 ..< Suc (length str)]"

text \<open>\<open>m[n] ?? ''\<close>\<close>

definition group :: "(nat \<rightharpoonup> jsstring) \<Rightarrow> nat \<Rightarrow> jsstring" where
  "group m n = (case m n of None \<Rightarrow> [] | Some g \<Rightarrow> g)"

fun seqs :: "regex list \<Rightarrow> regex" where
  "seqs [] = Opt Eoi"
| "seqs [r] = r"
| "seqs (r # rs) = Seq r (seqs rs)"

text \<open>\<open>([%A-Za-z][\w%]*)\<close> as group \<open>n\<close>, and \<open>\b[Dd][Oo]\b\<close>\<close>

definition nameGroup :: "nat \<Rightarrow> regex" where
  "nameGroup n = Grp n (Seq (Cls isLabelStart) (Star isLabelChar))"

definition doKeyword :: regex where
  "doKeyword =
     seqs [WordB, Cls (\<lambda>c. c = 68 \<or> c = 100), Cls (\<lambda>c. c = 79 \<or> c = 111), WordB]"

text \<open>\<open>/\$\$([%A-Za-z][\w%]*)(?:\s*\^\s*([%A-Za-z][\w%]*))?$/\<close>\<close>

definition extrinsicRegex :: regex where
  "extrinsicRegex =
     seqs [Cls (\<lambda>c. c = 36), Cls (\<lambda>c. c = 36), nameGroup 1,
           Opt (seqs [Star isWhiteSpace, Cls (\<lambda>c. c = 94), Star isWhiteSpace, nameGroup 2]),
           Eoi]"

text \<open>\<open>/\b[Dd][Oo]\b\s+([%A-Za-z][\w%]*)(?:\s*\^\s*([%A-Za-z][\w%]*))?$/\<close>\<close>

definition doLabelRegex :: regex where
  "doLabelRegex =
     seqs [doKeyword, Cls isWhiteSpace, Star isWhiteSpace, nameGroup 1,
           Opt (seqs [Star isWhiteSpace, Cls (\<lambda>c. c = 94), Star isWhiteSpace, nameGroup 2]),
           Eoi]"

text \<open>\<open>/\b[Dd][Oo]\b\s*\^\s*([%A-Za-z][\w%]*)$/\<close>\<close>

definition doRoutineRegex :: regex where
  "doRoutineRegex =
     seqs [doKeyword, Star isWhiteSpace, Cls (\<lambda>c. c = 94), Star isWhiteSpace, nameGroup 1, Eoi]"

subsection \<open>The call before the parenthesis\<close>

record RoutineCallContext =
  label :: jsstring
  routine :: jsstring

definition extractRoutineCall :: "jsstring \<Rightarrow> RoutineCallContext option" where
  "extractRoutineCall callPrefix =
     (let prefix = trimEnd callPrefix
      in case jsMatch extrinsicRegex prefix of
           Some extrinsicMatch \<Rightarrow>
             Some \<lparr>label = group extrinsicMatch 1, routine = group extrinsicMatch 2\<rparr>
         | None \<Rightarrow>
             (case jsMatch doLabelRegex prefix of
                Some doLabelMatch \<Rightarrow>
                  Some \<lparr>label = group doLabelMatch 1, routine = group doLabelMatch 2\<rparr>
              | None \<Rightarrow>
                  (case jsMatch doRoutineRegex prefix of
                     Some doRoutineMatch \<Rightarrow>
                       Some \<lparr>label = group doRoutineMatch 1, routine = group doRoutineMatch 1\<rparr>
                   | None \<Rightarrow> None)))"

subsection \<open>The label line and its parameter list\<close>

text \<open>\<open>s.endsWith(t)\<close>, \<open>xs.join(sep)\<close>, \<open>s.split(/\r?\n/)\<close> and \<open>s.toLowerCase()\<close> (on the
  letters A to Z, which is all that a comparison with \<open>mac\<close> needs).\<close>

definition endsWith :: "jsstring \<Rightarrow> jsstring \<Rightarrow> bool" where
  "endsWith str t = (length t \<le> length str \<and> drop (length str - length t) str = t)"

fun joinWith :: "jsstring \<Rightarrow> jsstring list \<Rightarrow> jsstring" where
  "joinWith sep [] = []"
| "joinWith sep [x] = x"
| "joinWith sep (x # xs) = x @ sep @ joinWith sep xs"

fun splitLines :: "jsstring \<Rightarrow> jsstring list" where
  "splitLines [] = [[]]"
| "splitLines (a # cs) =
     (if a = 10 then [] # splitLines cs
      else if a = 13 \<and> take 1 cs = [10] then [] # splitLines (drop 1 cs)
      else (case splitLines cs of [] \<Rightarrow> [[a]] | x # xs \<Rightarrow> (a # x) # xs))"

definition toLowerCase :: "jsstring \<Rightarrow> jsstring" where
  "toLowerCase str = map (\<lambda>c. if 65 \<le> c \<and> c \<le> 90 then c + 32 else c) str"

text \<open>
  The test of the search loop of \<open>getRoutineSignatureDetails\<close> on one line: the line
  starts with the label, and the label is followed by the end of the line, white space,
  a parenthesis or a comment marker.
\<close>

definition labelLineMatches :: "jsstring \<Rightarrow> jsstring \<Rightarrow> bool" where
  "labelLineMatches lbl line =
     (startsWith line lbl \<and>
      (let trimmed = trimEnd line;
           afterLabel = sliceFrom line (int (length lbl))
       in length trimmed = length lbl \<or>
          startsWith afterLabel (js '' '') \<or>
          startsWith afterLabel [9] \<or>
          startsWith afterLabel (js ''('') \<or>
          startsWith afterLabel (js '';'') \<or>
          startsWith afterLabel (js ''##;'') \<or>
          startsWith afterLabel (js ''//'') \<or>
          startsWith afterLabel (js ''/*'')))"

text \<open>The search loop: the index of the first matching line from \<open>i\<close> on, or \<open>-1\<close>.\<close>

fun findLabelLine :: "jsstring \<Rightarrow> jsstring list \<Rightarrow> nat \<Rightarrow> int" where
  "findLabelLine lbl [] i = - 1"
| "findLabelLine lbl (line # rest) i =
     (if labelLineMatches lbl line then int i else findLabelLine lbl rest (Suc i))"

text \<open>What the continuation loop appends to \<open>remainder\<close> for one consumed line.\<close>

definition joinContinuation :: "jsstring \<Rightarrow> jsstring \<Rightarrow> jsstring" where
  "joinContinuation remainder nextLineRaw =
     (let nextTrimmed = trim nextLineRaw
      in if length nextTrimmed \<noteq> 0 then
           (if length remainder \<noteq> 0 \<and> \<not> endsWith remainder (js '' '') \<and>
               \<not> startsWith nextTrimmed (js '','')
            then remainder @ js '' '' else remainder) @ nextTrimmed
         else remainder)"

text \<open>
  The \<open>while (closeIdx === -1)\<close> loop: it returns \<open>remainder\<close> and \<open>closeIdx\<close> as they
  are when the loop is left. \<open>searchIdx\<close> grows at every turn, which bounds the loop.
\<close>

function continuationLoop ::
  "jsstring list \<Rightarrow> jsstring \<Rightarrow> int \<Rightarrow> nat \<Rightarrow> jsstring \<times> int" where
  "continuationLoop routineLines remainder closeIdx searchIdx =
     (if closeIdx = - 1 then
        (if Suc searchIdx \<ge> length routineLines then (remainder, closeIdx)
         else
           let nextLineRaw = stripRoutineComment (routineLines ! Suc searchIdx)
           in if length nextLineRaw \<noteq> 0 \<and> isLabelStart (hd nextLineRaw)
              then (remainder, closeIdx)
              else continuationLoop routineLines (joinContinuation remainder nextLineRaw)
                     (indexOf (joinContinuation remainder nextLineRaw) 41 0) (Suc searchIdx))
      else (remainder, closeIdx))"
  by pat_completeness auto
termination
  by (relation "measure (\<lambda>(routineLines, remainder, closeIdx, searchIdx).
        length routineLines - searchIdx)") auto

declare continuationLoop.simps [simp del]

text \<open>A line that begins with a letter or with \<open>%\<close>.\<close>

definition beginsLabel :: "jsstring \<Rightarrow> bool" where
  "beginsLabel line = (length line \<noteq> 0 \<and> isLabelStart (hd line))"

text \<open>The parameter text of the label line of index \<open>labelLineIndex\<close>.\<close>

definition routineParamString :: "jsstring list \<Rightarrow> nat \<Rightarrow> jsstring" where
  "routineParamString routineLines labelLineIndex =
     (let labelLine = routineLines ! labelLineIndex;
          noComment = stripRoutineComment labelLine;
          openParenIdx = indexOf noComment 40 0
      in if openParenIdx \<ge> 0 then
           (let remainder0 = sliceFrom noComment (openParenIdx + 1);
                loop = continuationLoop routineLines remainder0 (indexOf remainder0 41 0)
                         labelLineIndex
            in if snd loop \<noteq> - 1 then slice (fst loop) 0 (snd loop) else trim (fst loop))
         else [])"

fun routineParameterLoop :: "jsstring list \<Rightarrow> int \<Rightarrow> (int \<times> int) list" where
  "routineParameterLoop [] currentPos = []"
| "routineParameterLoop (param # rest) currentPos =
     (currentPos, currentPos + int (length (trim param))) #
     routineParameterLoop rest
       (if rest \<noteq> [] then currentPos + int (length (trim param)) + 2
        else currentPos + int (length (trim param)))"

definition routineParameterInfos :: "jsstring \<Rightarrow> jsstring list \<Rightarrow> (int \<times> int) list" where
  "routineParameterInfos signatureLabel params =
     (if length params = 0 then []
      else routineParameterLoop params (indexOf signatureLabel 40 0 + 1))"

subsection \<open>Documents, tokens and signatures\<close>

text \<open>
  The editor's data: a position, a classified token of a line (the fields \<open>p\<close>, \<open>c\<close>,
  \<open>l\<close> and \<open>s\<close> of a \<open>compressedline\<close> element), a text document with the three
  things the code reads from it (\<open>languageId\<close>, \<open>getText(range)\<close> and \<open>getText()\<close>),
  and the signature types of the language server protocol.
\<close>

record Position =
  line :: int
  character :: int

record token =
  tok_p :: int
  tok_c :: int
  tok_l :: int
  tok_s :: int

record TextDocument =
  languageId :: jsstring
  getText :: "Position \<times> Position \<Rightarrow> jsstring"
  fullText :: jsstring

record MarkupContent =
  kind :: jsstring
  markup :: jsstring

record SignatureInformation =
  label :: jsstring
  parameters :: "(int \<times> int) list"
  documentation :: "MarkupContent option"

record RoutineSignatureDetails =
  signature :: SignatureInformation
  start :: Position
  parameters :: "jsstring list"

text \<open>\<open>parsed[ln]?.[tk]\<close>\<close>

definition tokenAt :: "token list list \<Rightarrow> int \<Rightarrow> int \<Rightarrow> token option" where
  "tokenAt parsed ln tk =
     (if 0 \<le> ln \<and> ln < int (length parsed) then
        (if 0 \<le> tk \<and> tk < int (length (parsed ! nat ln))
         then Some (parsed ! nat ln ! nat tk) else None)
      else None)"

text \<open>
  The server behind \<open>getRoutineSignatureDetails\<close>: the answer of the \<open>/action/index\<close>
  request for one routine (\<open>None\<close> when the content is not an array), the URI that
  \<open>createDefinitionUri\<close> gives, and the lines that \<open>getTextForUri\<close> gives (\<open>None\<close>
  when they are not an array).
\<close>

record IndexEntry =
  status :: jsstring
  others :: "jsstring list option"

record RoutineSource =
  index :: "jsstring \<Rightarrow> IndexEntry list option"
  createDefinitionUri :: "jsstring \<Rightarrow> jsstring \<Rightarrow> jsstring \<Rightarrow> jsstring"
  getTextForUri :: "jsstring \<Rightarrow> jsstring list option"

text \<open>A document of one line, for the examples: a range is a slice of the line.\<close>

definition singleLineDocument :: "jsstring \<Rightarrow> jsstring \<Rightarrow> TextDocument" where
  "singleLineDocument lang content =
     \<lparr>languageId = lang,
      getText = (\<lambda>range. slice content (character (fst range)) (character (snd range))),
      fullText = content\<rparr>"

definition isRoutineDocument :: "TextDocument \<Rightarrow> bool" where
  "isRoutineDocument doc =
     (languageId doc = js ''objectscript'' \<or> languageId doc = js ''objectscript-int'')"

text \<open>The name of the routine that the document holds, or the empty string.\<close>

definition currentRoutineName :: "TextDocument \<Rightarrow> token list list \<Rightarrow> jsstring" where
  "currentRoutineName doc parsed =
     (if isRoutineDocument doc \<and> parsed \<noteq> [] \<and> length (parsed ! 0) > 1 then
        getText doc
          (\<lparr>line = 0, character = tok_p (parsed ! 0 ! 1)\<rparr>,
           \<lparr>line = 0, character = tok_p (parsed ! 0 ! 1) + tok_c (parsed ! 0 ! 1)\<rparr>)
      else [])"

text \<open>The lines of the routine: the live buffer for the current routine, the server's
  text otherwise.\<close>

definition fetchRoutineLines ::
  "RoutineSource \<Rightarrow> TextDocument \<Rightarrow> jsstring \<Rightarrow> jsstring \<Rightarrow> jsstring \<Rightarrow> jsstring list option" where
  "fetchRoutineLines server doc paramsUri routineName currentRoutine =
     (if routineName = currentRoutine \<and> isRoutineDocument doc
      then Some (splitLines (fullText doc))
      else
        (case index server (routineName @ js ''.int'') of
           None \<Rightarrow> None
         | Some [] \<Rightarrow> None
         | Some (routineEntry # _) \<Rightarrow>
             if status routineEntry \<noteq> [] then None
             else
               let ext =
                     (if (case others routineEntry of
                            None \<Rightarrow> False
                          | Some os \<Rightarrow>
                              list_ex (\<lambda>other. toLowerCase (sliceFrom other (- 3)) = js ''mac'') os)
                      then js ''.mac'' else js ''.int'');
                   routineUri = createDefinitionUri server paramsUri routineName ext
               in if routineUri = [] then None
                  else
                    (case getTextForUri server routineUri of
                       None \<Rightarrow> None
                     | Some routineLines \<Rightarrow>
                         if length routineLines = 0 then None else Some routineLines)))"

text \<open>From the lines of the routine to the signature: the search of the label line, the
  parameter text, its parameters and the label of the signature.\<close>

definition routineSignature ::
  "jsstring \<Rightarrow> jsstring list \<Rightarrow> int \<Rightarrow> int \<Rightarrow> RoutineSignatureDetails option" where
  "routineSignature lbl routineLines parenLine parenPos =
     (let labelLineIndex = findLabelLine lbl routineLines 0
      in if labelLineIndex = - 1 then None
         else
           let paramString = routineParamString routineLines (nat labelLineIndex);
               params = splitRoutineParams paramString;
               paramsText = joinWith (js '', '') params;
               signatureLabel = lbl @ js ''('' @ paramsText @ js '')''
           in Some \<lparr>signature =
                      \<lparr>label = signatureLabel,
                       SignatureInformation.parameters =
                         routineParameterInfos signatureLabel params,
                       documentation = None\<rparr>,
                    start = \<lparr>line = parenLine, character = parenPos + 1\<rparr>,
                    parameters = params\<rparr>)"

definition getRoutineSignatureDetails ::
  "RoutineSource \<Rightarrow> TextDocument \<Rightarrow> token list list \<Rightarrow> int \<Rightarrow> int \<Rightarrow> jsstring \<Rightarrow>
   RoutineSignatureDetails option" where
  "getRoutineSignatureDetails server doc parsed parenLine parenToken paramsUri =
     (case tokenAt parsed parenLine parenToken of
        None \<Rightarrow> None
      | Some parenTok \<Rightarrow>
          let parenPos = tok_p parenTok;
              callPrefix =
                getText doc
                  (\<lparr>line = parenLine, character = 0\<rparr>,
                   \<lparr>line = parenLine, character = parenPos\<rparr>)
          in case extractRoutineCall callPrefix of
               None \<Rightarrow> None
             | Some callContext \<Rightarrow>
                 let currentRoutine = currentRoutineName doc parsed;
                     routineName =
                       (if routine callContext = [] then currentRoutine
                        else routine callContext)
                 in if routineName = [] then None
                    else
                      (case fetchRoutineLines server doc paramsUri routineName currentRoutine of
                         None \<Rightarrow> None
                       | Some routineLines \<Rightarrow>
                           routineSignature (RoutineCallContext.label callContext)
                             routineLines parenLine parenPos))"

section \<open>Documentation of a parameter (\<open>buildRoutineDocumentation\<close>)\<close>

text \<open>\<open>s.replace(new RegExp(needle, "g"), repl)\<close> for a needle without special characters.\<close>

function replaceAll :: "jsstring \<Rightarrow> jsstring \<Rightarrow> jsstring \<Rightarrow> jsstring" where
  "replaceAll needle repl str =
     (if str = [] then []
      else if needle \<noteq> [] \<and> take (length needle) str = needle
      then repl @ replaceAll needle repl (drop (length needle) str)
      else hd str # replaceAll needle repl (tl str))"
  by pat_completeness auto
termination
  by (relation "measure (\<lambda>(needle, repl, str). length str)") auto

declare replaceAll.simps [simp del]

text \<open>The local function \<open>esc\<close>: \<open><\<close>, \<open>&\<close> and \<open>>\<close> become entities.\<close>

definition esc :: "jsstring \<Rightarrow> jsstring" where
  "esc str =
     concat (map (\<lambda>c. if c = 60 then js ''&lt;'' else if c = 62 then js ''&gt;''
                       else if c = 38 then js ''&amp;'' else [c]) str)"

datatype DocContext = hover | signatureContext | noContext

record DocOptions =
  docContext :: DocContext
  boldParameter :: bool
  showHeaderInHover :: bool

text \<open>\<open>Math.min(Math.max(i, 0), n - 1)\<close>\<close>

definition clampIndex :: "int \<Rightarrow> nat \<Rightarrow> int" where
  "clampIndex i n = min (max i 0) (int n - 1)"

text \<open>\<open>paramInfos[i]\<close>: undefined outside the array.\<close>

definition paramInfoAt :: "(int \<times> int) list \<Rightarrow> int \<Rightarrow> (int \<times> int) option" where
  "paramInfoAt paramInfos i =
     (if 0 \<le> i \<and> i < int (length paramInfos) then Some (paramInfos ! nat i) else None)"

definition inlineCode :: "bool \<Rightarrow> jsstring \<Rightarrow> jsstring" where
  "inlineCode boldParam mid =
     (if boldParam then js ''**`'' @ mid @ js ''`**'' else js ''`'' @ mid @ js ''`'')"

text \<open>
  \<open>buildRoutineDocumentation(signature, activeIndex, options)\<close>. The label of a
  parameter is always a pair of offsets here, as every resolver of this engine builds it.
  The fixed text of the last line holds the letter a with circumflex, code unit 226.
\<close>

definition buildRoutineDocumentation ::
  "SignatureInformation \<Rightarrow> int option \<Rightarrow> DocOptions \<Rightarrow> MarkupContent" where
  "buildRoutineDocumentation sig activeIndex opts =
     (let paramInfos = SignatureInformation.parameters sig;
          isHover = (docContext opts = hover);
          isSignature = (docContext opts = signatureContext);
          boldParam = boldParameter opts;
          idx = (if length paramInfos \<noteq> 0
                 then clampIndex (case activeIndex of None \<Rightarrow> 0 | Some i \<Rightarrow> i) (length paramInfos)
                 else 0);
          pText = (case paramInfoAt paramInfos idx of
                     None \<Rightarrow> []
                   | Some se \<Rightarrow> if fst se < snd se then slice (label sig) (fst se) (snd se) else []);
          pInline = inlineCode boldParam (esc pText);
          header = (if isHover \<and> showHeaderInHover opts
                    then [js ''```'', label sig, js ''```'', []] else []);
          middle = (if \<not> isSignature then
                      [(case paramInfoAt paramInfos idx of
                          None \<Rightarrow> esc (label sig)
                        | Some se \<Rightarrow>
                            if fst se < snd se then
                              esc (slice (label sig) 0 (fst se)) @
                              inlineCode boldParam (esc (slice (label sig) (fst se) (snd se))) @
                              esc (sliceFrom (label sig) (snd se))
                            else esc (label sig)),
                       []]
                    else []);
          origin = js ''Par'' @ [226] @ js ''metro na origem:'';
          last = (if pText \<noteq> [] then origin @ js '' '' @ pInline else origin)
      in \<lparr>kind = js ''markdown'', markup = joinWith [10] (header @ middle @ [last])\<rparr>)"

section \<open>The signature help request (\<open>providers/signatureHelp.ts\<close>)\<close>

text \<open>\<open>markdownifyExpansion(exp)\<close>\<close>

definition markdownifyExpansion :: "jsstring list \<Rightarrow> jsstring" where
  "markdownifyExpansion exp =
     js ''<pre>'' @ [10] @
     replaceAll emphasizeSuffix (js ''</u></i></b>'')
       (replaceAll emphasizePrefix (js ''<b><i><u>'') (joinWith [10] (map trimEnd exp))) @
     [10] @ js ''</pre>''"

subsection \<open>The request, the session and the services\<close>

record SignatureHelp =
  signatures :: "SignatureInformation list"
  activeSignature :: int
  activeParameter :: "int option"

text \<open>The trigger kinds of the protocol: 1 is \<open>Invoked\<close>, 2 \<open>TriggerCharacter\<close>, 3
  \<open>ContentChange\<close>.\<close>

record SignatureHelpContext =
  triggerKind :: nat
  triggerCharacter :: "jsstring option"
  isRetrigger :: bool
  activeSignatureHelp :: "SignatureHelp option"

record SignatureHelpParams =
  uri :: jsstring
  position :: Position
  requestContext :: "SignatureHelpContext option"

text \<open>The context of a macro (\<open>getMacroContext\<close>), the body of the signature request (with
  the macro name) and the body of the expansion request (with the arguments), which is
  also the type of the macro cache.\<close>

text \<open>The fields \<open>macroIncludes\<close> and \<open>macroImports\<close> are the \<open>includes\<close> and
  \<open>imports\<close> of the source, \<open>requestContext\<close> is the \<open>context\<close> of the request.\<close>

record MacroContext =
  docname :: jsstring
  superclasses :: "jsstring list"
  macroIncludes :: "jsstring list"
  includegenerators :: "jsstring list"
  macroImports :: "jsstring list"
  mode :: jsstring

record MacroInput = MacroContext +
  macroname :: jsstring

record SignatureHelpMacroContext = MacroInput +
  arguments :: jsstring

datatype CacheType = macroType | methodType | routineType

record SignatureHelpDocCache =
  cacheType :: CacheType
  cacheDoc :: MarkupContent

text \<open>A row of \<open>%Dictionary.CompiledMethod\<close> and of its subtables.\<close>

record MethodRow =
  FormalSpec :: jsstring
  ReturnType :: jsstring
  Description :: jsstring
  Stub :: jsstring
  Origin :: jsstring

text \<open>The requests that the engine sends to the server.\<close>

datatype request =
    GetMacroSignature "unit MacroInput_ext MacroContext_ext"
  | GetMacroExpansion "unit SignatureHelpMacroContext_ext MacroInput_ext MacroContext_ext"
  | Query jsstring "jsstring option list"

text \<open>
  The three variables of the module, and the requests sent so far (oldest first).
  The macro cache has no initial value.
\<close>

record Session =
  signatureHelpMacroCache :: "SignatureHelpMacroContext option"
  signatureHelpDocumentationCache :: "SignatureHelpDocCache option"
  signatureHelpStartPosition :: "Position option"
  sent :: "request list"

text \<open>
  What the engine reads from the other modules: the open documents and their tokens, the
  setting \<open>signaturehelp.documentation\<close>, the indices of \<open>languageDefinitions\<close>, the
  helpers of \<open>utils/functions\<close> and the answers of the server (\<open>None\<close> for a request
  without a usable answer).
\<close>

record Services =
  documents :: "jsstring \<Rightarrow> TextDocument option"
  getParsedDocument :: "jsstring \<Rightarrow> token list list option"
  documentationSetting :: bool
  cos_langindex :: int
  cos_comment_attrindex :: int
  cos_dcom_attrindex :: int
  cos_str_attrindex :: int
  cos_macro_attrindex :: int
  cos_method_attrindex :: int
  cos_mem_attrindex :: int
  getMacroContext :: "TextDocument \<Rightarrow> token list list \<Rightarrow> int \<Rightarrow> MacroContext"
  findFullRange :: "int \<Rightarrow> token list list \<Rightarrow> int \<Rightarrow> int \<Rightarrow> int \<Rightarrow> Position \<times> Position"
  getClassMemberContext :: "TextDocument \<Rightarrow> token list list \<Rightarrow> int \<Rightarrow> int \<Rightarrow> jsstring"
  quoteUDLIdentifier :: "jsstring \<Rightarrow> jsstring"
  beautifyFormalSpec :: "jsstring \<Rightarrow> jsstring"
  documaticHtmlToMarkdown :: "jsstring \<Rightarrow> jsstring"
  findOpenParen :: "TextDocument \<Rightarrow> token list list \<Rightarrow> int \<Rightarrow> int \<Rightarrow> int \<times> int"
  determineActiveParam :: "jsstring \<Rightarrow> int"
  macroSignature :: "MacroInput \<Rightarrow> jsstring option"
  macroExpansion :: "SignatureHelpMacroContext \<Rightarrow> jsstring list option"
  queryRows :: "jsstring \<Rightarrow> jsstring option list \<Rightarrow> MethodRow list option"
  routineSource :: RoutineSource

text \<open>
  A call ends with a result (a signature help or \<open>null\<close>) and the new session, or it
  fails: with a \<open>TypeError\<close> where it reads a property of \<open>undefined\<close>, with the
  error of \<open>Range.create\<close> where it builds a range from a position that has a negative
  component, or by not returning where the loop of \<open>emphasizeArgument\<close> does not end.
\<close>

datatype failure = TypeError | InvalidArguments | NoReturn

type_synonym outcome = "failure + (SignatureHelp option \<times> Session)"

subsection \<open>Small steps of the request\<close>

text \<open>The loop that looks for the token under the cursor: the first token whose span
  holds the character, else the last token, and \<open>-1\<close> on a line without tokens.\<close>

fun thisTokenLoop :: "token list \<Rightarrow> int \<Rightarrow> int \<Rightarrow> int" where
  "thisTokenLoop [] ch i = i - 1"
| "thisTokenLoop (t # ts) ch i =
     (if ch \<ge> tok_p t \<and> ch \<le> tok_p t + tok_c t then i else thisTokenLoop ts ch (i + 1))"

text \<open>An odd number of double quotes between the start of the line and the cursor.\<close>

definition insideString :: "TextDocument \<Rightarrow> Position \<Rightarrow> bool" where
  "insideString doc pos =
     ((int (length (splitChar 34
          (getText doc (\<lparr>line = line pos, character = 0\<rparr>, pos)))) - 1) mod 2 = 1)"

text \<open>
  The character before the cursor:
  \<open>doc.getText(Range.create(Position.create(line, character - 1), position))\<close>.
  \<open>Range.create\<close> accepts two positions only when their components are non-negative
  integers, so it throws when the cursor is at column 0.
\<close>

definition charBefore :: "TextDocument \<Rightarrow> Position \<Rightarrow> failure + jsstring" where
  "charBefore doc pos =
     (if 0 \<le> line pos \<and> 0 \<le> character pos - 1
      then Inr (getText doc (\<lparr>line = line pos, character = character pos - 1\<rparr>, pos))
      else Inl InvalidArguments)"

text \<open>For an invoked request the trigger character is the character before the
  cursor.\<close>

definition invokedContext ::
  "TextDocument \<Rightarrow> Position \<Rightarrow> SignatureHelpContext \<Rightarrow> failure + SignatureHelpContext" where
  "invokedContext doc pos ctx0 =
     (if triggerKind ctx0 = 1 then
        (case charBefore doc pos of
           Inl e \<Rightarrow> Inl e
         | Inr c \<Rightarrow> Inr (ctx0\<lparr>triggerCharacter := Some c\<rparr>))
      else Inr ctx0)"

text \<open>\<open>signatureHelpDocumentationCache?.doc\<close>, and the assignment to
  \<open>signatures[0].documentation\<close>, which throws when there is no first signature.\<close>

definition cachedDoc :: "Session \<Rightarrow> MarkupContent option" where
  "cachedDoc st = map_option cacheDoc (signatureHelpDocumentationCache st)"

definition setFirstDocumentation ::
  "MarkupContent option \<Rightarrow> SignatureHelp \<Rightarrow> failure + SignatureHelp" where
  "setFirstDocumentation d help =
     (case signatures help of
        [] \<Rightarrow> Inl TypeError
      | sig # rest \<Rightarrow> Inr (help\<lparr>signatures := sig\<lparr>documentation := d\<rparr> # rest\<rparr>))"

definition markdown :: "jsstring \<Rightarrow> MarkupContent" where
  "markdown text = \<lparr>kind = js ''markdown'', markup = text\<rparr>"

definition signatureOptions :: DocOptions where
  "signatureOptions =
     \<lparr>docContext = signatureContext, boldParameter = False, showHeaderInHover = True\<rparr>"

text \<open>\<open>s.replace(/,/g, ", ")\<close>\<close>

definition spaceAfterCommas :: "jsstring \<Rightarrow> jsstring" where
  "spaceAfterCommas str = concat (map (\<lambda>c. if c = 44 then [44, 32] else [c]) str)"

text \<open>\<open>xs[i]\<close>, undefined outside the array.\<close>

definition nthOpt :: "'a list \<Rightarrow> nat \<Rightarrow> 'a option" where
  "nthOpt xs i = (if i < length xs then Some (xs ! i) else None)"

text \<open>The request of the expansion with one argument emphasised, and what its answer
  changes: the documentation of the signature and the documentation cache. It is the
  same code at the three places where a macro expansion is asked for.\<close>

definition expandMacro ::
  "Services \<Rightarrow> Session \<Rightarrow> SignatureHelpMacroContext \<Rightarrow> Session \<times> MarkupContent option" where
  "expandMacro env st expinputdata =
     (let st1 = st\<lparr>sent := sent st @ [GetMacroExpansion expinputdata]\<rparr>
      in case macroExpansion env expinputdata of
           None \<Rightarrow> (st1, None)
         | Some expansion \<Rightarrow>
             if length expansion > 0
             then (st1, Some (markdown (markdownifyExpansion expansion)))
             else (st1, None))"

text \<open>
  The body of the signature request for the macro token \<open>prev\<close> before the
  parenthesis token of index \<open>parenToken\<close> on line \<open>ln\<close>: the context of the macro
  and its name without the three characters \<open>$$$\<close>. The macro cache is the same
  fields with the arguments.
\<close>

definition macroInputData ::
  "Services \<Rightarrow> TextDocument \<Rightarrow> token list list \<Rightarrow> int \<Rightarrow> int \<Rightarrow> token \<Rightarrow> MacroInput" where
  "macroInputData env doc parsed ln parenToken prev =
     (let maccon = getMacroContext env doc parsed ln;
          macrorange = findFullRange env ln parsed (parenToken - 1) (tok_p prev)
                         (tok_p prev + tok_c prev)
      in \<lparr>docname = docname maccon, superclasses = superclasses maccon,
          macroIncludes = macroIncludes maccon,
          includegenerators = includegenerators maccon,
          macroImports = macroImports maccon, mode = mode maccon,
          macroname = sliceFrom (getText doc macrorange) 3\<rparr>)"

definition macroCacheOf :: "MacroInput \<Rightarrow> jsstring \<Rightarrow> SignatureHelpMacroContext" where
  "macroCacheOf inputdata args =
     \<lparr>docname = docname inputdata, superclasses = superclasses inputdata,
      macroIncludes = macroIncludes inputdata,
      includegenerators = includegenerators inputdata,
      macroImports = macroImports inputdata, mode = mode inputdata,
      macroname = macroname inputdata, arguments = args\<rparr>"

subsection \<open>A retrigger of an active signature\<close>

definition retrigger ::
  "Services \<Rightarrow> Session \<Rightarrow> TextDocument \<Rightarrow> Position \<Rightarrow> SignatureHelpContext \<Rightarrow> outcome" where
  "retrigger env st doc pos ctx =
     (case activeSignatureHelp ctx of
        None \<Rightarrow> Inr (None, st)
      | Some help \<Rightarrow>
     (case signatureHelpStartPosition st of
        None \<Rightarrow> Inr (None, st)
      | Some startPos \<Rightarrow>
     (case charBefore doc pos of
        Inl e \<Rightarrow> Inl e
      | Inr prevchar \<Rightarrow>
          if prevchar = js '')'' then
            Inr (None, st\<lparr>signatureHelpDocumentationCache := None,
                           signatureHelpStartPosition := None\<rparr>)
          else
            let active = determineActiveParam env (getText doc (startPos, pos));
                help1 = help\<lparr>activeParameter := Some active\<rparr>
            in case signatureHelpDocumentationCache st of
                 None \<Rightarrow> Inr (Some help1, st)
               | Some cache \<Rightarrow>
                   if cacheType cache = macroType then
                     (case signatureHelpMacroCache st of
                        None \<Rightarrow> Inl TypeError
                      | Some macroCache \<Rightarrow>
                          (case emphasizeArgument (arguments macroCache) (active + 1) of
                             None \<Rightarrow> Inl NoReturn
                           | Some emphasized \<Rightarrow>
                               (case expandMacro env st (macroCache\<lparr>arguments := emphasized\<rparr>) of
                                  (st1, None) \<Rightarrow> Inr (Some help1, st1)
                                | (st1, Some d) \<Rightarrow>
                                    (case setFirstDocumentation (Some d) help1 of
                                       Inl e \<Rightarrow> Inl e
                                     | Inr help2 \<Rightarrow>
                                         Inr (Some help2,
                                              st1\<lparr>signatureHelpDocumentationCache :=
                                                    Some (cache\<lparr>cacheDoc := d\<rparr>)\<rparr>)))))
                   else if cacheType cache = routineType then
                     (case signatures help1 of
                        [] \<Rightarrow> Inl TypeError
                      | signatureInfo # rest \<Rightarrow>
                          let paramInfos = SignatureInformation.parameters signatureInfo;
                              boundedIndex =
                                (if length paramInfos \<noteq> 0
                                 then Some (clampIndex active (length paramInfos)) else None);
                              docContent =
                                buildRoutineDocumentation signatureInfo boundedIndex
                                  signatureOptions
                          in Inr (Some (help1\<lparr>activeParameter := boundedIndex,
                                              signatures :=
                                                signatureInfo\<lparr>documentation := Some docContent\<rparr> #
                                                rest\<rparr>),
                                  st\<lparr>signatureHelpDocumentationCache :=
                                       Some (cache\<lparr>cacheDoc := docContent\<rparr>)\<rparr>))
                   else
                     (case setFirstDocumentation (Some (cacheDoc cache)) help1 of
                        Inl e \<Rightarrow> Inl e
                      | Inr help2 \<Rightarrow> Inr (Some help2, st)))))"

subsection \<open>The queries of the class-member resolver\<close>

definition newQuery :: jsstring where
  "newQuery = js ''SELECT FormalSpec, ReturnType, Description, Stub, Origin FROM %Dictionary.CompiledMethod WHERE Parent = ? AND (Name = ? OR Name = ?)''"

definition memberQuery :: jsstring where
  "memberQuery = js ''SELECT FormalSpec, ReturnType, Description, Stub FROM %Dictionary.CompiledMethod WHERE Parent = ? AND Name = ?''"

definition indexMethodQuery :: jsstring where
  "indexMethodQuery = js ''SELECT Description, FormalSpec, ReturnType FROM %Dictionary.CompiledIndexMethod WHERE Name = ? AND parent->Parent = ? AND parent->Name = ?''"

definition queryMethodQuery :: jsstring where
  "queryMethodQuery = js ''SELECT Description, FormalSpec, ReturnType FROM %Dictionary.CompiledQueryMethod WHERE Name = ? AND parent->Parent = ? AND parent->Name = ?''"

definition propertyMethodQuery :: jsstring where
  "propertyMethodQuery = js ''SELECT Description, FormalSpec, ReturnType FROM %Dictionary.CompiledPropertyMethod WHERE Name = ? AND parent->Parent = ? AND parent->Name = ?''"

definition constraintMethodQuery :: jsstring where
  "constraintMethodQuery = js ''SELECT Description, FormalSpec, ReturnType FROM %Dictionary.CompiledConstraintMethod WHERE Name = ? AND parent->Parent = ? AND parent->Name = ?''"

text \<open>The query for a member: both \<open>%New\<close> and \<open>%OnNew\<close> for the constructor. The
  session records the request.\<close>

definition queryMember ::
  "Services \<Rightarrow> Session \<Rightarrow> jsstring \<Rightarrow> jsstring \<Rightarrow> jsstring \<Rightarrow> Session \<times> MethodRow list option" where
  "queryMember env st member baseclass unquotedname =
     (let query = (if member = js ''%New'' then newQuery else memberQuery);
          params = (if member = js ''%New''
                    then [Some baseclass, Some unquotedname, Some (js ''%OnNew'')]
                    else [Some baseclass, Some unquotedname])
      in (st\<lparr>sent := sent st @ [Query query params]\<rparr>, queryRows env query params))"

text \<open>The four tests on \<open>stubarr[2]\<close>, one after the other.\<close>

definition stubQueryOf :: "jsstring option \<Rightarrow> jsstring" where
  "stubQueryOf origin =
     (let q1 = (if origin = Some (js ''i'') then indexMethodQuery else []);
          q2 = (if origin = Some (js ''q'') then queryMethodQuery else q1);
          q3 = (if origin = Some (js ''a'') then propertyMethodQuery else q2)
      in if origin = Some (js ''n'') then constraintMethodQuery else q3)"

text \<open>
  The row of a member in \<open>onSignatureHelp\<close>: the first row of the answer, or for a stub
  the first row of the subtable of its origin, when the second query has an answer.
\<close>

definition memberRow ::
  "Services \<Rightarrow> Session \<Rightarrow> jsstring \<Rightarrow> MethodRow \<Rightarrow> Session \<times> MethodRow" where
  "memberRow env st baseclass row =
     (if Stub row \<noteq> [] then
        (let stubarr = splitChar 46 (Stub row);
             stubquery = stubQueryOf (nthOpt stubarr 2)
         in if stubquery \<noteq> [] then
              (let params = [nthOpt stubarr 1, Some baseclass, nthOpt stubarr 0];
                   st1 = st\<lparr>sent := sent st @ [Query stubquery params]\<rparr>
               in case queryRows env stubquery params of
                    None \<Rightarrow> (st1, row)
                  | Some [] \<Rightarrow> (st1, row)
                  | Some (stubrow # _) \<Rightarrow> (st1, stubrow))
            else (st, row))
      else (st, row))"

text \<open>The documentation cache of a method, written only when the setting asks for it.\<close>

definition methodDocumentation ::
  "Services \<Rightarrow> Session \<Rightarrow> jsstring \<Rightarrow> Session \<times> MarkupContent option" where
  "methodDocumentation env st description =
     (if documentationSetting env then
        (let d = markdown (documaticHtmlToMarkdown env description)
         in (st\<lparr>signatureHelpDocumentationCache := Some \<lparr>cacheType = methodType, cacheDoc = d\<rparr>\<rparr>,
             Some d))
      else (st, None))"

subsection \<open>An open parenthesis was typed\<close>

text \<open>
  The value of a branch of the resolution: the request has returned, or it goes on with
  this value of \<open>newsignature\<close>.
\<close>

datatype resolved = Returned "SignatureHelp option" | NewSignature "SignatureHelp option"

text \<open>The macro resolver, for the macro token before the parenthesis.\<close>

definition macroOnOpen ::
  "Services \<Rightarrow> Session \<Rightarrow> TextDocument \<Rightarrow> token list list \<Rightarrow> Position \<Rightarrow> int \<Rightarrow> token \<Rightarrow>
   failure + (SignatureHelp option \<times> Session)" where
  "macroOnOpen env st doc parsed pos thistoken prev =
     (let inputdata = macroInputData env doc parsed (line pos) thistoken prev;
          st1 = st\<lparr>sent := sent st @ [GetMacroSignature inputdata]\<rparr>
      in case macroSignature env inputdata of
           None \<Rightarrow> Inr (None, st1)
         | Some response \<Rightarrow>
             if response = [] then Inr (None, st1)
             else
               let sigtext = spaceAfterCommas (removeWhitespace response);
                   sig = \<lparr>label = sigtext,
                          SignatureInformation.parameters = formalSpecToParamsArr sigtext,
                          documentation = None\<rparr>;
                   macroCache = macroCacheOf inputdata (label sig);
                   st2 = st1\<lparr>signatureHelpMacroCache := Some macroCache\<rparr>
               in case emphasizeArgument (label sig) 1 of
                    None \<Rightarrow> Inl NoReturn
                  | Some emphasized \<Rightarrow>
                      (case expandMacro env st2 (macroCache\<lparr>arguments := emphasized\<rparr>) of
                         (st3, d) \<Rightarrow>
                           Inr (Some \<lparr>signatures = [sig\<lparr>documentation := d\<rparr>],
                                      activeSignature = 0, activeParameter = Some 0\<rparr>,
                                (case d of
                                   None \<Rightarrow> st3
                                 | Some m \<Rightarrow>
                                     st3\<lparr>signatureHelpDocumentationCache :=
                                           Some \<lparr>cacheType = macroType, cacheDoc = m\<rparr>\<rparr>)
                                \<lparr>signatureHelpStartPosition := Some pos\<rparr>)))"

text \<open>The class-member resolver, for the method or property token before the
  parenthesis.\<close>

definition memberOnOpen ::
  "Services \<Rightarrow> Session \<Rightarrow> TextDocument \<Rightarrow> token list list \<Rightarrow> Position \<Rightarrow> int \<Rightarrow> token \<Rightarrow>
   resolved \<times> Session" where
  "memberOnOpen env st doc parsed pos thistoken prev =
     (let member =
            getText doc
              (\<lparr>line = line pos, character = tok_p prev\<rparr>,
               \<lparr>line = line pos, character = tok_p prev + tok_c prev\<rparr>);
          unquotedname = quoteUDLIdentifier env member;
          baseclass = getClassMemberContext env doc parsed (thistoken - 2) (line pos)
      in if baseclass = [] then (Returned None, st)
         else
           (case queryMember env st member baseclass unquotedname of
              (st1, None) \<Rightarrow> (NewSignature None, st1)
            | (st1, Some []) \<Rightarrow> (NewSignature None, st1)
            | (st1, Some (row0 # rows)) \<Rightarrow>
                if member = js ''%New'' then
                  (if length (row0 # rows) = 2 \<and>
                      Origin (hd rows) \<noteq> js ''%Library.RegisteredObject''
                   then
                     (let raw = beautifyFormalSpec env (FormalSpec (hd rows));
                          description =
                            (if length (trim (Description (hd rows))) \<noteq> 0
                             then Description (hd rows) else Description row0)
                      in case methodDocumentation env st1 description of
                           (st2, d) \<Rightarrow>
                             (NewSignature
                                (Some \<lparr>signatures =
                                         [\<lparr>label = raw @ js '' As '' @ baseclass,
                                           SignatureInformation.parameters =
                                             formalSpecToParamsArr raw,
                                           documentation = d\<rparr>],
                                       activeSignature = 0, activeParameter = Some 0\<rparr>),
                              st2\<lparr>signatureHelpStartPosition := Some pos\<rparr>))
                   else (NewSignature None, st1))
                else
                  (case memberRow env st1 baseclass row0 of
                     (st2, memobj) \<Rightarrow>
                       if FormalSpec memobj \<noteq> [] then
                         (let raw = beautifyFormalSpec env (FormalSpec memobj)
                          in case methodDocumentation env st2 (Description memobj) of
                               (st3, d) \<Rightarrow>
                                 (NewSignature
                                    (Some \<lparr>signatures =
                                             [\<lparr>label =
                                                 (if member = js ''%Open'' \<or> member = js ''%OpenId''
                                                  then raw @ js '' As '' @ baseclass
                                                  else if ReturnType memobj \<noteq> []
                                                  then raw @ js '' As '' @ ReturnType memobj
                                                  else raw),
                                               SignatureInformation.parameters =
                                                 formalSpecToParamsArr raw,
                                               documentation = d\<rparr>],
                                           activeSignature = 0, activeParameter = Some 0\<rparr>),
                                  st3\<lparr>signatureHelpStartPosition := Some pos\<rparr>))
                       else (NewSignature None, st2))))"

text \<open>The routine resolver, tried when \<open>newsignature\<close> is still \<open>null\<close>.\<close>

definition routineOnOpen ::
  "Services \<Rightarrow> Session \<Rightarrow> TextDocument \<Rightarrow> token list list \<Rightarrow> Position \<Rightarrow> int \<Rightarrow> jsstring \<Rightarrow>
   SignatureHelp option \<times> Session" where
  "routineOnOpen env st doc parsed pos thistoken paramsUri =
     (case getRoutineSignatureDetails (routineSource env) doc parsed (line pos) thistoken
             paramsUri of
        None \<Rightarrow> (None, st)
      | Some routineDetails \<Rightarrow>
          let initialActive =
                (if length (SignatureInformation.parameters (signature routineDetails)) \<noteq> 0
                 then Some 0 else None);
              initialDoc =
                buildRoutineDocumentation (signature routineDetails) initialActive
                  signatureOptions
          in (Some \<lparr>signatures = [(signature routineDetails)\<lparr>documentation := Some initialDoc\<rparr>],
                    activeSignature = 0, activeParameter = initialActive\<rparr>,
              st\<lparr>signatureHelpDocumentationCache :=
                   Some \<lparr>cacheType = routineType, cacheDoc = initialDoc\<rparr>,
                 signatureHelpStartPosition := Some (start routineDetails)\<rparr>))"

text \<open>The whole branch: the three resolvers in their order, then the answer.\<close>

definition onOpenParen ::
  "Services \<Rightarrow> Session \<Rightarrow> TextDocument \<Rightarrow> token list list \<Rightarrow> SignatureHelpParams \<Rightarrow>
   SignatureHelpContext \<Rightarrow> int \<Rightarrow> outcome" where
  "onOpenParen env st doc parsed params ctx thistoken =
     (let pos = position params;
          prev = parsed ! nat (line pos) ! nat (thistoken - 1);
          first =
            (if tok_l prev = cos_langindex env \<and> tok_s prev = cos_macro_attrindex env then
               (case macroOnOpen env st doc parsed pos thistoken prev of
                  Inl e \<Rightarrow> Inl e
                | Inr (new, st1) \<Rightarrow> Inr (NewSignature new, st1))
             else if tok_l prev = cos_langindex env \<and>
                     (tok_s prev = cos_method_attrindex env \<or> tok_s prev = cos_mem_attrindex env)
             then Inr (memberOnOpen env st doc parsed pos thistoken prev)
             else Inr (NewSignature None, st))
      in case first of
           Inl e \<Rightarrow> Inl e
         | Inr (Returned r, st1) \<Rightarrow> Inr (r, st1)
         | Inr (NewSignature (Some new), st1) \<Rightarrow> Inr (Some new, st1)
         | Inr (NewSignature None, st1) \<Rightarrow>
             (case routineOnOpen env st1 doc parsed pos thistoken (uri params) of
                (Some new, st2) \<Rightarrow> Inr (Some new, st2)
              | (None, st2) \<Rightarrow>
                  (case activeSignatureHelp ctx of
                     None \<Rightarrow> Inr (None, st2)
                   | Some help \<Rightarrow>
                       (case signatureHelpDocumentationCache st2 of
                          None \<Rightarrow> Inr (Some help, st2)
                        | Some cache \<Rightarrow>
                            (case setFirstDocumentation (Some (cacheDoc cache)) help of
                               Inl e \<Rightarrow> Inl e
                             | Inr help1 \<Rightarrow> Inr (Some help1, st2))))))"

subsection \<open>Signature help was invoked, or a comma was typed\<close>

text \<open>\<open>Position.create(sigstartln, parsed[sigstartln][sigstarttkn].p + 1)\<close>, which throws
  when there is no such token.\<close>

definition afterParen :: "token list list \<Rightarrow> int \<Rightarrow> int \<Rightarrow> failure + Position" where
  "afterParen parsed sigstartln sigstarttkn =
     (case tokenAt parsed sigstartln sigstarttkn of
        None \<Rightarrow> Inl TypeError
      | Some paren \<Rightarrow> Inr \<lparr>line = sigstartln, character = tok_p paren + 1\<rparr>)"

definition macroOnInvoked ::
  "Services \<Rightarrow> Session \<Rightarrow> TextDocument \<Rightarrow> token list list \<Rightarrow> Position \<Rightarrow> int \<Rightarrow> int \<Rightarrow> token \<Rightarrow>
   outcome" where
  "macroOnInvoked env st doc parsed pos sigstartln sigstarttkn prev =
     (let inputdata = macroInputData env doc parsed sigstartln sigstarttkn prev;
          st1 = st\<lparr>sent := sent st @ [GetMacroSignature inputdata]\<rparr>
      in case macroSignature env inputdata of
           None \<Rightarrow> Inr (None, st1)
         | Some response \<Rightarrow>
             if response = [] then Inr (None, st1)
             else
               (case afterParen parsed sigstartln sigstarttkn of
                  Inl e \<Rightarrow> Inl e
                | Inr sigstart \<Rightarrow>
                    let sigtext = spaceAfterCommas (removeWhitespace response);
                        sig = \<lparr>label = sigtext,
                               SignatureInformation.parameters = formalSpecToParamsArr sigtext,
                               documentation = None\<rparr>;
                        raw = determineActiveParam env (getText doc (sigstart, pos));
                        macroParamCount = length (SignatureInformation.parameters sig);
                        activeparam =
                          (if macroParamCount > 0 then clampIndex raw macroParamCount else raw);
                        macroCache = macroCacheOf inputdata (label sig);
                        st2 = st1\<lparr>signatureHelpMacroCache := Some macroCache\<rparr>
                    in case emphasizeArgument (label sig) (activeparam + 1) of
                         None \<Rightarrow> Inl NoReturn
                       | Some emphasized \<Rightarrow>
                           (case expandMacro env st2 (macroCache\<lparr>arguments := emphasized\<rparr>) of
                              (st3, d) \<Rightarrow>
                                Inr (Some \<lparr>signatures = [sig\<lparr>documentation := d\<rparr>],
                                           activeSignature = 0,
                                           activeParameter = Some activeparam\<rparr>,
                                     (case d of
                                        None \<Rightarrow> st3
                                      | Some m \<Rightarrow>
                                          st3\<lparr>signatureHelpDocumentationCache :=
                                                Some \<lparr>cacheType = macroType, cacheDoc = m\<rparr>\<rparr>)
                                     \<lparr>signatureHelpStartPosition := Some sigstart\<rparr>))))"

text \<open>
  For the constructor with an overridden \<open>%OnNew\<close> this branch fills \<open>newsignature\<close> and
  the session, but has no \<open>return\<close> for it: the request ends with \<open>null\<close>.
\<close>

definition memberOnInvoked ::
  "Services \<Rightarrow> Session \<Rightarrow> TextDocument \<Rightarrow> token list list \<Rightarrow> Position \<Rightarrow> int \<Rightarrow> int \<Rightarrow> token \<Rightarrow>
   outcome" where
  "memberOnInvoked env st doc parsed pos sigstartln sigstarttkn prev =
     (let member =
            getText doc
              (\<lparr>line = sigstartln, character = tok_p prev\<rparr>,
               \<lparr>line = sigstartln, character = tok_p prev + tok_c prev\<rparr>);
          unquotedname = quoteUDLIdentifier env member;
          baseclass = getClassMemberContext env doc parsed (sigstarttkn - 2) sigstartln
      in if baseclass = [] then Inr (None, st)
         else
           (case queryMember env st member baseclass unquotedname of
              (st1, None) \<Rightarrow> Inr (None, st1)
            | (st1, Some []) \<Rightarrow> Inr (None, st1)
            | (st1, Some (row0 # rows)) \<Rightarrow>
                if member = js ''%New'' then
                  (if length (row0 # rows) = 2 \<and>
                      Origin (hd rows) \<noteq> js ''%Library.RegisteredObject''
                   then
                     (let description =
                            (if length (trim (Description (hd rows))) \<noteq> 0
                             then Description (hd rows) else Description row0)
                      in case methodDocumentation env st1 description of
                           (st2, d) \<Rightarrow>
                             (case afterParen parsed sigstartln sigstarttkn of
                                Inl e \<Rightarrow> Inl e
                              | Inr sigstart \<Rightarrow>
                                  Inr (None, st2\<lparr>signatureHelpStartPosition := Some sigstart\<rparr>)))
                   else Inr (None, st1))
                else
                  (case memberRow env st1 baseclass row0 of
                     (st2, memobj) \<Rightarrow>
                       if FormalSpec memobj \<noteq> [] then
                         (let raw = beautifyFormalSpec env (FormalSpec memobj)
                          in case methodDocumentation env st2 (Description memobj) of
                               (st3, d) \<Rightarrow>
                                 (case afterParen parsed sigstartln sigstarttkn of
                                    Inl e \<Rightarrow> Inl e
                                  | Inr sigstart \<Rightarrow>
                                      let paramInfos = formalSpecToParamsArr raw;
                                          methodActive =
                                            determineActiveParam env (getText doc (sigstart, pos));
                                          boundedMethodActive =
                                            (if length paramInfos > 0
                                             then Some (clampIndex methodActive (length paramInfos))
                                             else None)
                                      in Inr (Some \<lparr>signatures =
                                                [\<lparr>label =
                                                    (if member = js ''%Open'' \<or> member = js ''%OpenId''
                                                     then raw @ js '' As '' @ baseclass
                                                     else if ReturnType memobj \<noteq> []
                                                     then raw @ js '' As '' @ ReturnType memobj
                                                     else raw),
                                                  SignatureInformation.parameters = paramInfos,
                                                  documentation = d\<rparr>],
                                              activeSignature = 0,
                                              activeParameter = boundedMethodActive\<rparr>,
                                           st3\<lparr>signatureHelpStartPosition := Some sigstart\<rparr>)))
                       else Inr (None, st2))))"

definition beforePosition :: "Position \<Rightarrow> Position \<Rightarrow> bool" where
  "beforePosition pos startPos =
     (line pos < line startPos \<or> (line pos = line startPos \<and> character pos < character startPos))"

definition routineOnInvoked ::
  "Services \<Rightarrow> Session \<Rightarrow> TextDocument \<Rightarrow> token list list \<Rightarrow> Position \<Rightarrow> int \<Rightarrow> int \<Rightarrow> jsstring \<Rightarrow>
   outcome" where
  "routineOnInvoked env st doc parsed pos sigstartln sigstarttkn paramsUri =
     (case getRoutineSignatureDetails (routineSource env) doc parsed sigstartln sigstarttkn
             paramsUri of
        None \<Rightarrow> Inr (None, st)
      | Some routineDetails \<Rightarrow>
          let startPos = start routineDetails;
              activeParamValue =
                (if beforePosition pos startPos then 0
                 else determineActiveParam env (getText doc (startPos, pos)));
              paramInfos = SignatureInformation.parameters (signature routineDetails);
              boundedIndex =
                (if length paramInfos \<noteq> 0
                 then Some (clampIndex activeParamValue (length paramInfos)) else None);
              docContent =
                buildRoutineDocumentation (signature routineDetails) boundedIndex signatureOptions
          in Inr (Some \<lparr>signatures =
                          [(signature routineDetails)\<lparr>documentation := Some docContent\<rparr>],
                        activeSignature = 0, activeParameter = boundedIndex\<rparr>,
                  st\<lparr>signatureHelpDocumentationCache :=
                       Some \<lparr>cacheType = routineType, cacheDoc = docContent\<rparr>,
                     signatureHelpStartPosition := Some startPos\<rparr>))"

definition onInvoked ::
  "Services \<Rightarrow> Session \<Rightarrow> TextDocument \<Rightarrow> token list list \<Rightarrow> SignatureHelpParams \<Rightarrow> int \<Rightarrow>
   outcome" where
  "onInvoked env st doc parsed params thistoken =
     (let pos = position params;
          found = findOpenParen env doc parsed (line pos) thistoken;
          sigstartln = fst found;
          sigstarttkn = snd found
      in if sigstartln \<noteq> - 1 \<and> sigstarttkn \<noteq> - 1 then
           (case tokenAt parsed sigstartln (sigstarttkn - 1) of
              None \<Rightarrow> Inl TypeError
            | Some prev \<Rightarrow>
                if tok_l prev = cos_langindex env \<and> tok_s prev = cos_macro_attrindex env then
                  macroOnInvoked env st doc parsed pos sigstartln sigstarttkn prev
                else if tok_l prev = cos_langindex env \<and>
                        (tok_s prev = cos_method_attrindex env \<or>
                         tok_s prev = cos_mem_attrindex env)
                then memberOnInvoked env st doc parsed pos sigstartln sigstarttkn prev
                else routineOnInvoked env st doc parsed pos sigstartln sigstarttkn (uri params))
         else Inr (None, st))"

subsection \<open>The request\<close>

definition noSignatureAttribute :: "Services \<Rightarrow> int \<Rightarrow> bool" where
  "noSignatureAttribute env triggerattr =
     (triggerattr = cos_comment_attrindex env \<or> triggerattr = cos_dcom_attrindex env \<or>
      triggerattr = cos_str_attrindex env)"

definition onSignatureHelp :: "Services \<Rightarrow> Session \<Rightarrow> SignatureHelpParams \<Rightarrow> outcome" where
  "onSignatureHelp env st params =
     (case requestContext params of
        None \<Rightarrow> Inr (None, st)
      | Some ctx0 \<Rightarrow>
     (case documents env (uri params) of
        None \<Rightarrow> Inr (None, st)
      | Some doc \<Rightarrow>
     (case getParsedDocument env (uri params) of
        None \<Rightarrow> Inr (None, st)
      | Some parsed \<Rightarrow>
     (case invokedContext doc (position params) ctx0 of
        Inl e \<Rightarrow> Inl e
      | Inr ctx \<Rightarrow>
          let pos = position params
          in if \<not> (0 \<le> line pos \<and> line pos < int (length parsed)) then Inl TypeError
             else
               let tokens = parsed ! nat (line pos);
                   thistoken = thisTokenLoop tokens (character pos) 0
               in if thistoken = - 1 then Inr (None, st)
                  else
                    let triggerlang = tok_l (tokens ! nat thistoken);
                        triggerattr = tok_s (tokens ! nat thistoken)
                    in if triggerlang \<noteq> cos_langindex env \<or> insideString doc pos then
                         (case activeSignatureHelp ctx of
                            None \<Rightarrow> Inr (None, st)
                          | Some help \<Rightarrow>
                              (case setFirstDocumentation (cachedDoc st) help of
                                 Inl e \<Rightarrow> Inl e
                               | Inr help1 \<Rightarrow> Inr (Some help1, st)))
                       else if isRetrigger ctx \<and> triggerCharacter ctx \<noteq> Some (js ''('') then
                         retrigger env st doc pos ctx
                       else if triggerCharacter ctx = Some (js ''('') \<and>
                               triggerlang = cos_langindex env \<and>
                               \<not> noSignatureAttribute env triggerattr \<and> thistoken > 0
                       then onOpenParen env st doc parsed params ctx thistoken
                       else if \<not> isRetrigger ctx \<and> triggerlang = cos_langindex env \<and>
                               \<not> noSignatureAttribute env triggerattr \<and>
                               (triggerCharacter ctx = Some (js '','') \<or> triggerKind ctx = 1)
                       then onInvoked env st doc parsed params thistoken
                       else Inr (None, st)))))"

section \<open>The signature of a method for the hover (\<open>ccs/hover/classSupport.ts\<close>)\<close>

record MethodSignatureDetails =
  methodSignature :: SignatureInformation
  methodStart :: Position

text \<open>The \<open>else if\<close> chain on \<open>stubParts[2]\<close>.\<close>

definition hoverStubQuery :: "jsstring \<Rightarrow> jsstring" where
  "hoverStubQuery origin =
     (if origin = js ''i'' then indexMethodQuery
      else if origin = js ''q'' then queryMethodQuery
      else if origin = js ''a'' then propertyMethodQuery
      else if origin = js ''n'' then constraintMethodQuery
      else [])"

text \<open>
  \<open>getMethodSignatureDetails\<close>. The hover does not touch the session; the fields of a
  row are strings, so that the tests \<open>typeof ... === 'string'\<close> hold.
\<close>

definition getMethodSignatureDetails ::
  "Services \<Rightarrow> TextDocument \<Rightarrow> token list list \<Rightarrow> int \<Rightarrow> int \<Rightarrow> MethodSignatureDetails option" where
  "getMethodSignatureDetails env doc parsed parenLine parenToken =
     (case tokenAt parsed parenLine parenToken of
        None \<Rightarrow> None
      | Some paren \<Rightarrow>
     (case tokenAt parsed parenLine (parenToken - 1) of
        None \<Rightarrow> None
      | Some calleeToken \<Rightarrow>
          if tok_l calleeToken \<noteq> cos_langindex env \<or>
             \<not> (tok_s calleeToken = cos_method_attrindex env \<or>
                tok_s calleeToken = cos_mem_attrindex env)
          then None
          else
            let member =
                  getText doc
                    (\<lparr>line = parenLine, character = tok_p calleeToken\<rparr>,
                     \<lparr>line = parenLine, character = tok_p calleeToken + tok_c calleeToken\<rparr>);
                unquotedName = quoteUDLIdentifier env member;
                baseclass = getClassMemberContext env doc parsed (parenToken - 2) parenLine
            in if baseclass = [] then None
               else
                 (case queryRows env (if member = js ''%New'' then newQuery else memberQuery)
                         (if member = js ''%New''
                          then [Some baseclass, Some unquotedName, Some (js ''%OnNew'')]
                          else [Some baseclass, Some unquotedName]) of
                    None \<Rightarrow> None
                  | Some [] \<Rightarrow> None
                  | Some (row0 # rows) \<Rightarrow>
                      let startPos = \<lparr>line = parenLine, character = tok_p paren + 1\<rparr>
                      in if member = js ''%New'' then
                           (if length (row0 # rows) = 2 \<and>
                               Origin (hd rows) \<noteq> js ''%Library.RegisteredObject''
                            then
                              (if FormalSpec (hd rows) = [] then None
                               else
                                 let raw = beautifyFormalSpec env (FormalSpec (hd rows))
                                 in Some \<lparr>methodSignature =
                                            \<lparr>label = raw @ js '' As '' @ baseclass,
                                             SignatureInformation.parameters =
                                               formalSpecToParamsArr raw,
                                             documentation = None\<rparr>,
                                          methodStart = startPos\<rparr>)
                            else None)
                         else
                           let stubParts = splitChar 46 (Stub row0);
                               stubQuery =
                                 (if Stub row0 \<noteq> [] \<and> length stubParts \<ge> 3
                                  then hoverStubQuery (stubParts ! 2) else []);
                               methodRow =
                                 (if stubQuery \<noteq> [] then
                                    (case queryRows env stubQuery
                                            [Some (stubParts ! 1), Some baseclass,
                                             Some (stubParts ! 0)] of
                                       None \<Rightarrow> row0
                                     | Some [] \<Rightarrow> row0
                                     | Some (stubRow # _) \<Rightarrow> stubRow)
                                  else row0)
                           in if FormalSpec methodRow = [] then None
                              else
                                let raw = beautifyFormalSpec env (FormalSpec methodRow)
                                in Some \<lparr>methodSignature =
                                           \<lparr>label =
                                              (if member = js ''%Open'' \<or> member = js ''%OpenId''
                                               then raw @ js '' As '' @ baseclass
                                               else if ReturnType methodRow \<noteq> []
                                               then raw @ js '' As '' @ ReturnType methodRow
                                               else raw),
                                            SignatureInformation.parameters =
                                              formalSpecToParamsArr raw,
                                            documentation = None\<rparr>,
                                         methodStart = startPos\<rparr>)))"

section \<open>Examples\<close>

subsection \<open>A call of a label of another routine\<close>

text \<open>
  A document whose only line is the call \<open>DO Label^Routine(\<close>, with its five tokens,
  and a server that knows the routine \<open>Routine\<close> with the text \<open>Label(p1,p2)\<close> followed
  by a line break.
\<close>

definition callDocument :: TextDocument where
  "callDocument = singleLineDocument (js ''objectscript-class'') (js ''DO Label^Routine('')"

definition callTokens :: "token list list" where
  "callTokens =
     [[\<lparr>tok_p = 0, tok_c = 2, tok_l = 1, tok_s = 32\<rparr>,
       \<lparr>tok_p = 3, tok_c = 5, tok_l = 1, tok_s = 13\<rparr>,
       \<lparr>tok_p = 8, tok_c = 1, tok_l = 1, tok_s = 5\<rparr>,
       \<lparr>tok_p = 9, tok_c = 7, tok_l = 1, tok_s = 14\<rparr>,
       \<lparr>tok_p = 16, tok_c = 1, tok_l = 1, tok_s = 5\<rparr>]]"

definition routineServer :: RoutineSource where
  "routineServer =
     \<lparr>index =
        (\<lambda>name. if name = js ''Routine.int''
                then Some [\<lparr>status = [], others = Some [js ''Routine.mac'']\<rparr>]
                else None),
      createDefinitionUri = (\<lambda>uri name ext. uri @ name @ ext),
      getTextForUri =
        (\<lambda>uri. if uri = js ''isfs://server/Routine.mac''
               then Some (splitLines (js ''Label(p1,p2)'' @ [10]))
               else None)\<rparr>"

text \<open>
  A server that knows the routine \<open>Routine\<close> with four lines: a label line that opens
  a parameter list and does not close it, two continuation lines, and the line of the
  next label.
\<close>

definition unclosedServer :: RoutineSource where
  "unclosedServer =
     \<lparr>index =
        (\<lambda>name. if name = js ''Routine.int''
                then Some [\<lparr>status = [], others = Some [js ''Routine.mac'']\<rparr>]
                else None),
      createDefinitionUri = (\<lambda>uri name ext. uri @ name @ ext),
      getTextForUri =
        (\<lambda>uri. if uri = js ''isfs://server/Routine.mac''
               then Some (splitLines
                 (js ''Label(p1, ; first'' @ [10] @ js ''   p2,'' @ [10] @
                  js '' p3 ; third'' @ [10] @ js ''Other(a)''))
               else None)\<rparr>"

subsection \<open>The active parameter from the typed text\<close>

text \<open>
  Modelled from the spec: \<open>determineActiveParam\<close> is a function of \<open>utils/functions\<close>,
  which is not among the sources; the engine takes it as the service
  \<open>determineActiveParam\<close>. The specification says that it "counts unescaped top-level
  commas outside quoted regions and outside nested parens (same discipline as 4.3/4.4) to
  produce a raw index". This definition is used for the examples only.
\<close>

fun countTopLevelCommas :: "jsstring \<Rightarrow> bool \<Rightarrow> int \<Rightarrow> int \<Rightarrow> int \<Rightarrow> int" where
  "countTopLevelCommas [] inString depth curly n = n"
| "countTopLevelCommas (c # cs) inString depth curly n =
     (if c = 34 then countTopLevelCommas cs (\<not> inString) depth curly n
      else if inString then countTopLevelCommas cs inString depth curly n
      else if c = 40 then countTopLevelCommas cs inString (depth + 1) curly n
      else if c = 41 then countTopLevelCommas cs inString (depth - 1) curly n
      else if c = 123 then countTopLevelCommas cs inString depth (curly + 1) n
      else if c = 125 then countTopLevelCommas cs inString depth (curly - 1) n
      else if c = 44 \<and> depth = 0 \<and> curly = 0
      then countTopLevelCommas cs inString depth curly (n + 1)
      else countTopLevelCommas cs inString depth curly n)"

definition determineActiveParamSpec :: "jsstring \<Rightarrow> int" where
  "determineActiveParamSpec text = countTopLevelCommas text False 0 0 0"

subsection \<open>Services over one document\<close>

text \<open>
  Services for a single open document with its tokens. The indices of the language
  definitions are sample values; the helpers are the simplest ones (the full range of a
  macro is the range of its token, the class of a member is \<open>My.Class\<close>, a formal spec
  is beautified by enclosing it in parentheses); the server has no macro, no method and
  the routine of the example above.
\<close>

definition exampleServices :: "TextDocument \<Rightarrow> token list list \<Rightarrow> Services" where
  "exampleServices doc parsed =
     \<lparr>documents = (\<lambda>u. Some doc),
      getParsedDocument = (\<lambda>u. Some parsed),
      documentationSetting = True,
      cos_langindex = 1,
      cos_comment_attrindex = 3,
      cos_dcom_attrindex = 4,
      cos_str_attrindex = 6,
      cos_macro_attrindex = 30,
      cos_method_attrindex = 23,
      cos_mem_attrindex = 24,
      getMacroContext =
        (\<lambda>d p ln. \<lparr>docname = js ''My.Class.cls'', superclasses = [], macroIncludes = [],
                    includegenerators = [], macroImports = [], mode = []\<rparr>),
      findFullRange =
        (\<lambda>ln p tk a b. (\<lparr>line = ln, character = a\<rparr>, \<lparr>line = ln, character = b\<rparr>)),
      getClassMemberContext = (\<lambda>d p tk ln. js ''My.Class''),
      quoteUDLIdentifier = (\<lambda>name. name),
      beautifyFormalSpec = (\<lambda>formalSpec. js ''('' @ formalSpec @ js '')''),
      documaticHtmlToMarkdown = (\<lambda>html. html),
      findOpenParen = (\<lambda>d p ln tk. (- 1, - 1)),
      determineActiveParam = determineActiveParamSpec,
      macroSignature = (\<lambda>inputdata. None),
      macroExpansion = (\<lambda>expinputdata. None),
      queryRows = (\<lambda>query params. None),
      routineSource = routineServer\<rparr>"

definition emptySession :: Session where
  "emptySession =
     \<lparr>signatureHelpMacroCache = None, signatureHelpDocumentationCache = None,
      signatureHelpStartPosition = None, sent = []\<rparr>"

text \<open>The document \<open>$$$MyMacro(a)\<close> with the cursor behind the closing parenthesis, and
  the session of the macro signature that the open parenthesis started.\<close>

definition macroDocument :: TextDocument where
  "macroDocument = singleLineDocument (js ''objectscript-class'') (js ''$$$MyMacro(a)'')"

definition macroTokens :: "token list list" where
  "macroTokens =
     [[\<lparr>tok_p = 0, tok_c = 10, tok_l = 1, tok_s = 30\<rparr>,
       \<lparr>tok_p = 10, tok_c = 1, tok_l = 1, tok_s = 5\<rparr>,
       \<lparr>tok_p = 11, tok_c = 1, tok_l = 1, tok_s = 13\<rparr>,
       \<lparr>tok_p = 12, tok_c = 1, tok_l = 1, tok_s = 5\<rparr>]]"

definition macroHelp :: SignatureHelp where
  "macroHelp =
     \<lparr>signatures =
        [\<lparr>label = js ''(arg1)'', SignatureInformation.parameters = [(1, 5)],
          documentation = Some (markdown (js ''<pre>x</pre>''))\<rparr>],
      activeSignature = 0, activeParameter = Some 0\<rparr>"

definition macroSession :: Session where
  "macroSession =
     \<lparr>signatureHelpMacroCache =
        Some \<lparr>docname = js ''My.Class.cls'', superclasses = [], macroIncludes = [],
              includegenerators = [], macroImports = [], mode = [],
              macroname = js ''MyMacro'', arguments = js ''(arg1)''\<rparr>,
      signatureHelpDocumentationCache =
        Some \<lparr>cacheType = macroType, cacheDoc = markdown (js ''<pre>x</pre>'')\<rparr>,
      signatureHelpStartPosition = Some \<lparr>line = 0, character = 11\<rparr>,
      sent = []\<rparr>"

definition closingRequest :: SignatureHelpParams where
  "closingRequest =
     \<lparr>uri = js ''file:///My.Class.cls'',
      position = \<lparr>line = 0, character = 13\<rparr>,
      requestContext =
        Some \<lparr>triggerKind = 2, triggerCharacter = Some (js '')''), isRetrigger = True,
              activeSignatureHelp = Some macroHelp\<rparr>\<rparr>"

text \<open>The document \<open>Do obj.Method(1,2\<close> with the cursor behind the comma, and the session
  of a method signature with one parameter.\<close>

definition methodDocument :: TextDocument where
  "methodDocument = singleLineDocument (js ''objectscript-class'') (js ''Do obj.Method(1,2'')"

definition methodTokens :: "token list list" where
  "methodTokens =
     [[\<lparr>tok_p = 0, tok_c = 2, tok_l = 1, tok_s = 32\<rparr>,
       \<lparr>tok_p = 3, tok_c = 3, tok_l = 1, tok_s = 16\<rparr>,
       \<lparr>tok_p = 6, tok_c = 1, tok_l = 1, tok_s = 5\<rparr>,
       \<lparr>tok_p = 7, tok_c = 6, tok_l = 1, tok_s = 23\<rparr>,
       \<lparr>tok_p = 13, tok_c = 1, tok_l = 1, tok_s = 5\<rparr>,
       \<lparr>tok_p = 14, tok_c = 1, tok_l = 1, tok_s = 9\<rparr>,
       \<lparr>tok_p = 15, tok_c = 1, tok_l = 1, tok_s = 5\<rparr>,
       \<lparr>tok_p = 16, tok_c = 1, tok_l = 1, tok_s = 9\<rparr>]]"

definition methodHelp :: SignatureHelp where
  "methodHelp =
     \<lparr>signatures =
        [\<lparr>label = js ''(x As %Integer) As %Status'',
          SignatureInformation.parameters = [(1, 15)],
          documentation = Some (markdown (js ''A method.''))\<rparr>],
      activeSignature = 0, activeParameter = Some 0\<rparr>"

definition methodSession :: Session where
  "methodSession =
     \<lparr>signatureHelpMacroCache = None,
      signatureHelpDocumentationCache =
        Some \<lparr>cacheType = methodType, cacheDoc = markdown (js ''A method.'')\<rparr>,
      signatureHelpStartPosition = Some \<lparr>line = 0, character = 14\<rparr>,
      sent = []\<rparr>"

definition commaRequest :: SignatureHelpParams where
  "commaRequest =
     \<lparr>uri = js ''file:///My.Class.cls'',
      position = \<lparr>line = 0, character = 16\<rparr>,
      requestContext =
        Some \<lparr>triggerKind = 2, triggerCharacter = Some (js '',''), isRetrigger = True,
              activeSignatureHelp = Some methodHelp\<rparr>\<rparr>"

text \<open>The document \<open>$$$MyMacro(\<close> with the cursor behind the parenthesis just typed,
  and a server that answers \<open>response\<close> to every signature request.\<close>

definition macroOpenDocument :: TextDocument where
  "macroOpenDocument = singleLineDocument (js ''objectscript-class'') (js ''$$$MyMacro('')"

definition macroOpenTokens :: "token list list" where
  "macroOpenTokens =
     [[\<lparr>tok_p = 0, tok_c = 10, tok_l = 1, tok_s = 30\<rparr>,
       \<lparr>tok_p = 10, tok_c = 1, tok_l = 1, tok_s = 5\<rparr>]]"

definition macroServices :: "jsstring \<Rightarrow> Services" where
  "macroServices response =
     (exampleServices macroOpenDocument macroOpenTokens)
       \<lparr>macroSignature := (\<lambda>inputdata. Some response)\<rparr>"

definition macroOpenRequest :: SignatureHelpParams where
  "macroOpenRequest =
     \<lparr>uri = js ''file:///My.Class.cls'',
      position = \<lparr>line = 0, character = 11\<rparr>,
      requestContext =
        Some \<lparr>triggerKind = 2, triggerCharacter = Some (js ''(''), isRetrigger = False,
              activeSignatureHelp = None\<rparr>\<rparr>"

definition myMacroInput :: MacroInput where
  "myMacroInput =
     \<lparr>docname = js ''My.Class.cls'', superclasses = [], macroIncludes = [],
      includegenerators = [], macroImports = [], mode = [], macroname = js ''MyMacro''\<rparr>"

text \<open>The document \<open>##class(A).%New(\<close> with the cursor behind the parenthesis just
  typed, and a server whose class has the two rows of \<open>%New\<close> and \<open>%OnNew\<close>, both
  with the origin \<open>%Library.RegisteredObject\<close>.\<close>

definition newDocument :: TextDocument where
  "newDocument = singleLineDocument (js ''objectscript-class'') (js ''##class(A).%New('')"

definition newTokens :: "token list list" where
  "newTokens =
     [[\<lparr>tok_p = 0, tok_c = 7, tok_l = 1, tok_s = 35\<rparr>,
       \<lparr>tok_p = 7, tok_c = 1, tok_l = 1, tok_s = 5\<rparr>,
       \<lparr>tok_p = 8, tok_c = 1, tok_l = 1, tok_s = 36\<rparr>,
       \<lparr>tok_p = 9, tok_c = 1, tok_l = 1, tok_s = 5\<rparr>,
       \<lparr>tok_p = 10, tok_c = 1, tok_l = 1, tok_s = 5\<rparr>,
       \<lparr>tok_p = 11, tok_c = 4, tok_l = 1, tok_s = 23\<rparr>,
       \<lparr>tok_p = 15, tok_c = 1, tok_l = 1, tok_s = 5\<rparr>]]"

definition libraryRows :: "MethodRow list" where
  "libraryRows =
     [\<lparr>FormalSpec = js ''initvalue:%String'', ReturnType = js ''%Library.ObjectHandle'',
       Description = js ''Creates a new instance.'', Stub = [],
       Origin = js ''%Library.RegisteredObject''\<rparr>,
      \<lparr>FormalSpec = [], ReturnType = js ''%Library.Status'',
       Description = js ''Called by %New.'', Stub = [],
       Origin = js ''%Library.RegisteredObject''\<rparr>]"

definition newServices :: Services where
  "newServices =
     (exampleServices newDocument newTokens)
       \<lparr>queryRows := (\<lambda>query params. if query = newQuery then Some libraryRows else None)\<rparr>"

definition newRequest :: SignatureHelpParams where
  "newRequest =
     \<lparr>uri = js ''file:///My.Class.cls'',
      position = \<lparr>line = 0, character = 16\<rparr>,
      requestContext =
        Some \<lparr>triggerKind = 2, triggerCharacter = Some (js ''(''), isRetrigger = False,
              activeSignatureHelp = None\<rparr>\<rparr>"

section \<open>Properties of the argument emphasis\<close>

lemma removeWhitespace_clean: "c \<in> set (removeWhitespace s) \<Longrightarrow> \<not> isWhiteSpace c"
  by (simp add: removeWhitespace_def)

lemma indexOfAux_range: "indexOfAux c xs i = - 1 \<or> int i \<le> indexOfAux c xs i"
  by (induction xs arbitrary: i) (auto, force)

lemma indexOfAux_first: "indexOfAux c xs i = int i \<longleftrightarrow> xs \<noteq> [] \<and> hd xs = c"
proof (cases xs)
  case Nil
  then show ?thesis by simp
next
  case (Cons x ys)
  have "indexOfAux c ys (Suc i) = - 1 \<or> int (Suc i) \<le> indexOfAux c ys (Suc i)"
    by (rule indexOfAux_range)
  with Cons show ?thesis by auto
qed

lemma indexOf_zero: "indexOf s c 0 = 0 \<longleftrightarrow> s \<noteq> [] \<and> hd s = c"
  using indexOfAux_first [of c s 0] by (simp add: indexOf_def)

lemma emphasizeLoop_returns:
  "spacesfound + 2 \<le> arg \<Longrightarrow>
   emphasizeLoop arglist normalized arg endp lastspace spacesfound \<noteq> None"
proof (induction "nat (arg - spacesfound - 2)" arbitrary: spacesfound lastspace)
  case 0
  then have "arg = (spacesfound + 1) + 1" by simp
  then show ?case by (subst emphasizeLoop.simps) simp
next
  case (Suc n)
  then have step: "emphasizeLoop arglist normalized arg endp
      (indexOf normalized 32 lastspace) (spacesfound + 1) \<noteq> None"
    by (intro Suc.hyps(1)) auto
  show ?case by (subst emphasizeLoop.simps) (use step in simp)
qed

lemma emphasizeArgument_returns:
  assumes "2 \<le> arg \<or> (arg = 1 \<and> take 1 (replaceNbsp arglist) \<noteq> [32])"
  shows "emphasizeArgument arglist arg \<noteq> None"
proof (cases "2 \<le> arg")
  case True
  then have "emphasizeLoop arglist (replaceNbsp arglist) arg e 0 0 \<noteq> None" for e
    by (intro emphasizeLoop_returns) simp
  then show ?thesis
    by (simp add: emphasizeArgument_def Let_def)
next
  case False
  with assms have one: "arg = 1" and first: "take 1 (replaceNbsp arglist) \<noteq> [32]" by auto
  have "indexOf (replaceNbsp arglist) 32 0 \<noteq> 0"
    using first indexOf_zero [of "replaceNbsp arglist" 32]
    by (cases "replaceNbsp arglist") auto
  then show ?thesis
    using one by (auto simp: emphasizeArgument_def Let_def)
qed

lemmas emphasizeArgument_eval =
  emphasizeArgument_def js_def replaceNbsp_def removeWhitespace_def isWhiteSpace_def
  slice_def sliceFrom_def sliceIndex_def indexOf_def lastIndexOf_def emphasizePrefix_def
  emphasizeSuffix_def Let_def

text \<open>
  Claim C9. Whatever the argument list and the argument number, a string returned by
  \<open>emphasizeArgument\<close> holds no white space character: each of the three return
  paths removes the white space last. The second part says that the function does return
  for every argument number from 2 on, and for number 1 unless the list begins with a
  space (there the search loop may not end).
\<close>

theorem emphasizeArgument_no_whitespace:
  "(\<forall>r. emphasizeArgument arglist arg = Some r \<longrightarrow> (\<forall>c \<in> set r. \<not> isWhiteSpace c)) \<and>
   (2 \<le> arg \<or> (arg = 1 \<and> take 1 (replaceNbsp arglist) \<noteq> [32]) \<longrightarrow>
      emphasizeArgument arglist arg \<noteq> None)"
proof (intro conjI allI impI)
  fix r
  assume "emphasizeArgument arglist arg = Some r"
  then obtain t where "r = removeWhitespace t"
    by (auto simp: emphasizeArgument_def Let_def split: if_splits)
  then show "\<forall>c \<in> set r. \<not> isWhiteSpace c"
    by (simp add: removeWhitespace_def)
next
  assume "2 \<le> arg \<or> (arg = 1 \<and> take 1 (replaceNbsp arglist) \<noteq> [32])"
  then show "emphasizeArgument arglist arg \<noteq> None"
    by (rule emphasizeArgument_returns)
qed

theorem emphasizeArgument_no_whitespace_witness:
  "emphasizeArgument (js ''(A, B, C)'') 2 = Some (js ''(A,%%%%%B@@@@@,C)'') \<and>
   list_all (\<lambda>c. \<not> isWhiteSpace c) (js ''(A,%%%%%B@@@@@,C)'')"
proof -
  have e: "emphasizeArgument (js ''(A, B, C)'') 2 = Some (js ''(A,%%%%%B@@@@@,C)'')"
    by (simp add: emphasizeArgument_eval) (subst emphasizeLoop.simps, simp add: emphasizeArgument_eval)
  with emphasizeArgument_no_whitespace [of "js ''(A, B, C)''" 2] show ?thesis
    unfolding list_all_iff by blast
qed

lemma splitChar_nonempty: "splitChar c s \<noteq> []"
  by (induction s) (auto split: list.splits)

lemma length_splitChar: "length (splitChar c s) = Suc (length (filter (\<lambda>x. x = c) s))"
  by (induction s) (auto split: list.splits simp: splitChar_nonempty)

lemma splitChar_single: "length (splitChar c s) = 1 \<longleftrightarrow> c \<notin> set s"
  by (auto simp: length_splitChar filter_empty_conv)

lemma emphasizeArgument_beyond:
  "int (length (splitChar 32 (replaceNbsp arglist))) < arg \<Longrightarrow>
   emphasizeArgument arglist arg = Some (removeWhitespace (replaceNbsp arglist))"
  by (simp add: emphasizeArgument_def Let_def)

lemma emphasizeArgument_single:
  assumes "32 \<notin> set (replaceNbsp arglist)"
  shows "emphasizeArgument arglist 1 =
     Some (removeWhitespace
       (slice arglist 0 1 @ emphasizePrefix @ slice arglist 1 (int (length arglist) - 1) @
        emphasizeSuffix @ sliceFrom arglist (int (length arglist) - 1)))"
proof -
  have n: "length (splitChar 32 (replaceNbsp arglist)) = 1"
    using assms splitChar_single [of 32 "replaceNbsp arglist"] by simp
  have len: "length (replaceNbsp arglist) = length arglist"
    by (simp add: replaceNbsp_def)
  show ?thesis
  proof (cases "arglist = []")
    case True
    then show ?thesis
      by (simp add: emphasizeArgument_def Let_def replaceNbsp_def indexOf_def slice_def
          sliceFrom_def sliceIndex_def)
  next
    case False
    then have "int (length arglist) - 1 \<noteq> - 1" by simp
    then show ?thesis
      using n len by (simp add: emphasizeArgument_def Let_def splitChar_nonempty)
  qed
qed

text \<open>
  The list \<open>A B C\<close> has no enclosing parentheses: the first argument is taken to
  start at position 1 and to stop one before the first space, which leaves an empty span
  after the \<open>A\<close>.
\<close>

theorem emphasizeArgument_examples_counterexample:
  "emphasizeArgument (js ''A B C'') 1 = Some (js ''A%%%%%@@@@@ABC'') \<and>
   emphasizeArgument (js ''A B C'') 1 \<noteq> Some (js ''%%%%%A@@@@@BC'')"
  by (simp add: emphasizeArgument_eval)

text \<open>
  Claim C4, amended. In the parenthesised list \<open>(A, B, C)\<close>, emphasising argument 1
  wraps exactly \<open>A\<close> and emphasising argument 3 wraps exactly \<open>C\<close>; argument 4
  gives the list without white space and without markers (\<open>ABC\<close> for \<open>A B C\<close>).
  In \<open>A B C\<close> itself the markers of arguments 1 and 3 enclose the empty string.
  An argument number beyond the number of space-separated pieces always gives the list
  without white space, and in a list without a space argument 1 is the text from
  position 1 to the last position but one.
\<close>

theorem emphasizeArgument_examples:
  "emphasizeArgument (js ''(A, B, C)'') 1 = Some (js ''(%%%%%A@@@@@,B,C)'') \<and>
   emphasizeArgument (js ''(A, B, C)'') 3 = Some (js ''(A,B,%%%%%C@@@@@)'') \<and>
   emphasizeArgument (js ''(A, B, C)'') 4 = Some (js ''(A,B,C)'') \<and>
   emphasizeArgument (js ''A B C'') 4 = Some (js ''ABC'') \<and>
   emphasizeArgument (js ''A B C'') 1 = Some (js ''A%%%%%@@@@@ABC'') \<and>
   emphasizeArgument (js ''A B C'') 3 = Some (js ''AB%%%%%@@@@@C'') \<and>
   (int (length (splitChar 32 (replaceNbsp arglist))) < arg \<longrightarrow>
      emphasizeArgument arglist arg = Some (removeWhitespace (replaceNbsp arglist))) \<and>
   (32 \<notin> set (replaceNbsp arglist) \<longrightarrow>
      emphasizeArgument arglist 1 =
        Some (removeWhitespace
          (slice arglist 0 1 @ emphasizePrefix @ slice arglist 1 (int (length arglist) - 1) @
           emphasizeSuffix @ sliceFrom arglist (int (length arglist) - 1))))"
proof -
  have "emphasizeArgument (js ''(A, B, C)'') 1 = Some (js ''(%%%%%A@@@@@,B,C)'')"
    by (simp add: emphasizeArgument_eval)
  moreover have "emphasizeArgument (js ''(A, B, C)'') 3 = Some (js ''(A,B,%%%%%C@@@@@)'')"
    by (simp add: emphasizeArgument_eval)
  moreover have "emphasizeArgument (js ''(A, B, C)'') 4 = Some (js ''(A,B,C)'')"
    by (simp add: emphasizeArgument_eval)
  moreover have "emphasizeArgument (js ''A B C'') 4 = Some (js ''ABC'')"
    by (simp add: emphasizeArgument_eval)
  moreover have "emphasizeArgument (js ''A B C'') 1 = Some (js ''A%%%%%@@@@@ABC'')"
    by (simp add: emphasizeArgument_eval)
  moreover have "emphasizeArgument (js ''A B C'') 3 = Some (js ''AB%%%%%@@@@@C'')"
    by (simp add: emphasizeArgument_eval)
  ultimately show ?thesis
    using emphasizeArgument_beyond [of arglist arg] emphasizeArgument_single [of arglist]
    by blast
qed

theorem emphasizeArgument_examples_witness:
  "int (length (splitChar 32 (replaceNbsp (js ''(A, B)'')))) < 3 \<and>
   emphasizeArgument (js ''(A, B)'') 3 = Some (js ''(A,B)'') \<and>
   32 \<notin> set (replaceNbsp (js ''(A)'')) \<and>
   emphasizeArgument (js ''(A)'') 1 = Some (js ''(%%%%%A@@@@@)'')"
proof -
  have a: "int (length (splitChar 32 (replaceNbsp (js ''(A, B)'')))) < 3"
    by (simp add: js_def replaceNbsp_def)
  have b: "32 \<notin> set (replaceNbsp (js ''(A)''))"
    by (simp add: js_def replaceNbsp_def)
  have c: "removeWhitespace (replaceNbsp (js ''(A, B)'')) = js ''(A,B)''"
    by (simp add: emphasizeArgument_eval)
  have d: "removeWhitespace
          (slice (js ''(A)'') 0 1 @ emphasizePrefix @
           slice (js ''(A)'') 1 (int (length (js ''(A)'')) - 1) @
           emphasizeSuffix @ sliceFrom (js ''(A)'') (int (length (js ''(A)'')) - 1)) =
        js ''(%%%%%A@@@@@)''"
    by (simp add: emphasizeArgument_eval)
  from emphasizeArgument_examples [of "js ''(A, B)''" 3] a c
  have "emphasizeArgument (js ''(A, B)'') 3 = Some (js ''(A,B)'')" by simp
  moreover from emphasizeArgument_examples [of "js ''(A)''" 0] b d
  have "emphasizeArgument (js ''(A)'') 1 = Some (js ''(%%%%%A@@@@@)'')" by simp
  ultimately show ?thesis using a b by blast
qed



section \<open>Properties of the formal-spec splitter\<close>

lemma formalSpecLoop_snoc:
  "formalSpecLoop (cps @ [c]) idx st =
     formalSpecStep c (idx + int (length cps)) (formalSpecLoop cps idx st)"
  by (induction cps arbitrary: idx st) (simp_all add: algebra_simps)

lemma formalSpecStep_result:
  "result (formalSpecStep c idx st) =
     result st @ (if c = js '','' \<and> atTopLevel st then [(currentParamStart st, idx)] else [])"
  by (simp add: formalSpecStep_def atTopLevel_def js_def)

lemma formalSpecStep_start:
  "currentParamStart (formalSpecStep c idx st) =
     (if c = js '','' \<and> atTopLevel st then idx + 1 else currentParamStart st)"
  by (simp add: formalSpecStep_def atTopLevel_def js_def)

lemma endsOf_snoc:
  "endsOf (cps @ [c]) =
     endsOf cps @
     (if c = js '','' \<and> atTopLevel (formalSpecLoop cps 0 formalSpecInit)
      then [length cps] else [])"
proof -
  have "filter (\<lambda>i. (cps @ [c]) ! i = js '','' \<and>
            atTopLevel (formalSpecLoop (take i (cps @ [c])) 0 formalSpecInit)) [0 ..< length cps] =
        filter (\<lambda>i. cps ! i = js '','' \<and>
            atTopLevel (formalSpecLoop (take i cps) 0 formalSpecInit)) [0 ..< length cps]"
    by (rule filter_cong) (auto simp: nth_append)
  then show ?thesis
    by (simp add: endsOf_def)
qed

lemma formalSpecLoop_ends:
  "map snd (result (formalSpecLoop cps 0 formalSpecInit)) = map int (endsOf cps)"
proof (induction cps rule: rev_induct)
  case Nil
  then show ?case by (simp add: endsOf_def formalSpecInit_def)
next
  case (snoc c cps)
  then show ?case
    by (simp add: formalSpecLoop_snoc formalSpecStep_result endsOf_snoc)
qed

lemma formalSpecLoop_starts:
  "map fst (result (formalSpecLoop cps 0 formalSpecInit)) @
     [currentParamStart (formalSpecLoop cps 0 formalSpecInit)] =
   1 # map (\<lambda>i. int i + 1) (endsOf cps)"
proof (induction cps rule: rev_induct)
  case Nil
  then show ?case by (simp add: endsOf_def formalSpecInit_def)
next
  case (snoc c cps)
  let ?L = "formalSpecLoop cps 0 formalSpecInit"
  let ?L' = "formalSpecLoop (cps @ [c]) 0 formalSpecInit"
  show ?case
  proof (cases "c = js '','' \<and> atTopLevel ?L")
    case True
    then have r: "result ?L' = result ?L @ [(currentParamStart ?L, int (length cps))]"
      by (simp add: formalSpecLoop_snoc formalSpecStep_result)
    from True have st: "currentParamStart ?L' = int (length cps) + 1"
      by (simp add: formalSpecLoop_snoc formalSpecStep_start)
    from True have e: "endsOf (cps @ [c]) = endsOf cps @ [length cps]"
      by (simp add: endsOf_snoc)
    show ?thesis
      unfolding r st e using snoc.IH by simp
  next
    case False
    then have r: "result ?L' = result ?L"
      by (auto simp: formalSpecLoop_snoc formalSpecStep_result)
    from False have st: "currentParamStart ?L' = currentParamStart ?L"
      by (auto simp: formalSpecLoop_snoc formalSpecStep_start)
    from False have e: "endsOf (cps @ [c]) = endsOf cps"
      by (auto simp: endsOf_snoc)
    show ?thesis
      unfolding r st e using snoc.IH by simp
  qed
qed

lemma parameterEnds_endsOf: "parameterEnds s = endsOf (arrayFrom s)"
  by (simp add: parameterEnds_def endsOf_def scanBefore_def)

lemma formalSpecToParamsArr_ends:
  assumes "removeWhitespace s \<noteq> js ''()''"
  shows "map snd (formalSpecToParamsArr s) = map int (parameterEnds s) @ [int (length s) - 1]"
    and "map fst (formalSpecToParamsArr s) = 1 # map (\<lambda>i. int i + 1) (parameterEnds s)"
  using assms formalSpecLoop_ends [of "arrayFrom s"] formalSpecLoop_starts [of "arrayFrom s"]
  by (simp_all add: formalSpecToParamsArr_def Let_def parameterEnds_endsOf)

text \<open>
  Claim C3. Unless the formal spec is \<open>()\<close> up to white space, the spans returned by
  \<open>formalSpecToParamsArr\<close> end exactly at the commas that the scan meets outside a
  quoted substring, with brace depth zero and parenthesis depth one, and at the last
  offset of the string; the first span starts at offset 1 and every other one right
  after the comma that ended the span before it. A formal spec that is \<open>()\<close> up to
  white space has no span. The string \<open>(a, b(x,y), "c,d")\<close> has exactly the three
  spans that cover \<open>a\<close>, \<open>b(x,y)\<close> and \<open>"c,d"\<close> (the second and the third
  begin with the space after the comma).
\<close>

theorem formalSpecToParamsArr_splits:
  \<open>(removeWhitespace s \<noteq> js ''()'' \<longrightarrow>
      map snd (formalSpecToParamsArr s) = map int (parameterEnds s) @ [int (length s) - 1] \<and>
      map fst (formalSpecToParamsArr s) = 1 # map (\<lambda>i. int i + 1) (parameterEnds s)) \<and>
   (removeWhitespace s = js ''()'' \<longrightarrow> formalSpecToParamsArr s = []) \<and>
   formalSpecToParamsArr (js ''(a, b(x,y), "c,d")'') = [(1, 2), (3, 10), (11, 17)] \<and>
   slice (js ''(a, b(x,y), "c,d")'') 1 2 = js ''a'' \<and>
   trim (slice (js ''(a, b(x,y), "c,d")'') 3 10) = js ''b(x,y)'' \<and>
   trim (slice (js ''(a, b(x,y), "c,d")'') 11 17) = js ''"c,d"''\<close>
proof -
  have \<open>formalSpecToParamsArr (js ''(a, b(x,y), "c,d")'') = [(1, 2), (3, 10), (11, 17)]\<close>
    by (simp add: formalSpecToParamsArr_def js_def removeWhitespace_def isWhiteSpace_def
        formalSpecStep_def formalSpecInit_def isHighSurrogate_def Let_def)
  moreover have \<open>slice (js ''(a, b(x,y), "c,d")'') 1 2 = js ''a''\<close>
    by (simp add: js_def slice_def sliceIndex_def)
  moreover have \<open>trim (slice (js ''(a, b(x,y), "c,d")'') 3 10) = js ''b(x,y)''\<close>
    by (simp add: js_def slice_def sliceIndex_def trim_def trimEnd_def isWhiteSpace_def)
  moreover have \<open>trim (slice (js ''(a, b(x,y), "c,d")'') 11 17) = js ''"c,d"''\<close>
    by (simp add: js_def slice_def sliceIndex_def trim_def trimEnd_def isWhiteSpace_def)
  moreover have "removeWhitespace s = js ''()'' \<longrightarrow> formalSpecToParamsArr s = []"
    by (simp add: formalSpecToParamsArr_def)
  ultimately show ?thesis
    using formalSpecToParamsArr_ends [of s] by blast
qed

theorem formalSpecToParamsArr_splits_witness:
  "removeWhitespace (js ''(a,b)'') \<noteq> js ''()'' \<and>
   map snd (formalSpecToParamsArr (js ''(a,b)'')) = [2, 4] \<and>
   map fst (formalSpecToParamsArr (js ''(a,b)'')) = [1, 3] \<and>
   removeWhitespace (js ''( )'') = js ''()'' \<and>
   formalSpecToParamsArr (js ''( )'') = []"
proof -
  have a: "removeWhitespace (js ''(a,b)'') \<noteq> js ''()''"
    by (simp add: js_def removeWhitespace_def isWhiteSpace_def)
  have b: "removeWhitespace (js ''( )'') = js ''()''"
    by (simp add: js_def removeWhitespace_def isWhiteSpace_def)
  have c: "parameterEnds (js ''(a,b)'') = [2]"
    by (simp add: parameterEnds_def scanBefore_def atTopLevel_def js_def upt_rec
        formalSpecStep_def formalSpecInit_def isHighSurrogate_def)
  have d: "int (length (js ''(a,b)'')) - 1 = 4"
    by (simp add: js_def)
  from formalSpecToParamsArr_splits [of "js ''(a,b)''"] a c d
  have "map snd (formalSpecToParamsArr (js ''(a,b)'')) = [2, 4] \<and>
        map fst (formalSpecToParamsArr (js ''(a,b)'')) = [1, 3]"
    by simp
  moreover from formalSpecToParamsArr_splits [of "js ''( )''"] b
  have "formalSpecToParamsArr (js ''( )'') = []" by blast
  ultimately show ?thesis using a b by blast
qed


section \<open>Properties of the routine parameter splitter\<close>

lemma dropWhile_id: "xs = [] \<or> \<not> P (hd xs) \<Longrightarrow> dropWhile P xs = xs"
  by (cases xs) auto

lemma trimEnd_last: "trimEnd s \<noteq> [] \<Longrightarrow> \<not> isWhiteSpace (last (trimEnd s))"
  unfolding trimEnd_def
  by (metis hd_dropWhile last_rev rev_is_Nil_conv)

lemma trim_hd: "trim s \<noteq> [] \<Longrightarrow> \<not> isWhiteSpace (hd (trim s))"
  unfolding trim_def by (rule hd_dropWhile)

lemma trim_last: 
  assumes "trim s \<noteq> []"
  shows "\<not> isWhiteSpace (last (trim s))"
proof -
  have "trimEnd s = takeWhile isWhiteSpace (trimEnd s) @ trim s"
    by (simp add: trim_def)
  with assms have "last (trimEnd s) = last (trim s)"
    by (metis last_appendR)
  moreover from assms have "trimEnd s \<noteq> []"
    by (auto simp: trim_def)
  ultimately show ?thesis
    using trimEnd_last [of s] by simp
qed

lemma trim_idem: "trim (trim s) = trim s"
proof (cases "trim s = []")
  case True
  have "trim [] = []" by (simp add: trim_def trimEnd_def)
  with True show ?thesis by simp
next
  case False
  then have "\<not> isWhiteSpace (hd (rev (trim s)))"
    using trim_last [of s] by (simp add: hd_rev)
  then have "trimEnd (trim s) = trim s"
    by (simp add: trimEnd_def dropWhile_id)
  moreover have "dropWhile isWhiteSpace (trim s) = trim s"
    using False trim_hd [of s] by (simp add: dropWhile_id)
  ultimately show ?thesis
    by (simp add: trim_def)
qed

lemma splitRoutineStep_pieces:
  "set (pieces (splitRoutineStep normalized i st)) \<subseteq> set (pieces st) \<union> {trim (current st)}"
  by (auto simp: splitRoutineStep_def Let_def)

lemma fold_splitRoutineStep_trimmed:
  "(\<And>p. p \<in> set (pieces st) \<Longrightarrow> trim p = p) \<Longrightarrow>
   p \<in> set (pieces (fold (splitRoutineStep normalized) is st)) \<Longrightarrow> trim p = p"
proof (induction "is" arbitrary: st)
  case Nil
  then show ?case by simp
next
  case (Cons i "is")
  have "trim q = q" if "q \<in> set (pieces (splitRoutineStep normalized i st))" for q
    using that splitRoutineStep_pieces [of normalized i st] Cons.prems(1) trim_idem by blast
  with Cons.IH [of "splitRoutineStep normalized i st"] Cons.prems(2) show ?case
    by simp
qed

text \<open>
  Claim C10. Every string that \<open>splitRoutineParams\<close> returns is non-empty and is its own
  trim. An empty parameter is dropped wherever it stands, not only at the end of the list.
\<close>

theorem splitRoutineParams_trimmed:
  "(\<forall>param \<in> set (splitRoutineParams paramStr). param \<noteq> [] \<and> trim param = param) \<and>
   splitRoutineParams (js ''a, ,b,'') = [js ''a'', js ''b'']"
proof -
  have "param \<noteq> [] \<and> trim param = param"
    if "param \<in> set (splitRoutineParams paramStr)" for param
  proof -
    let ?n = "replaceNewlines paramStr"
    let ?st = "fold (splitRoutineStep ?n) [0 ..< length ?n]
                 \<lparr>pieces = [], current = [], quoted = False, parenDepth = 0\<rparr>"
    from that have ne: "param \<noteq> []" and
      mem: "param \<in> set (pieces ?st) \<or> param = trim (current ?st)"
      by (auto simp: splitRoutineParams_def Let_def split: if_splits)
    from mem have "trim param = param"
    proof
      assume "param \<in> set (pieces ?st)"
      then show ?thesis
        by (rule fold_splitRoutineStep_trimmed [rotated]) simp
    next
      assume "param = trim (current ?st)"
      then show ?thesis by (simp add: trim_idem)
    qed
    with ne show ?thesis by simp
  qed
  moreover have "splitRoutineParams (js ''a, ,b,'') = [js ''a'', js ''b'']"
    by (simp add: splitRoutineParams_def js_def trim_def trimEnd_def isWhiteSpace_def
        splitRoutineStep_def charAt_def upt_rec Let_def)
  ultimately show ?thesis by blast
qed

theorem splitRoutineParams_trimmed_witness:
  "splitRoutineParams (js '' p1 ,, p2'') = [js ''p1'', js ''p2''] \<and>
   js ''p1'' \<noteq> [] \<and> trim (js ''p1'') = js ''p1''"
proof -
  have e: "splitRoutineParams (js '' p1 ,, p2'') = [js ''p1'', js ''p2'']"
    by (simp add: splitRoutineParams_def js_def trim_def trimEnd_def isWhiteSpace_def
        splitRoutineStep_def charAt_def upt_rec Let_def)
  then have "js ''p1'' \<in> set (splitRoutineParams (js '' p1 ,, p2''))" by simp
  with splitRoutineParams_trimmed [of "js '' p1 ,, p2''"] e show ?thesis by blast
qed


section \<open>Properties of the routine resolver\<close>

lemma indexOfAux_none: "indexOfAux c xs i = - 1 \<longleftrightarrow> c \<notin> set xs"
proof (induction xs arbitrary: i)
  case Nil
  then show ?case by simp
next
  case (Cons x xs)
  then show ?case by auto
qed

lemma indexOf_none: "indexOf str c 0 = - 1 \<longleftrightarrow> c \<notin> set str"
  by (simp add: indexOf_def indexOfAux_none)

lemma stripRoutineComment_beginsLabel:
  assumes "beginsLabel ln"
  shows "beginsLabel (stripRoutineComment ln)"
proof (cases "indexOf ln 59 0 = - 1")
  case True
  with assms show ?thesis by (simp add: stripRoutineComment_def)
next
  case False
  from assms have ne: "ln \<noteq> []" and lab: "isLabelStart (hd ln)"
    by (auto simp: beginsLabel_def)
  from lab have "hd ln \<noteq> 59"
    by (auto simp: isLabelStart_def isAlpha_def)
  with ne have nz: "indexOf ln 59 0 \<noteq> 0"
    by (simp add: indexOf_zero)
  have "indexOf ln 59 0 = - 1 \<or> 0 \<le> indexOf ln 59 0"
    using indexOfAux_range [of 59 ln 0] by (simp add: indexOf_def)
  with False nz have pos: "0 < indexOf ln 59 0" by auto
  then have "stripRoutineComment ln = take (nat (min (indexOf ln 59 0) (int (length ln)))) ln"
    using False by (simp add: stripRoutineComment_def slice_def sliceIndex_def Let_def)
  moreover from pos ne have "0 < nat (min (indexOf ln 59 0) (int (length ln)))"
    by simp
  ultimately obtain n where "stripRoutineComment ln = take (Suc n) ln"
    by (metis Suc_pred)
  with ne lab show ?thesis
    by (cases ln) (auto simp: beginsLabel_def)
qed

lemma stripRoutineComment_take: "\<exists>n. stripRoutineComment ln = take n ln"
proof (cases "indexOf ln 59 0 = - 1")
  case True
  then have "stripRoutineComment ln = take (length ln) ln"
    by (simp add: stripRoutineComment_def)
  then show ?thesis ..
next
  case False
  have "indexOf ln 59 0 = - 1 \<or> 0 \<le> indexOf ln 59 0"
    using indexOfAux_range [of 59 ln 0] by (simp add: indexOf_def)
  with False have "0 \<le> indexOf ln 59 0" by auto
  with False have "stripRoutineComment ln = take (nat (min (indexOf ln 59 0) (int (length ln)))) ln"
    by (simp add: stripRoutineComment_def slice_def sliceIndex_def Let_def)
  then show ?thesis ..
qed

lemma beginsLabel_stripRoutineComment:
  "beginsLabel (stripRoutineComment ln) \<longleftrightarrow> beginsLabel ln"
proof
  assume b: "beginsLabel (stripRoutineComment ln)"
  obtain n where n: "stripRoutineComment ln = take n ln"
    using stripRoutineComment_take by blast
  from b n show "beginsLabel ln"
    by (cases ln; cases n) (auto simp: beginsLabel_def)
next
  assume "beginsLabel ln"
  then show "beginsLabel (stripRoutineComment ln)"
    by (rule stripRoutineComment_beginsLabel)
qed

lemma continuationLoop_stop:
  "searchIdx < k \<Longrightarrow> k < length ls \<Longrightarrow> beginsLabel (stripRoutineComment (ls ! k)) \<Longrightarrow>
   continuationLoop (take k ls) r c searchIdx = continuationLoop ls r c searchIdx"
proof (induction "k - searchIdx" arbitrary: searchIdx r c)
  case 0
  then show ?case by simp
next
  case (Suc n)
  show ?case
  proof (cases "Suc searchIdx = k")
    case True
    with Suc.prems show ?thesis
      by (subst continuationLoop.simps, subst (2) continuationLoop.simps)
         (simp add: beginsLabel_def Let_def)
  next
    case False
    with Suc.prems have lt: "Suc searchIdx < k" by simp
    with Suc have IH: "continuationLoop (take k ls) r' c' (Suc searchIdx) =
        continuationLoop ls r' c' (Suc searchIdx)" for r' c'
      by (intro Suc.hyps(1)) auto
    from lt Suc.prems show ?thesis
      by (subst continuationLoop.simps, subst (2) continuationLoop.simps)
         (simp add: Let_def IH)
  qed
qed

lemma set_trim: "set (trim str) \<subseteq> set str"
proof -
  have "set (trim str) \<subseteq> set (trimEnd str)"
    unfolding trim_def by (auto dest: set_dropWhileD)
  also have "\<dots> \<subseteq> set str"
    unfolding trimEnd_def by (auto dest: set_dropWhileD)
  finally show ?thesis .
qed

lemma joinContinuation_no_close:
  "41 \<notin> set r \<Longrightarrow> 41 \<notin> set l \<Longrightarrow> 41 \<notin> set (joinContinuation r l)"
  using set_trim [of l] by (auto simp: joinContinuation_def Let_def js_def)

lemma continuationLoop_unclosed:
  "41 \<notin> set r \<Longrightarrow>
   (\<And>j. searchIdx < j \<Longrightarrow> j < length ls \<Longrightarrow>
      \<not> beginsLabel (stripRoutineComment (ls ! j)) \<and> 41 \<notin> set (stripRoutineComment (ls ! j))) \<Longrightarrow>
   continuationLoop ls r (- 1) searchIdx =
     (foldl joinContinuation r (map stripRoutineComment (drop (Suc searchIdx) ls)), - 1)"
proof (induction "length ls - searchIdx" arbitrary: searchIdx r)
  case 0
  then show ?case
    by (subst continuationLoop.simps) simp
next
  case (Suc n)
  show ?case
  proof (cases "Suc searchIdx \<ge> length ls")
    case True
    then show ?thesis
      by (subst continuationLoop.simps) simp
  next
    case False
    then have lt: "Suc searchIdx < length ls" by simp
    let ?l = "stripRoutineComment (ls ! Suc searchIdx)"
    from Suc.prems(2) [of "Suc searchIdx"] lt
    have nolab: "\<not> beginsLabel ?l" and noclose: "41 \<notin> set ?l" by auto
    from Suc.prems(1) noclose have nc: "41 \<notin> set (joinContinuation r ?l)"
      by (rule joinContinuation_no_close)
    have IH: "continuationLoop ls (joinContinuation r ?l) (- 1) (Suc searchIdx) =
        (foldl joinContinuation (joinContinuation r ?l)
           (map stripRoutineComment (drop (Suc (Suc searchIdx)) ls)), - 1)"
      using Suc.hyps(2) Suc.prems(2) nc by (intro Suc.hyps(1)) auto
    have d: "drop (Suc searchIdx) ls = ls ! Suc searchIdx # drop (Suc (Suc searchIdx)) ls"
      using lt by (simp add: Cons_nth_drop_Suc)
    from nc have idx: "indexOf (joinContinuation r ?l) 41 0 = - 1"
      by (simp add: indexOf_none)
    from nolab have c: "\<not> (length ?l \<noteq> 0 \<and> isLabelStart (hd ?l))"
      by (simp add: beginsLabel_def)
    show ?thesis
      using lt
      by (subst continuationLoop.simps) (simp only: Let_def c idx IH d, simp)
  qed
qed

lemma findLabelLine_first:
  "i < length ls \<Longrightarrow> labelLineMatches lbl (ls ! i) \<Longrightarrow>
   (\<And>j. j < i \<Longrightarrow> \<not> labelLineMatches lbl (ls ! j)) \<Longrightarrow>
   findLabelLine lbl ls n = int (n + i)"
proof (induction ls arbitrary: i n)
  case Nil
  then show ?case by simp
next
  case (Cons l ls)
  show ?case
  proof (cases i)
    case 0
    with Cons.prems show ?thesis by simp
  next
    case (Suc i')
    from Cons.prems(3) [of 0] Suc have first: "\<not> labelLineMatches lbl l" by simp
    have "findLabelLine lbl ls (Suc n) = int (Suc n + i')"
    proof (rule Cons.IH)
      show "i' < length ls" using Cons.prems(1) Suc by simp
      show "labelLineMatches lbl (ls ! i')" using Cons.prems(2) Suc by simp
      show "\<not> labelLineMatches lbl (ls ! j)" if "j < i'" for j
        using Cons.prems(3) [of "Suc j"] that Suc by simp
    qed
    with first Suc show ?thesis by simp
  qed
qed

lemma routineParamString_stop:
  assumes "i < k" "k < length routineLines"
    "beginsLabel (stripRoutineComment (routineLines ! k))"
  shows "routineParamString routineLines i = routineParamString (take k routineLines) i"
  using assms continuationLoop_stop [OF assms]
  by (simp add: routineParamString_def Let_def)

lemma routineParamString_unclosed:
  assumes i: "i < length routineLines"
    and "0 \<le> indexOf (stripRoutineComment (routineLines ! i)) 40 0"
    and noclose: "41 \<notin> set (stripRoutineComment (routineLines ! i))"
    and rest: "\<And>j. i < j \<Longrightarrow> j < length routineLines \<Longrightarrow>
         \<not> beginsLabel (stripRoutineComment (routineLines ! j)) \<and>
         41 \<notin> set (stripRoutineComment (routineLines ! j))"
  shows "routineParamString routineLines i =
     trim (foldl joinContinuation
       (sliceFrom (stripRoutineComment (routineLines ! i))
          (indexOf (stripRoutineComment (routineLines ! i)) 40 0 + 1))
       (map stripRoutineComment (drop (Suc i) routineLines)))"
proof -
  let ?r = "sliceFrom (stripRoutineComment (routineLines ! i))
          (indexOf (stripRoutineComment (routineLines ! i)) 40 0 + 1)"
  from noclose have nc: "41 \<notin> set ?r"
    by (auto simp: sliceFrom_def dest: in_set_dropD)
  then have idx: "indexOf ?r 41 0 = - 1"
    by (simp add: indexOf_none)
  have "continuationLoop routineLines ?r (- 1) i =
      (foldl joinContinuation ?r (map stripRoutineComment (drop (Suc i) routineLines)), - 1)"
    using nc rest by (rule continuationLoop_unclosed)
  with assms(2) idx show ?thesis
    by (simp add: routineParamString_def Let_def)
qed

lemma routineParamString_unclosed_upto:
  assumes ik: "i < k" and kl: "k \<le> length routineLines"
    and stop: "k < length routineLines \<Longrightarrow> beginsLabel (stripRoutineComment (routineLines ! k))"
    and opened: "0 \<le> indexOf (stripRoutineComment (routineLines ! i)) 40 0"
    and noclose: "41 \<notin> set (stripRoutineComment (routineLines ! i))"
    and rest: "\<And>j. i < j \<Longrightarrow> j < k \<Longrightarrow>
         \<not> beginsLabel (stripRoutineComment (routineLines ! j)) \<and>
         41 \<notin> set (stripRoutineComment (routineLines ! j))"
  shows "routineParamString routineLines i =
     trim (foldl joinContinuation
       (sliceFrom (stripRoutineComment (routineLines ! i))
          (indexOf (stripRoutineComment (routineLines ! i)) 40 0 + 1))
       (map stripRoutineComment (take (k - Suc i) (drop (Suc i) routineLines))))"
proof -
  let ?ls = "take k routineLines"
  have same: "routineParamString routineLines i = routineParamString ?ls i"
  proof (cases "k < length routineLines")
    case True
    with ik stop show ?thesis by (intro routineParamString_stop) auto
  next
    case False
    with kl show ?thesis by simp
  qed
  have len: "length ?ls = k" using kl by simp
  have nth: "?ls ! j = routineLines ! j" if "j < k" for j using that by simp
  have "routineParamString ?ls i =
     trim (foldl joinContinuation
       (sliceFrom (stripRoutineComment (?ls ! i))
          (indexOf (stripRoutineComment (?ls ! i)) 40 0 + 1))
       (map stripRoutineComment (drop (Suc i) ?ls)))"
  proof (rule routineParamString_unclosed)
    show "i < length ?ls" using ik len by simp
    show "0 \<le> indexOf (stripRoutineComment (?ls ! i)) 40 0"
      unfolding nth [OF ik] by (rule opened)
    show "41 \<notin> set (stripRoutineComment (?ls ! i))"
      unfolding nth [OF ik] by (rule noclose)
    show "\<not> beginsLabel (stripRoutineComment (?ls ! j)) \<and>
         41 \<notin> set (stripRoutineComment (?ls ! j))" if "i < j" "j < length ?ls" for j
    proof -
      from that len have jk: "j < k" by simp
      show ?thesis unfolding nth [OF jk] by (rule rest [OF that(1) jk])
    qed
  qed
  moreover have "drop (Suc i) ?ls = take (k - Suc i) (drop (Suc i) routineLines)"
    by (simp add: drop_take)
  ultimately show ?thesis
    using same by (simp only: nth [OF ik])
qed

lemma routineSignature_at:
  assumes "i < length routineLines"
    and "labelLineMatches lbl (routineLines ! i)"
    and "\<And>j. j < i \<Longrightarrow> \<not> labelLineMatches lbl (routineLines ! j)"
    and "splitRoutineParams (routineParamString routineLines i) = params"
  shows "routineSignature lbl routineLines parenLine parenPos =
     Some \<lparr>signature =
             \<lparr>label = lbl @ js ''('' @ joinWith (js '', '') params @ js '')'',
              SignatureInformation.parameters =
                routineParameterInfos (lbl @ js ''('' @ joinWith (js '', '') params @ js '')'')
                  params,
              documentation = None\<rparr>,
           start = \<lparr>line = parenLine, character = parenPos + 1\<rparr>,
           parameters = params\<rparr>"
proof -
  have f: "findLabelLine lbl routineLines 0 = int (0 + i)"
    using assms(1-3) by (intro findLabelLine_first) simp_all
  show ?thesis
    by (simp add: routineSignature_def f assms(4) Let_def)
qed

lemmas regex_eval = jsMatch_def extrinsicRegex_def doLabelRegex_def doRoutineRegex_def
  doKeyword_def nameGroup_def group_def wordAt_def isWordChar_def isAlpha_def isLabelStart_def
  isLabelChar_def isWhiteSpace_def upt_rec

lemma extractRoutineCall_do_label:
  "extractRoutineCall (js ''DO Label^Routine'') =
     Some \<lparr>RoutineCallContext.label = js ''Label'', routine = js ''Routine''\<rparr>"
  by (simp add: extractRoutineCall_def regex_eval js_def trimEnd_def)

text \<open>
  Claim C8. Let the routine resolver find the label line, let the text of this line
  before the comment open a parameter list with \<open>(\<close> and hold no \<open>)\<close>, and let
  \<open>k\<close> be either the number of lines of the routine or the index of the first line
  after the label line that begins with a letter or with \<open>%\<close>, with no \<open>)\<close> on the
  lines in between. Then the resolver does not fail. Its parameters are those of the
  trimmed text made of the rest of the label line and of the lines before \<open>k\<close>, each
  without its comment, joined by the continuation rule; the line \<open>k\<close> and the lines
  after it are not consumed, whatever they hold. The label of the signature and the
  spans of its parameters are built from these parameters.
\<close>

theorem routine_unclosed_parameters:
  assumes "tokenAt parsed parenLine parenToken = Some parenTok"
    and "extractRoutineCall
           (getText doc (\<lparr>line = parenLine, character = 0\<rparr>,
              \<lparr>line = parenLine, character = tok_p parenTok\<rparr>)) = Some callContext"
    and "routineName =
           (if routine callContext = [] then currentRoutineName doc parsed
            else routine callContext)"
    and "routineName \<noteq> []"
    and "fetchRoutineLines server doc paramsUri routineName (currentRoutineName doc parsed) =
           Some routineLines"
    and "i < length routineLines"
    and "labelLineMatches (RoutineCallContext.label callContext) (routineLines ! i)"
    and "\<forall>j < i. \<not> labelLineMatches (RoutineCallContext.label callContext) (routineLines ! j)"
    and "0 \<le> indexOf (stripRoutineComment (routineLines ! i)) 40 0"
    and "41 \<notin> set (stripRoutineComment (routineLines ! i))"
    and "i < k" and "k \<le> length routineLines"
    and "\<forall>j. i < j \<and> j < k \<longrightarrow>
           \<not> beginsLabel (routineLines ! j) \<and>
           41 \<notin> set (stripRoutineComment (routineLines ! j))"
    and "k < length routineLines \<longrightarrow> beginsLabel (routineLines ! k)"
    and "params =
           splitRoutineParams (trim (foldl joinContinuation
             (sliceFrom (stripRoutineComment (routineLines ! i))
                (indexOf (stripRoutineComment (routineLines ! i)) 40 0 + 1))
             (map stripRoutineComment (take (k - Suc i) (drop (Suc i) routineLines)))))"
    and "signatureLabel =
           RoutineCallContext.label callContext @ js ''('' @ joinWith (js '', '') params @ js '')''"
  shows "getRoutineSignatureDetails server doc parsed parenLine parenToken paramsUri =
     Some \<lparr>signature =
             \<lparr>label = signatureLabel,
              SignatureInformation.parameters = routineParameterInfos signatureLabel params,
              documentation = None\<rparr>,
           start = \<lparr>line = parenLine, character = tok_p parenTok + 1\<rparr>,
           parameters = params\<rparr>"
proof -
  have p: "routineParamString routineLines i =
     trim (foldl joinContinuation
       (sliceFrom (stripRoutineComment (routineLines ! i))
          (indexOf (stripRoutineComment (routineLines ! i)) 40 0 + 1))
       (map stripRoutineComment (take (k - Suc i) (drop (Suc i) routineLines))))"
    using assms(11,12,14,9,10,13)
    by (intro routineParamString_unclosed_upto) (auto simp: beginsLabel_stripRoutineComment)
  have s: "routineSignature (RoutineCallContext.label callContext) routineLines parenLine
      (tok_p parenTok) =
     Some \<lparr>signature =
             \<lparr>label = signatureLabel,
              SignatureInformation.parameters = routineParameterInfos signatureLabel params,
              documentation = None\<rparr>,
           start = \<lparr>line = parenLine, character = tok_p parenTok + 1\<rparr>,
           parameters = params\<rparr>"
    unfolding assms(16)
    using assms(6-8) p assms(15) by (intro routineSignature_at) auto
  from assms(3,4) have n: "(if routine callContext = [] then currentRoutineName doc parsed
            else routine callContext) = routineName" by simp
  show ?thesis
    using assms(4)
    by (simp add: getRoutineSignatureDetails_def assms(1,2,5) n s Let_def)
qed

theorem routine_unclosed_parameters_witness:
  "tokenAt callTokens 0 4 = Some \<lparr>tok_p = 16, tok_c = 1, tok_l = 1, tok_s = 5\<rparr> \<and>
   extractRoutineCall
     (getText callDocument (\<lparr>line = 0, character = 0\<rparr>, \<lparr>line = 0, character = 16\<rparr>)) =
     Some \<lparr>RoutineCallContext.label = js ''Label'', routine = js ''Routine''\<rparr> \<and>
   fetchRoutineLines unclosedServer callDocument (js ''isfs://server/'') (js ''Routine'')
     (currentRoutineName callDocument callTokens) =
     Some [js ''Label(p1, ; first'', js ''   p2,'', js '' p3 ; third'', js ''Other(a)''] \<and>
   labelLineMatches (js ''Label'') (js ''Label(p1, ; first'') \<and>
   stripRoutineComment (js ''Label(p1, ; first'') = js ''Label(p1, '' \<and>
   stripRoutineComment (js ''   p2,'') = js ''   p2,'' \<and>
   stripRoutineComment (js '' p3 ; third'') = js '' p3 '' \<and>
   \<not> beginsLabel (js ''   p2,'') \<and>
   \<not> beginsLabel (js '' p3 ; third'') \<and>
   beginsLabel (js ''Other(a)'') \<and>
   getRoutineSignatureDetails unclosedServer callDocument callTokens 0 4 (js ''isfs://server/'') =
     Some \<lparr>signature =
             \<lparr>label = js ''Label(p1, p2, p3)'',
              SignatureInformation.parameters = [(6, 8), (10, 12), (14, 16)],
              documentation = None\<rparr>,
           start = \<lparr>line = 0, character = 17\<rparr>,
           parameters = [js ''p1'', js ''p2'', js ''p3'']\<rparr>"
proof -
  let ?tok = "\<lparr>tok_p = 16, tok_c = 1, tok_l = 1, tok_s = 5\<rparr>"
  let ?ctx = "\<lparr>RoutineCallContext.label = js ''Label'', routine = js ''Routine''\<rparr>"
  let ?ls = "[js ''Label(p1, ; first'', js ''   p2,'', js '' p3 ; third'', js ''Other(a)'']"
  let ?params = "[js ''p1'', js ''p2'', js ''p3'']"
  have a: "tokenAt callTokens 0 4 = Some ?tok"
    by (simp add: tokenAt_def callTokens_def)
  have t: "getText callDocument (\<lparr>line = 0, character = 0\<rparr>, \<lparr>line = 0, character = 16\<rparr>) =
      js ''DO Label^Routine''"
    by (simp add: callDocument_def singleLineDocument_def slice_def sliceIndex_def js_def)
  have b0: "extractRoutineCall
      (getText callDocument (\<lparr>line = 0, character = 0\<rparr>, \<lparr>line = 0, character = 16\<rparr>)) =
      Some ?ctx"
    by (simp only: t extractRoutineCall_do_label)
  have b: "extractRoutineCall
      (getText callDocument (\<lparr>line = 0, character = 0\<rparr>, \<lparr>line = 0, character = tok_p ?tok\<rparr>)) =
      Some ?ctx"
    using b0 by simp
  have r: "js ''Routine'' \<noteq> []" by (simp add: js_def)
  have n: "js ''Routine'' =
      (if routine ?ctx = [] then currentRoutineName callDocument callTokens else routine ?ctx)"
    using r by simp
  have c: "currentRoutineName callDocument callTokens = []"
    by (simp add: currentRoutineName_def isRoutineDocument_def callDocument_def
        singleLineDocument_def js_def)
  have d: "fetchRoutineLines unclosedServer callDocument (js ''isfs://server/'') (js ''Routine'')
      (currentRoutineName callDocument callTokens) = Some ?ls"
    by (simp add: c fetchRoutineLines_def unclosedServer_def toLowerCase_def sliceFrom_def
        sliceIndex_def js_def Let_def)
  have e: "0 < length ?ls" by simp
  have f0: "labelLineMatches (js ''Label'') (js ''Label(p1, ; first'')"
    by (simp add: labelLineMatches_def startsWith_def js_def sliceFrom_def sliceIndex_def)
  then have f: "labelLineMatches (RoutineCallContext.label ?ctx) (?ls ! 0)" by simp
  have g: "\<forall>j < 0. \<not> labelLineMatches (RoutineCallContext.label ?ctx) (?ls ! j)" by simp
  have s0: "stripRoutineComment (js ''Label(p1, ; first'') = js ''Label(p1, ''"
    by (simp add: stripRoutineComment_def indexOf_def js_def slice_def sliceIndex_def)
  have s1: "stripRoutineComment (js ''   p2,'') = js ''   p2,''"
    by (simp add: stripRoutineComment_def indexOf_def js_def)
  have s2: "stripRoutineComment (js '' p3 ; third'') = js '' p3 ''"
    by (simp add: stripRoutineComment_def indexOf_def js_def slice_def sliceIndex_def)
  have h: "0 \<le> indexOf (stripRoutineComment (?ls ! 0)) 40 0"
    by (simp add: s0) (simp add: indexOf_def js_def)
  have i: "41 \<notin> set (stripRoutineComment (?ls ! 0))"
    by (simp add: s0) (simp add: js_def)
  have j: "(0::nat) < 3" by simp
  have k: "3 \<le> length ?ls" by simp
  have l1: "\<not> beginsLabel (js ''   p2,'')"
    by (simp add: js_def beginsLabel_def isLabelStart_def isAlpha_def)
  have l2: "\<not> beginsLabel (js '' p3 ; third'')"
    by (simp add: js_def beginsLabel_def isLabelStart_def isAlpha_def)
  have l: "\<forall>j. 0 < j \<and> j < 3 \<longrightarrow>
       \<not> beginsLabel (?ls ! j) \<and> 41 \<notin> set (stripRoutineComment (?ls ! j))"
  proof (intro allI impI)
    fix j :: nat assume "0 < j \<and> j < 3"
    then have "j = 1 \<or> j = 2" by auto
    moreover have "41 \<notin> set (js ''   p2,'')" by (simp add: js_def)
    moreover have "41 \<notin> set (js '' p3 '')" by (simp add: js_def)
    ultimately show "\<not> beginsLabel (?ls ! j) \<and> 41 \<notin> set (stripRoutineComment (?ls ! j))"
      using s1 s2 l1 l2 by auto
  qed
  have m0: "beginsLabel (js ''Other(a)'')"
    by (simp add: js_def beginsLabel_def isLabelStart_def isAlpha_def)
  then have m: "3 < length ?ls \<longrightarrow> beginsLabel (?ls ! 3)" by simp
  have j1: "joinContinuation (js ''p1, '') (js ''   p2,'') = js ''p1, p2,''"
    by (simp add: joinContinuation_def js_def trim_def trimEnd_def isWhiteSpace_def
        endsWith_def startsWith_def)
  have j2: "joinContinuation (js ''p1, p2,'') (js '' p3 '') = js ''p1, p2, p3''"
    by (simp add: joinContinuation_def js_def trim_def trimEnd_def isWhiteSpace_def
        endsWith_def startsWith_def)
  have r0: "sliceFrom (js ''Label(p1, '') (indexOf (js ''Label(p1, '') 40 0 + 1) = js ''p1, ''"
    by (simp add: indexOf_def js_def sliceFrom_def sliceIndex_def)
  have tr: "trim (js ''p1, p2, p3'') = js ''p1, p2, p3''"
    by (simp add: js_def trim_def trimEnd_def isWhiteSpace_def)
  have sp: "splitRoutineParams (js ''p1, p2, p3'') = ?params"
    by (simp add: splitRoutineParams_def js_def trim_def trimEnd_def isWhiteSpace_def
        splitRoutineStep_def charAt_def upt_rec Let_def)
  have tk: "take (3 - Suc 0) (drop (Suc 0) ?ls) = [js ''   p2,'', js '' p3 ; third'']"
    by simp
  have p: "?params =
      splitRoutineParams (trim (foldl joinContinuation
        (sliceFrom (stripRoutineComment (?ls ! 0))
           (indexOf (stripRoutineComment (?ls ! 0)) 40 0 + 1))
        (map stripRoutineComment (take (3 - Suc 0) (drop (Suc 0) ?ls)))))"
    unfolding tk by (simp add: s0 s1 s2 r0 j1 j2 tr sp)
  have q: "js ''Label(p1, p2, p3)'' =
      RoutineCallContext.label ?ctx @ js ''('' @ joinWith (js '', '') ?params @ js '')''"
    by (simp add: js_def)
  have pi: "routineParameterInfos (js ''Label(p1, p2, p3)'') ?params =
      [(6, 8), (10, 12), (14, 16)]"
    by (simp add: routineParameterInfos_def indexOf_def js_def trim_def trimEnd_def
        isWhiteSpace_def)
  have "getRoutineSignatureDetails unclosedServer callDocument callTokens 0 4
      (js ''isfs://server/'') =
     Some \<lparr>signature =
             \<lparr>label = js ''Label(p1, p2, p3)'',
              SignatureInformation.parameters =
                routineParameterInfos (js ''Label(p1, p2, p3)'') ?params,
              documentation = None\<rparr>,
           start = \<lparr>line = 0, character = tok_p ?tok + 1\<rparr>,
           parameters = ?params\<rparr>"
    by (rule routine_unclosed_parameters [OF a b n r d e f g h i j k l m p q])
  then have res: "getRoutineSignatureDetails unclosedServer callDocument callTokens 0 4
      (js ''isfs://server/'') =
     Some \<lparr>signature =
             \<lparr>label = js ''Label(p1, p2, p3)'',
              SignatureInformation.parameters = [(6, 8), (10, 12), (14, 16)],
              documentation = None\<rparr>,
           start = \<lparr>line = 0, character = 17\<rparr>,
           parameters = ?params\<rparr>"
    by (simp only: pi) simp
  show ?thesis
    by (intro conjI a b0 d f0 s0 s1 s2 l1 l2 m0 res)
qed

text \<open>
  The same on a routine that ends before the parameter list is closed: the label line
  \<open>Label(p1,\<close> followed by the last line \<open>p2\<close> gives the signature \<open>Label(p1, p2)\<close>.
\<close>

lemma routineSignature_unclosed_to_end:
  "routineSignature (js ''Label'') [js ''Label(p1,'', js '' p2''] 0 16 =
     Some \<lparr>signature =
             \<lparr>label = js ''Label(p1, p2)'',
              SignatureInformation.parameters = [(6, 8), (10, 12)],
              documentation = None\<rparr>,
           start = \<lparr>line = 0, character = 17\<rparr>,
           parameters = [js ''p1'', js ''p2'']\<rparr>"
proof -
  let ?ls = "[js ''Label(p1,'', js '' p2'']"
  have s0: "stripRoutineComment (js ''Label(p1,'') = js ''Label(p1,''"
    by (simp add: stripRoutineComment_def indexOf_def js_def)
  have s1: "stripRoutineComment (js '' p2'') = js '' p2''"
    by (simp add: stripRoutineComment_def indexOf_def js_def)
  have r0: "sliceFrom (js ''Label(p1,'') (indexOf (js ''Label(p1,'') 40 0 + 1) = js ''p1,''"
    by (simp add: indexOf_def js_def sliceFrom_def sliceIndex_def)
  have j1: "joinContinuation (js ''p1,'') (js '' p2'') = js ''p1, p2''"
    by (simp add: joinContinuation_def js_def trim_def trimEnd_def isWhiteSpace_def
        endsWith_def startsWith_def)
  have tr: "trim (js ''p1, p2'') = js ''p1, p2''"
    by (simp add: js_def trim_def trimEnd_def isWhiteSpace_def)
  have sp: "splitRoutineParams (js ''p1, p2'') = [js ''p1'', js ''p2'']"
    by (simp add: splitRoutineParams_def js_def trim_def trimEnd_def isWhiteSpace_def
        splitRoutineStep_def charAt_def upt_rec Let_def)
  have "routineParamString ?ls 0 =
     trim (foldl joinContinuation
       (sliceFrom (stripRoutineComment (?ls ! 0))
          (indexOf (stripRoutineComment (?ls ! 0)) 40 0 + 1))
       (map stripRoutineComment (take (2 - Suc 0) (drop (Suc 0) ?ls))))"
  proof (rule routineParamString_unclosed_upto)
    show "(0::nat) < 2" by simp
    show "2 \<le> length ?ls" by simp
    show "beginsLabel (stripRoutineComment (?ls ! 2))" if "2 < length ?ls"
      using that by simp
    show "0 \<le> indexOf (stripRoutineComment (?ls ! 0)) 40 0"
      by (simp add: s0) (simp add: indexOf_def js_def)
    show "41 \<notin> set (stripRoutineComment (?ls ! 0))"
      by (simp add: s0) (simp add: js_def)
    show "\<not> beginsLabel (stripRoutineComment (?ls ! j)) \<and>
         41 \<notin> set (stripRoutineComment (?ls ! j))" if "0 < j" "j < 2" for j
    proof -
      from that have "j = 1" by simp
      then show ?thesis
        by (simp add: s1) (simp add: js_def beginsLabel_def isLabelStart_def isAlpha_def)
    qed
  qed
  then have p: "splitRoutineParams (routineParamString ?ls 0) = [js ''p1'', js ''p2'']"
    by (simp add: s0 s1 r0 j1 tr sp)
  have f: "labelLineMatches (js ''Label'') (?ls ! 0)"
    by (simp add: labelLineMatches_def startsWith_def js_def sliceFrom_def sliceIndex_def)
  have l: "js ''Label'' @ js ''('' @ joinWith (js '', '') [js ''p1'', js ''p2''] @ js '')'' =
      js ''Label(p1, p2)''"
    by (simp add: js_def)
  have i: "routineParameterInfos (js ''Label(p1, p2)'') [js ''p1'', js ''p2''] =
      [(6, 8), (10, 12)]"
    by (simp add: routineParameterInfos_def indexOf_def js_def trim_def trimEnd_def
        isWhiteSpace_def)
  have "routineSignature (js ''Label'') ?ls 0 16 =
     Some \<lparr>signature =
             \<lparr>label = js ''Label'' @ js ''('' @ joinWith (js '', '') [js ''p1'', js ''p2''] @
                js '')'',
              SignatureInformation.parameters =
                routineParameterInfos
                  (js ''Label'' @ js ''('' @ joinWith (js '', '') [js ''p1'', js ''p2''] @ js '')'')
                  [js ''p1'', js ''p2''],
              documentation = None\<rparr>,
           start = \<lparr>line = 0, character = 16 + 1\<rparr>,
           parameters = [js ''p1'', js ''p2'']\<rparr>"
    using f p by (intro routineSignature_at) simp_all
  then show ?thesis
    by (simp only: l i) simp
qed

lemma labelLineMatches_example: "labelLineMatches (js ''Label'') (js ''Label(p1,p2)'')"
  by (simp add: labelLineMatches_def startsWith_def js_def sliceFrom_def sliceIndex_def)

lemma routineParamString_example:
  assumes "routineLines ! i = js ''Label(p1,p2)''"
  shows "routineParamString routineLines i = js ''p1,p2''"
proof -
  have s: "stripRoutineComment (js ''Label(p1,p2)'') = js ''Label(p1,p2)''"
    by (simp add: stripRoutineComment_def indexOf_def js_def)
  have o: "indexOf (js ''Label(p1,p2)'') 40 0 = 5"
    by (simp add: indexOf_def js_def)
  have r: "sliceFrom (js ''Label(p1,p2)'') 6 = js ''p1,p2)''"
    by (simp add: sliceFrom_def sliceIndex_def js_def)
  have c: "indexOf (js ''p1,p2)'') 41 0 = 5"
    by (simp add: indexOf_def js_def)
  have l: "continuationLoop routineLines (js ''p1,p2)'') 5 i = (js ''p1,p2)'', 5)"
    by (subst continuationLoop.simps) simp
  have e: "slice (js ''p1,p2)'') 0 5 = js ''p1,p2''"
    by (simp add: slice_def sliceIndex_def js_def)
  show ?thesis
    by (simp add: routineParamString_def assms s o r c l e Let_def)
qed

lemma splitRoutineParams_example: "splitRoutineParams (js ''p1,p2'') = [js ''p1'', js ''p2'']"
  by (simp add: splitRoutineParams_def js_def trim_def trimEnd_def isWhiteSpace_def
      splitRoutineStep_def charAt_def upt_rec Let_def)

lemma routineSignature_example:
  assumes "i < length routineLines"
    and "routineLines ! i = js ''Label(p1,p2)''"
    and "\<And>j. j < i \<Longrightarrow> \<not> labelLineMatches (js ''Label'') (routineLines ! j)"
  shows "routineSignature (js ''Label'') routineLines parenLine parenPos =
     Some \<lparr>signature =
             \<lparr>label = js ''Label(p1, p2)'',
              SignatureInformation.parameters = [(6, 8), (10, 12)],
              documentation = None\<rparr>,
           start = \<lparr>line = parenLine, character = parenPos + 1\<rparr>,
           parameters = [js ''p1'', js ''p2'']\<rparr>"
proof -
  have f: "findLabelLine (js ''Label'') routineLines 0 = int (0 + i)"
    using assms labelLineMatches_example by (intro findLabelLine_first) simp_all
  have p: "routineParamString routineLines i = js ''p1,p2''"
    using assms(2) by (rule routineParamString_example)
  have l: "js ''Label'' @ js ''('' @ js ''p1'' @ js '', '' @ js ''p2'' @ js '')'' =
      js ''Label(p1, p2)''"
    by (simp add: js_def)
  have i: "routineParameterInfos (js ''Label(p1, p2)'') [js ''p1'', js ''p2''] =
      [(6, 8), (10, 12)]"
    by (simp add: routineParameterInfos_def indexOf_def js_def trim_def trimEnd_def
        isWhiteSpace_def)
  show ?thesis
    by (simp add: routineSignature_def f p splitRoutineParams_example l i Let_def)
qed

text \<open>
  Claim C6. Let the text before the open parenthesis be \<open>DO Label^Routine\<close>, and let
  the lines of the routine \<open>Routine\<close> hold the line \<open>Label(p1,p2)\<close>, with no line
  before it that matches the label. Then the routine resolver returns the signature
  \<open>Label(p1, p2)\<close> with the two parameters \<open>p1\<close> (offsets 6 to 8) and \<open>p2\<close>
  (offsets 10 to 12), and the start position is the one right after the parenthesis.
\<close>

theorem routine_call_signature:
  assumes "tokenAt parsed parenLine parenToken = Some parenTok"
    and "getText doc (\<lparr>line = parenLine, character = 0\<rparr>,
           \<lparr>line = parenLine, character = tok_p parenTok\<rparr>) = js ''DO Label^Routine''"
    and "fetchRoutineLines server doc paramsUri (js ''Routine'') (currentRoutineName doc parsed) =
           Some routineLines"
    and "i < length routineLines"
    and "routineLines ! i = js ''Label(p1,p2)''"
    and "\<forall>j < i. \<not> labelLineMatches (js ''Label'') (routineLines ! j)"
  shows "getRoutineSignatureDetails server doc parsed parenLine parenToken paramsUri =
     Some \<lparr>signature =
             \<lparr>label = js ''Label(p1, p2)'',
              SignatureInformation.parameters = [(6, 8), (10, 12)],
              documentation = None\<rparr>,
           start = \<lparr>line = parenLine, character = tok_p parenTok + 1\<rparr>,
           parameters = [js ''p1'', js ''p2'']\<rparr>"
proof -
  have r: "js ''Routine'' \<noteq> []" by (simp add: js_def)
  have s: "routineSignature (js ''Label'') routineLines parenLine (tok_p parenTok) =
     Some \<lparr>signature =
             \<lparr>label = js ''Label(p1, p2)'',
              SignatureInformation.parameters = [(6, 8), (10, 12)],
              documentation = None\<rparr>,
           start = \<lparr>line = parenLine, character = tok_p parenTok + 1\<rparr>,
           parameters = [js ''p1'', js ''p2'']\<rparr>"
    using assms(4-6) by (intro routineSignature_example) auto
  show ?thesis
    by (simp add: getRoutineSignatureDetails_def assms(1-3) extractRoutineCall_do_label r s
        Let_def)
qed

theorem routine_call_signature_witness:
  "tokenAt callTokens 0 4 = Some \<lparr>tok_p = 16, tok_c = 1, tok_l = 1, tok_s = 5\<rparr> \<and>
   getText callDocument (\<lparr>line = 0, character = 0\<rparr>, \<lparr>line = 0, character = 16\<rparr>) =
     js ''DO Label^Routine'' \<and>
   fetchRoutineLines routineServer callDocument (js ''isfs://server/'') (js ''Routine'')
     (currentRoutineName callDocument callTokens) = Some [js ''Label(p1,p2)'', []] \<and>
   getRoutineSignatureDetails routineServer callDocument callTokens 0 4 (js ''isfs://server/'') =
     Some \<lparr>signature =
             \<lparr>label = js ''Label(p1, p2)'',
              SignatureInformation.parameters = [(6, 8), (10, 12)],
              documentation = None\<rparr>,
           start = \<lparr>line = 0, character = 17\<rparr>,
           parameters = [js ''p1'', js ''p2'']\<rparr>"
proof -
  have a: "tokenAt callTokens 0 4 = Some \<lparr>tok_p = 16, tok_c = 1, tok_l = 1, tok_s = 5\<rparr>"
    by (simp add: tokenAt_def callTokens_def)
  have b: "getText callDocument (\<lparr>line = 0, character = 0\<rparr>,
      \<lparr>line = 0, character = tok_p \<lparr>tok_p = 16, tok_c = 1, tok_l = 1, tok_s = 5\<rparr>\<rparr>) =
      js ''DO Label^Routine''"
    by (simp add: callDocument_def singleLineDocument_def slice_def sliceIndex_def js_def)
  have c: "currentRoutineName callDocument callTokens = []"
    by (simp add: currentRoutineName_def isRoutineDocument_def callDocument_def
        singleLineDocument_def js_def)
  have d: "fetchRoutineLines routineServer callDocument (js ''isfs://server/'') (js ''Routine'')
      (currentRoutineName callDocument callTokens) = Some [js ''Label(p1,p2)'', []]"
    by (simp add: c fetchRoutineLines_def routineServer_def toLowerCase_def sliceFrom_def
        sliceIndex_def js_def Let_def)
  have e: "\<forall>j < 0. \<not> labelLineMatches (js ''Label'') ([js ''Label(p1,p2)'', []] ! j)"
    by simp
  from routine_call_signature [OF a b d _ _ e] b d a show ?thesis
    by simp
qed


section \<open>Properties of the signature help request\<close>

lemma onSignatureHelp_retrigger:
  assumes "requestContext params = Some ctx"
    and "documents env (uri params) = Some doc"
    and "getParsedDocument env (uri params) = Some parsed"
    and "0 \<le> line (position params)" and "line (position params) < int (length parsed)"
    and "thisTokenLoop (parsed ! nat (line (position params)))
           (character (position params)) 0 = k"
    and "k \<noteq> - 1"
    and "tok_l (parsed ! nat (line (position params)) ! nat k) = cos_langindex env"
    and "\<not> insideString doc (position params)"
    and "isRetrigger ctx"
    and "triggerKind ctx \<noteq> 1"
    and "triggerCharacter ctx \<noteq> Some (js ''('')"
  shows "onSignatureHelp env st params = retrigger env st doc (position params) ctx"
  using assms by (simp add: onSignatureHelp_def invokedContext_def Let_def)

lemma onSignatureHelp_retrigger_invoked:
  assumes "requestContext params = Some ctx"
    and "documents env (uri params) = Some doc"
    and "getParsedDocument env (uri params) = Some parsed"
    and "0 \<le> line (position params)" and "line (position params) < int (length parsed)"
    and "thisTokenLoop (parsed ! nat (line (position params)))
           (character (position params)) 0 = k"
    and "k \<noteq> - 1"
    and "tok_l (parsed ! nat (line (position params)) ! nat k) = cos_langindex env"
    and "\<not> insideString doc (position params)"
    and "isRetrigger ctx"
    and "triggerKind ctx = 1"
    and "charBefore doc (position params) = Inr c"
    and "c \<noteq> js ''(''"
  shows "onSignatureHelp env st params =
     retrigger env st doc (position params) (ctx\<lparr>triggerCharacter := Some c\<rparr>)"
  using assms by (simp add: onSignatureHelp_def invokedContext_def Let_def)

lemma retrigger_closing:
  assumes "activeSignatureHelp ctx = Some help"
    and "signatureHelpStartPosition st = Some startPos"
    and "charBefore doc pos = Inr (js '')'')"
  shows "retrigger env st doc pos ctx =
     Inr (None, st\<lparr>signatureHelpDocumentationCache := None,
                    signatureHelpStartPosition := None\<rparr>)"
  using assms by (simp add: retrigger_def)

lemma onSignatureHelp_closing:
  assumes "requestContext params = Some ctx"
    and "documents env (uri params) = Some doc"
    and "getParsedDocument env (uri params) = Some parsed"
    and "0 \<le> line (position params)" and "line (position params) < int (length parsed)"
    and "thisTokenLoop (parsed ! nat (line (position params)))
           (character (position params)) 0 = k"
    and "k \<noteq> - 1"
    and "tok_l (parsed ! nat (line (position params)) ! nat k) = cos_langindex env"
    and "\<not> insideString doc (position params)"
    and "isRetrigger ctx"
    and "triggerKind ctx = 1 \<or> triggerCharacter ctx \<noteq> Some (js ''('')"
    and "activeSignatureHelp ctx = Some help"
    and "signatureHelpStartPosition st = Some startPos"
    and "charBefore doc (position params) = Inr (js '')'')"
  shows "onSignatureHelp env st params =
     Inr (None, st\<lparr>signatureHelpDocumentationCache := None,
                    signatureHelpStartPosition := None\<rparr>)"
proof (cases "triggerKind ctx = 1")
  case True
  have "js '')'' \<noteq> js ''(''" by (simp add: js_def)
  with assms True have "onSignatureHelp env st params =
     retrigger env st doc (position params) (ctx\<lparr>triggerCharacter := Some (js '')'')\<rparr>)"
    by (intro onSignatureHelp_retrigger_invoked) auto
  with assms(12-14) show ?thesis
    by (simp add: retrigger_closing)
next
  case False
  with assms have "onSignatureHelp env st params = retrigger env st doc (position params) ctx"
    by (intro onSignatureHelp_retrigger) auto
  with assms(12-14) show ?thesis
    by (simp add: retrigger_closing)
qed

text \<open>
  Claim C7, amended. On a retrigger of an active signature (any trigger but a typed open
  parenthesis) at a token of the language and outside a string, when the character
  before the cursor is \<open>)\<close>, the request returns \<open>null\<close> and clears the documentation
  cache and the start position. The macro cache keeps its value: the function has no
  assignment to it on this path.
\<close>

theorem closing_paren_clears_session:
  assumes "requestContext params = Some ctx"
    and "documents env (uri params) = Some doc"
    and "getParsedDocument env (uri params) = Some parsed"
    and "0 \<le> line (position params)" and "line (position params) < int (length parsed)"
    and "thisTokenLoop (parsed ! nat (line (position params)))
           (character (position params)) 0 = k"
    and "k \<noteq> - 1"
    and "tok_l (parsed ! nat (line (position params)) ! nat k) = cos_langindex env"
    and "\<not> insideString doc (position params)"
    and "isRetrigger ctx"
    and "triggerKind ctx = 1 \<or> triggerCharacter ctx \<noteq> Some (js ''('')"
    and "activeSignatureHelp ctx = Some help"
    and "signatureHelpStartPosition st = Some startPos"
    and "charBefore doc (position params) = Inr (js '')'')"
  shows "\<exists>st'. onSignatureHelp env st params = Inr (None, st') \<and>
           signatureHelpDocumentationCache st' = None \<and>
           signatureHelpStartPosition st' = None \<and>
           signatureHelpMacroCache st' = signatureHelpMacroCache st \<and>
           sent st' = sent st"
  using onSignatureHelp_closing [OF assms] by simp

lemma closing_request_facts:
  shows "requestContext closingRequest =
      Some \<lparr>triggerKind = 2, triggerCharacter = Some (js '')''), isRetrigger = True,
              activeSignatureHelp = Some macroHelp\<rparr>"
    and "documents (exampleServices macroDocument macroTokens) (uri closingRequest) =
      Some macroDocument"
    and "getParsedDocument (exampleServices macroDocument macroTokens) (uri closingRequest) =
      Some macroTokens"
    and "0 \<le> line (position closingRequest)"
    and "line (position closingRequest) < int (length macroTokens)"
    and "thisTokenLoop (macroTokens ! nat (line (position closingRequest)))
           (character (position closingRequest)) 0 = 3"
    and "(3::int) \<noteq> - 1"
    and "tok_l (macroTokens ! nat (line (position closingRequest)) ! nat 3) =
      cos_langindex (exampleServices macroDocument macroTokens)"
    and "\<not> insideString macroDocument (position closingRequest)"
    and "isRetrigger \<lparr>triggerKind = 2, triggerCharacter = Some (js '')''), isRetrigger = True,
              activeSignatureHelp = Some macroHelp\<rparr>"
    and "triggerKind \<lparr>triggerKind = 2, triggerCharacter = Some (js '')''), isRetrigger = True,
              activeSignatureHelp = Some macroHelp\<rparr> = 1 \<or>
      triggerCharacter \<lparr>triggerKind = 2, triggerCharacter = Some (js '')''), isRetrigger = True,
              activeSignatureHelp = Some macroHelp\<rparr> \<noteq> Some (js ''('')"
    and "activeSignatureHelp \<lparr>triggerKind = 2, triggerCharacter = Some (js '')''),
      isRetrigger = True, activeSignatureHelp = Some macroHelp\<rparr> = Some macroHelp"
    and "signatureHelpStartPosition macroSession = Some \<lparr>line = 0, character = 11\<rparr>"
    and "charBefore macroDocument (position closingRequest) = Inr (js '')'')"
  by (simp_all add: closingRequest_def exampleServices_def macroTokens_def macroSession_def
      insideString_def charBefore_def macroDocument_def singleLineDocument_def
      slice_def sliceIndex_def js_def)

lemma closing_example:
  "onSignatureHelp (exampleServices macroDocument macroTokens) macroSession closingRequest =
     Inr (None, macroSession\<lparr>signatureHelpDocumentationCache := None,
                             signatureHelpStartPosition := None\<rparr>)"
  by (rule onSignatureHelp_closing [OF closing_request_facts])

text \<open>
  The session of the macro \<open>$$$MyMacro(a)\<close> after the closing parenthesis: the macro
  cache is still the one of the macro.
\<close>

theorem closing_paren_keeps_macro_cache_counterexample:
  "\<exists>st'. onSignatureHelp (exampleServices macroDocument macroTokens) macroSession closingRequest =
           Inr (None, st') \<and>
         signatureHelpMacroCache macroSession \<noteq> None \<and>
         signatureHelpMacroCache st' = signatureHelpMacroCache macroSession"
  by (simp add: closing_example) (simp add: macroSession_def)

theorem closing_paren_clears_session_witness:
  "\<exists>st'. onSignatureHelp (exampleServices macroDocument macroTokens) macroSession closingRequest =
           Inr (None, st') \<and>
         signatureHelpDocumentationCache st' = None \<and>
         signatureHelpStartPosition st' = None \<and>
         signatureHelpMacroCache st' = signatureHelpMacroCache macroSession \<and>
         sent st' = sent macroSession"
  by (rule closing_paren_clears_session [OF closing_request_facts])

lemma retrigger_method:
  assumes "activeSignatureHelp ctx = Some help"
    and "signatureHelpStartPosition st = Some startPos"
    and "\<exists>prevchar. charBefore doc pos = Inr prevchar \<and> prevchar \<noteq> js '')''"
    and "signatureHelpDocumentationCache st = Some cache"
    and "cacheType cache = methodType"
    and "signatures help = sig # rest"
  shows "retrigger env st doc pos ctx =
     Inr (Some (help\<lparr>signatures := sig\<lparr>documentation := Some (cacheDoc cache)\<rparr> # rest,
                     activeParameter :=
                       Some (determineActiveParam env (getText doc (startPos, pos)))\<rparr>), st)"
  using assms by (auto simp: retrigger_def setFirstDocumentation_def Let_def)

lemma retrigger_macro:
  assumes "activeSignatureHelp ctx = Some help"
    and "signatureHelpStartPosition st = Some startPos"
    and "\<exists>prevchar. charBefore doc pos = Inr prevchar \<and> prevchar \<noteq> js '')''"
    and "signatureHelpDocumentationCache st = Some cache"
    and "cacheType cache = macroType"
    and "signatureHelpMacroCache st = Some macroCache"
    and "emphasizeArgument (arguments macroCache)
           (determineActiveParam env (getText doc (startPos, pos)) + 1) = Some emphasized"
    and "signatures help = sig # rest"
  shows "\<exists>help' st'. retrigger env st doc pos ctx = Inr (Some help', st') \<and>
     activeParameter help' = Some (determineActiveParam env (getText doc (startPos, pos))) \<and>
     map SignatureInformation.parameters (signatures help') =
       map SignatureInformation.parameters (signatures help)"
  using assms
  by (auto simp: retrigger_def setFirstDocumentation_def expandMacro_def Let_def
      split: option.splits)

text \<open>
  Claim C1 does not hold on the retrigger of a method or of a macro signature: the active
  parameter of the result is the number that \<open>determineActiveParam\<close> gives for the text
  since the start position, whatever the number of parameters of the signature. Only the
  branch of a routine signature bounds it. In the example, the signature has one parameter
  and the text \<open>1,\<close> has been typed: the active parameter is 1.
\<close>

theorem retrigger_active_parameter_unbounded:
  assumes "requestContext params = Some ctx"
    and "documents env (uri params) = Some doc"
    and "getParsedDocument env (uri params) = Some parsed"
    and "0 \<le> line (position params)" and "line (position params) < int (length parsed)"
    and "thisTokenLoop (parsed ! nat (line (position params)))
           (character (position params)) 0 = k"
    and "k \<noteq> - 1"
    and "tok_l (parsed ! nat (line (position params)) ! nat k) = cos_langindex env"
    and "\<not> insideString doc (position params)"
    and "isRetrigger ctx"
    and "triggerKind ctx \<noteq> 1"
    and "triggerCharacter ctx \<noteq> Some (js ''('')"
    and "activeSignatureHelp ctx = Some help"
    and "signatureHelpStartPosition st = Some startPos"
    and "\<exists>prevchar. charBefore doc (position params) = Inr prevchar \<and>
           prevchar \<noteq> js '')''"
    and "signatureHelpDocumentationCache st = Some cache"
    and "signatures help = sig # rest"
    and "cacheType cache = methodType \<or>
         (cacheType cache = macroType \<and>
          (\<exists>macroCache emphasized.
             signatureHelpMacroCache st = Some macroCache \<and>
             emphasizeArgument (arguments macroCache)
               (determineActiveParam env (getText doc (startPos, position params)) + 1) =
               Some emphasized))"
  shows "\<exists>help' st'. onSignatureHelp env st params = Inr (Some help', st') \<and>
     activeParameter help' =
       Some (determineActiveParam env (getText doc (startPos, position params))) \<and>
     map SignatureInformation.parameters (signatures help') =
       map SignatureInformation.parameters (signatures help)"
proof -
  have d: "onSignatureHelp env st params = retrigger env st doc (position params) ctx"
    using assms(1-12) by (rule onSignatureHelp_retrigger)
  from assms(18) show ?thesis
  proof
    assume "cacheType cache = methodType"
    with assms(13-17) have "retrigger env st doc (position params) ctx =
       Inr (Some (help\<lparr>signatures := sig\<lparr>documentation := Some (cacheDoc cache)\<rparr> # rest,
                     activeParameter :=
                       Some (determineActiveParam env
                               (getText doc (startPos, position params)))\<rparr>), st)"
      by (intro retrigger_method) auto
    with d assms(17) show ?thesis by simp
  next
    assume "cacheType cache = macroType \<and>
          (\<exists>macroCache emphasized.
             signatureHelpMacroCache st = Some macroCache \<and>
             emphasizeArgument (arguments macroCache)
               (determineActiveParam env (getText doc (startPos, position params)) + 1) =
               Some emphasized)"
    then obtain macroCache emphasized where
      "cacheType cache = macroType" "signatureHelpMacroCache st = Some macroCache"
      "emphasizeArgument (arguments macroCache)
         (determineActiveParam env (getText doc (startPos, position params)) + 1) =
         Some emphasized"
      by blast
    with assms(13-17) d show ?thesis
      using retrigger_macro [of ctx "help" st startPos doc "position params" cache macroCache
          env emphasized sig rest]
      by simp
  qed
qed

lemma comma_request_facts:
  shows "requestContext commaRequest =
      Some \<lparr>triggerKind = 2, triggerCharacter = Some (js '',''), isRetrigger = True,
              activeSignatureHelp = Some methodHelp\<rparr>"
    and "documents (exampleServices methodDocument methodTokens) (uri commaRequest) =
      Some methodDocument"
    and "getParsedDocument (exampleServices methodDocument methodTokens) (uri commaRequest) =
      Some methodTokens"
    and "0 \<le> line (position commaRequest)"
    and "line (position commaRequest) < int (length methodTokens)"
    and "thisTokenLoop (methodTokens ! nat (line (position commaRequest)))
           (character (position commaRequest)) 0 = 6"
    and "(6::int) \<noteq> - 1"
    and "tok_l (methodTokens ! nat (line (position commaRequest)) ! nat 6) =
      cos_langindex (exampleServices methodDocument methodTokens)"
    and "\<not> insideString methodDocument (position commaRequest)"
    and "isRetrigger \<lparr>triggerKind = 2, triggerCharacter = Some (js '',''), isRetrigger = True,
              activeSignatureHelp = Some methodHelp\<rparr>"
    and "triggerKind \<lparr>triggerKind = 2, triggerCharacter = Some (js '',''), isRetrigger = True,
              activeSignatureHelp = Some methodHelp\<rparr> \<noteq> 1"
    and "triggerCharacter \<lparr>triggerKind = 2, triggerCharacter = Some (js '',''),
              isRetrigger = True, activeSignatureHelp = Some methodHelp\<rparr> \<noteq> Some (js ''('')"
    and "activeSignatureHelp \<lparr>triggerKind = 2, triggerCharacter = Some (js '',''),
      isRetrigger = True, activeSignatureHelp = Some methodHelp\<rparr> = Some methodHelp"
    and "signatureHelpStartPosition methodSession = Some \<lparr>line = 0, character = 14\<rparr>"
    and "\<exists>prevchar. charBefore methodDocument (position commaRequest) = Inr prevchar \<and>
           prevchar \<noteq> js '')''"
    and "signatureHelpDocumentationCache methodSession =
      Some \<lparr>cacheType = methodType, cacheDoc = markdown (js ''A method.'')\<rparr>"
    and "signatures methodHelp =
      \<lparr>label = js ''(x As %Integer) As %Status'',
       SignatureInformation.parameters = [(1, 15)],
       documentation = Some (markdown (js ''A method.''))\<rparr> # []"
  by (simp_all add: commaRequest_def exampleServices_def methodTokens_def methodSession_def
      methodHelp_def insideString_def charBefore_def methodDocument_def singleLineDocument_def
      slice_def sliceIndex_def js_def)

theorem retrigger_active_parameter_unbounded_witness:
  "\<exists>help' st'.
     onSignatureHelp (exampleServices methodDocument methodTokens) methodSession commaRequest =
       Inr (Some help', st') \<and>
     activeParameter help' = Some 1 \<and>
     map SignatureInformation.parameters (signatures help') = [[(1, 15)]]"
proof -
  have t: "cacheType \<lparr>cacheType = methodType, cacheDoc = markdown (js ''A method.'')\<rparr> =
      methodType \<or>
    (cacheType \<lparr>cacheType = methodType, cacheDoc = markdown (js ''A method.'')\<rparr> = macroType \<and>
     (\<exists>macroCache emphasized.
        signatureHelpMacroCache methodSession = Some macroCache \<and>
        emphasizeArgument (arguments macroCache)
          (determineActiveParam (exampleServices methodDocument methodTokens)
             (getText methodDocument (\<lparr>line = 0, character = 14\<rparr>, position commaRequest)) +
           1) =
          Some emphasized))"
    by simp
  have a: "determineActiveParam (exampleServices methodDocument methodTokens)
      (getText methodDocument (\<lparr>line = 0, character = 14\<rparr>, position commaRequest)) = 1"
    by (simp add: exampleServices_def determineActiveParamSpec_def methodDocument_def
        singleLineDocument_def commaRequest_def slice_def sliceIndex_def js_def)
  have p: "map SignatureInformation.parameters (signatures methodHelp) = [[(1, 15)]]"
    by (simp add: methodHelp_def)
  from retrigger_active_parameter_unbounded [OF comma_request_facts t] a p
  show ?thesis by simp
qed

lemma onSignatureHelp_open:
  assumes "requestContext params = Some ctx"
    and "documents env (uri params) = Some doc"
    and "getParsedDocument env (uri params) = Some parsed"
    and "0 \<le> line (position params)" and "line (position params) < int (length parsed)"
    and "thisTokenLoop (parsed ! nat (line (position params)))
           (character (position params)) 0 = k"
    and "0 < k"
    and "tok_l (parsed ! nat (line (position params)) ! nat k) = cos_langindex env"
    and "\<not> noSignatureAttribute env (tok_s (parsed ! nat (line (position params)) ! nat k))"
    and "\<not> insideString doc (position params)"
    and "triggerKind ctx \<noteq> 1"
    and "triggerCharacter ctx = Some (js ''('')"
  shows "onSignatureHelp env st params = onOpenParen env st doc parsed params ctx k"
  using assms by (simp add: onSignatureHelp_def invokedContext_def Let_def)

lemma macroOnOpen_response:
  assumes "macroSignature env (macroInputData env doc parsed (line pos) thistoken prev) =
      Some response"
    and "response \<noteq> []"
    and "emphasizeArgument (spaceAfterCommas (removeWhitespace response)) 1 = Some emphasized"
  shows "\<exists>d st'. macroOnOpen env st doc parsed pos thistoken prev =
      Inr (Some \<lparr>signatures =
                   [\<lparr>label = spaceAfterCommas (removeWhitespace response),
                     SignatureInformation.parameters =
                       formalSpecToParamsArr (spaceAfterCommas (removeWhitespace response)),
                     documentation = d\<rparr>],
                 activeSignature = 0, activeParameter = Some 0\<rparr>, st') \<and>
      sent st' = sent st @
        [GetMacroSignature (macroInputData env doc parsed (line pos) thistoken prev),
         GetMacroExpansion
           (macroCacheOf (macroInputData env doc parsed (line pos) thistoken prev) emphasized)] \<and>
      signatureHelpStartPosition st' = Some pos"
  using assms
  by (auto simp: macroOnOpen_def expandMacro_def macroCacheOf_def Let_def split: option.splits)

lemma onOpenParen_macro:
  assumes "tok_l (parsed ! nat (line (position params)) ! nat (k - 1)) = cos_langindex env"
    and "tok_s (parsed ! nat (line (position params)) ! nat (k - 1)) = cos_macro_attrindex env"
    and "macroOnOpen env st doc parsed (position params) k
           (parsed ! nat (line (position params)) ! nat (k - 1)) = Inr (Some new, st')"
  shows "onOpenParen env st doc parsed params ctx k = Inr (Some new, st')"
  using assms by (simp add: onOpenParen_def Let_def)

lemma onSignatureHelp_macro_response:
  assumes "requestContext params = Some ctx"
    and "documents env (uri params) = Some doc"
    and "getParsedDocument env (uri params) = Some parsed"
    and "0 \<le> line (position params)" and "line (position params) < int (length parsed)"
    and "thisTokenLoop (parsed ! nat (line (position params)))
           (character (position params)) 0 = k"
    and "0 < k"
    and "tok_l (parsed ! nat (line (position params)) ! nat k) = cos_langindex env"
    and "\<not> noSignatureAttribute env (tok_s (parsed ! nat (line (position params)) ! nat k))"
    and "\<not> insideString doc (position params)"
    and "triggerKind ctx \<noteq> 1"
    and "triggerCharacter ctx = Some (js ''('')"
    and "tok_l (parsed ! nat (line (position params)) ! nat (k - 1)) = cos_langindex env"
    and "tok_s (parsed ! nat (line (position params)) ! nat (k - 1)) = cos_macro_attrindex env"
    and "macroSignature env
           (macroInputData env doc parsed (line (position params)) k
              (parsed ! nat (line (position params)) ! nat (k - 1))) = Some response"
    and "response \<noteq> []"
    and "emphasizeArgument (spaceAfterCommas (removeWhitespace response)) 1 = Some emphasized"
  shows "\<exists>d st'. onSignatureHelp env st params =
      Inr (Some \<lparr>signatures =
                   [\<lparr>label = spaceAfterCommas (removeWhitespace response),
                     SignatureInformation.parameters =
                       formalSpecToParamsArr (spaceAfterCommas (removeWhitespace response)),
                     documentation = d\<rparr>],
                 activeSignature = 0, activeParameter = Some 0\<rparr>, st') \<and>
      sent st' = sent st @
        [GetMacroSignature
           (macroInputData env doc parsed (line (position params)) k
              (parsed ! nat (line (position params)) ! nat (k - 1))),
         GetMacroExpansion
           (macroCacheOf
              (macroInputData env doc parsed (line (position params)) k
                 (parsed ! nat (line (position params)) ! nat (k - 1))) emphasized)]"
proof -
  from macroOnOpen_response [OF assms(15-17), of st]
  obtain d st' where m: "macroOnOpen env st doc parsed (position params) k
           (parsed ! nat (line (position params)) ! nat (k - 1)) =
      Inr (Some \<lparr>signatures =
                   [\<lparr>label = spaceAfterCommas (removeWhitespace response),
                     SignatureInformation.parameters =
                       formalSpecToParamsArr (spaceAfterCommas (removeWhitespace response)),
                     documentation = d\<rparr>],
                 activeSignature = 0, activeParameter = Some 0\<rparr>, st')"
    and s: "sent st' = sent st @
        [GetMacroSignature
           (macroInputData env doc parsed (line (position params)) k
              (parsed ! nat (line (position params)) ! nat (k - 1))),
         GetMacroExpansion
           (macroCacheOf
              (macroInputData env doc parsed (line (position params)) k
                 (parsed ! nat (line (position params)) ! nat (k - 1))) emphasized)]"
    by blast
  have "onSignatureHelp env st params = onOpenParen env st doc parsed params ctx k"
    using assms(1-12) by (rule onSignatureHelp_open)
  also have "\<dots> = Inr (Some \<lparr>signatures =
                   [\<lparr>label = spaceAfterCommas (removeWhitespace response),
                     SignatureInformation.parameters =
                       formalSpecToParamsArr (spaceAfterCommas (removeWhitespace response)),
                     documentation = d\<rparr>],
                 activeSignature = 0, activeParameter = Some 0\<rparr>, st')"
    using assms(13,14) m by (rule onOpenParen_macro)
  finally show ?thesis using s by blast
qed

lemma parenthesised_response:
  shows "js ''(arg1,arg2)'' \<noteq> []"
    and "spaceAfterCommas (removeWhitespace (js ''(arg1,arg2)'')) = js ''(arg1, arg2)''"
    and "formalSpecToParamsArr (js ''(arg1, arg2)'') = [(1, 5), (6, 11)]"
    and "emphasizeArgument (js ''(arg1, arg2)'') 1 = Some (js ''(%%%%%arg1@@@@@,arg2)'')"
  by (simp_all add: js_def spaceAfterCommas_def removeWhitespace_def isWhiteSpace_def
      formalSpecToParamsArr_def formalSpecStep_def formalSpecInit_def isHighSurrogate_def
      emphasizeArgument_def replaceNbsp_def slice_def sliceFrom_def sliceIndex_def indexOf_def
      lastIndexOf_def emphasizePrefix_def emphasizeSuffix_def Let_def)

lemma bare_response:
  shows "js ''arg1,arg2'' \<noteq> []"
    and "spaceAfterCommas (removeWhitespace (js ''arg1,arg2'')) = js ''arg1, arg2''"
    and "formalSpecToParamsArr (js ''arg1, arg2'') = [(1, 9)]"
    and "emphasizeArgument (js ''arg1, arg2'') 1 = Some (js ''a%%%%%rg1@@@@@,arg2'')"
  by (simp_all add: js_def spaceAfterCommas_def removeWhitespace_def isWhiteSpace_def
      formalSpecToParamsArr_def formalSpecStep_def formalSpecInit_def isHighSurrogate_def
      emphasizeArgument_def replaceNbsp_def slice_def sliceFrom_def sliceIndex_def indexOf_def
      lastIndexOf_def emphasizePrefix_def emphasizeSuffix_def Let_def)

text \<open>
  Claim C5, amended. For the open parenthesis typed after a macro token: when the server
  answers the signature request with \<open>(arg1,arg2)\<close>, the signature has the label
  \<open>(arg1, arg2)\<close> and the two parameter spans of \<open>arg1\<close> and \<open>arg2\<close>, and the
  request of the signature is followed at once by a request of the expansion whose
  arguments are \<open>(%%%%%arg1@@@@@,arg2)\<close>. When the answer is \<open>arg1,arg2\<close> without
  parentheses, the label is \<open>arg1, arg2\<close>, but there is one span, from 1 to 9, and the
  emphasised text is \<open>rg1\<close>.
\<close>

theorem macro_signature_response:
  assumes "requestContext params = Some ctx"
    and "documents env (uri params) = Some doc"
    and "getParsedDocument env (uri params) = Some parsed"
    and "0 \<le> line (position params)" and "line (position params) < int (length parsed)"
    and "thisTokenLoop (parsed ! nat (line (position params)))
           (character (position params)) 0 = k"
    and "0 < k"
    and "tok_l (parsed ! nat (line (position params)) ! nat k) = cos_langindex env"
    and "\<not> noSignatureAttribute env (tok_s (parsed ! nat (line (position params)) ! nat k))"
    and "\<not> insideString doc (position params)"
    and "triggerKind ctx \<noteq> 1"
    and "triggerCharacter ctx = Some (js ''('')"
    and "tok_l (parsed ! nat (line (position params)) ! nat (k - 1)) = cos_langindex env"
    and "tok_s (parsed ! nat (line (position params)) ! nat (k - 1)) = cos_macro_attrindex env"
    and "inputdata =
           macroInputData env doc parsed (line (position params)) k
             (parsed ! nat (line (position params)) ! nat (k - 1))"
  shows "(macroSignature env inputdata = Some (js ''(arg1,arg2)'') \<longrightarrow>
          (\<exists>d st'. onSignatureHelp env st params =
             Inr (Some \<lparr>signatures =
                          [\<lparr>label = js ''(arg1, arg2)'',
                            SignatureInformation.parameters = [(1, 5), (6, 11)],
                            documentation = d\<rparr>],
                        activeSignature = 0, activeParameter = Some 0\<rparr>, st') \<and>
             sent st' = sent st @
               [GetMacroSignature inputdata,
                GetMacroExpansion (macroCacheOf inputdata (js ''(%%%%%arg1@@@@@,arg2)''))])) \<and>
         (macroSignature env inputdata = Some (js ''arg1,arg2'') \<longrightarrow>
          (\<exists>d st'. onSignatureHelp env st params =
             Inr (Some \<lparr>signatures =
                          [\<lparr>label = js ''arg1, arg2'',
                            SignatureInformation.parameters = [(1, 9)],
                            documentation = d\<rparr>],
                        activeSignature = 0, activeParameter = Some 0\<rparr>, st') \<and>
             sent st' = sent st @
               [GetMacroSignature inputdata,
                GetMacroExpansion (macroCacheOf inputdata (js ''a%%%%%rg1@@@@@,arg2''))]))"
proof (intro conjI impI)
  assume "macroSignature env inputdata = Some (js ''(arg1,arg2)'')"
  then have r: "macroSignature env
           (macroInputData env doc parsed (line (position params)) k
              (parsed ! nat (line (position params)) ! nat (k - 1))) = Some (js ''(arg1,arg2)'')"
    using assms(15) by simp
  have e: "emphasizeArgument (spaceAfterCommas (removeWhitespace (js ''(arg1,arg2)''))) 1 =
      Some (js ''(%%%%%arg1@@@@@,arg2)'')"
    by (simp add: parenthesised_response)
  from onSignatureHelp_macro_response [OF assms(1-14) r parenthesised_response(1) e, of st]
  show "\<exists>d st'. onSignatureHelp env st params =
             Inr (Some \<lparr>signatures =
                          [\<lparr>label = js ''(arg1, arg2)'',
                            SignatureInformation.parameters = [(1, 5), (6, 11)],
                            documentation = d\<rparr>],
                        activeSignature = 0, activeParameter = Some 0\<rparr>, st') \<and>
             sent st' = sent st @
               [GetMacroSignature inputdata,
                GetMacroExpansion (macroCacheOf inputdata (js ''(%%%%%arg1@@@@@,arg2)''))]"
    by (simp add: parenthesised_response assms(15))
next
  assume "macroSignature env inputdata = Some (js ''arg1,arg2'')"
  then have r: "macroSignature env
           (macroInputData env doc parsed (line (position params)) k
              (parsed ! nat (line (position params)) ! nat (k - 1))) = Some (js ''arg1,arg2'')"
    using assms(15) by simp
  have e: "emphasizeArgument (spaceAfterCommas (removeWhitespace (js ''arg1,arg2''))) 1 =
      Some (js ''a%%%%%rg1@@@@@,arg2'')"
    by (simp add: bare_response)
  from onSignatureHelp_macro_response [OF assms(1-14) r bare_response(1) e, of st]
  show "\<exists>d st'. onSignatureHelp env st params =
             Inr (Some \<lparr>signatures =
                          [\<lparr>label = js ''arg1, arg2'',
                            SignatureInformation.parameters = [(1, 9)],
                            documentation = d\<rparr>],
                        activeSignature = 0, activeParameter = Some 0\<rparr>, st') \<and>
             sent st' = sent st @
               [GetMacroSignature inputdata,
                GetMacroExpansion (macroCacheOf inputdata (js ''a%%%%%rg1@@@@@,arg2''))]"
    by (simp add: bare_response assms(15))
qed

lemma macro_open_facts:
  shows "requestContext macroOpenRequest =
      Some \<lparr>triggerKind = 2, triggerCharacter = Some (js ''(''), isRetrigger = False,
              activeSignatureHelp = None\<rparr>"
    and "documents (macroServices r) (uri macroOpenRequest) = Some macroOpenDocument"
    and "getParsedDocument (macroServices r) (uri macroOpenRequest) = Some macroOpenTokens"
    and "0 \<le> line (position macroOpenRequest)"
    and "line (position macroOpenRequest) < int (length macroOpenTokens)"
    and "thisTokenLoop (macroOpenTokens ! nat (line (position macroOpenRequest)))
           (character (position macroOpenRequest)) 0 = 1"
    and "(0::int) < 1"
    and "tok_l (macroOpenTokens ! nat (line (position macroOpenRequest)) ! nat 1) =
      cos_langindex (macroServices r)"
    and "\<not> noSignatureAttribute (macroServices r)
          (tok_s (macroOpenTokens ! nat (line (position macroOpenRequest)) ! nat 1))"
    and "\<not> insideString macroOpenDocument (position macroOpenRequest)"
    and "triggerKind \<lparr>triggerKind = 2, triggerCharacter = Some (js ''(''), isRetrigger = False,
              activeSignatureHelp = None\<rparr> \<noteq> 1"
    and "triggerCharacter \<lparr>triggerKind = 2, triggerCharacter = Some (js ''(''),
              isRetrigger = False, activeSignatureHelp = None\<rparr> = Some (js ''('')"
    and "tok_l (macroOpenTokens ! nat (line (position macroOpenRequest)) ! nat (1 - 1)) =
      cos_langindex (macroServices r)"
    and "tok_s (macroOpenTokens ! nat (line (position macroOpenRequest)) ! nat (1 - 1)) =
      cos_macro_attrindex (macroServices r)"
  by (simp_all add: macroOpenRequest_def macroServices_def exampleServices_def
      macroOpenTokens_def noSignatureAttribute_def insideString_def macroOpenDocument_def
      singleLineDocument_def slice_def sliceIndex_def js_def)

lemma macroServices_context:
  "getMacroContext (macroServices r) d p ln =
     \<lparr>docname = js ''My.Class.cls'', superclasses = [], macroIncludes = [],
      includegenerators = [], macroImports = [], mode = []\<rparr>"
  by (simp add: macroServices_def exampleServices_def)

lemma macroServices_range:
  "findFullRange (macroServices r) ln p tk a b =
     (\<lparr>line = ln, character = a\<rparr>, \<lparr>line = ln, character = b\<rparr>)"
  by (simp add: macroServices_def exampleServices_def)

lemma macro_open_name:
  "sliceFrom (getText macroOpenDocument
      (\<lparr>line = 0, character = 0\<rparr>, \<lparr>line = 0, character = 10\<rparr>)) 3 = js ''MyMacro''"
  by (simp add: macroOpenDocument_def singleLineDocument_def slice_def sliceFrom_def
      sliceIndex_def js_def)

lemma macro_open_token:
  "macroOpenTokens ! nat (line (position macroOpenRequest)) ! nat (1 - 1) =
     \<lparr>tok_p = 0, tok_c = 10, tok_l = 1, tok_s = 30\<rparr>"
  by (simp add: macroOpenTokens_def macroOpenRequest_def)

lemma macro_open_input:
  "macroInputData (macroServices r) macroOpenDocument macroOpenTokens
     (line (position macroOpenRequest)) 1
     (macroOpenTokens ! nat (line (position macroOpenRequest)) ! nat (1 - 1)) = myMacroInput"
proof -
  have l: "line (position macroOpenRequest) = 0"
    by (simp add: macroOpenRequest_def)
  show ?thesis
    unfolding macro_open_token
    by (simp add: macroInputData_def macroServices_context macroServices_range l
        macro_open_name myMacroInput_def Let_def)
qed

lemma session_sent_empty: "sent emptySession @ rs = rs"
  by (simp add: emptySession_def)

lemma macro_open_answer: "macroSignature (macroServices r) i = Some r"
  by (simp add: macroServices_def)


theorem macro_signature_bare_counterexample:
  "\<exists>d st'. onSignatureHelp (macroServices (js ''arg1,arg2'')) emptySession macroOpenRequest =
      Inr (Some \<lparr>signatures =
                   [\<lparr>label = js ''arg1, arg2'',
                     SignatureInformation.parameters = [(1, 9)],
                     documentation = d\<rparr>],
                 activeSignature = 0, activeParameter = Some 0\<rparr>, st') \<and>
      sent st' =
        [GetMacroSignature myMacroInput,
         GetMacroExpansion (macroCacheOf myMacroInput (js ''a%%%%%rg1@@@@@,arg2''))]"
proof -
  have e: "emphasizeArgument (spaceAfterCommas (removeWhitespace (js ''arg1,arg2''))) 1 =
      Some (js ''a%%%%%rg1@@@@@,arg2'')"
    by (simp add: bare_response)
  from onSignatureHelp_macro_response
    [OF macro_open_facts macro_open_answer bare_response(1) e, of emptySession]
  show ?thesis
    unfolding macro_open_input session_sent_empty bare_response(2,3) .
qed

theorem macro_signature_response_witness:
  "\<exists>d st'. onSignatureHelp (macroServices (js ''(arg1,arg2)'')) emptySession macroOpenRequest =
      Inr (Some \<lparr>signatures =
                   [\<lparr>label = js ''(arg1, arg2)'',
                     SignatureInformation.parameters = [(1, 5), (6, 11)],
                     documentation = d\<rparr>],
                 activeSignature = 0, activeParameter = Some 0\<rparr>, st') \<and>
      sent st' =
        [GetMacroSignature myMacroInput,
         GetMacroExpansion (macroCacheOf myMacroInput (js ''(%%%%%arg1@@@@@,arg2)''))]"
proof -
  have i: "myMacroInput =
      macroInputData (macroServices (js ''(arg1,arg2)'')) macroOpenDocument macroOpenTokens
        (line (position macroOpenRequest)) 1
        (macroOpenTokens ! nat (line (position macroOpenRequest)) ! nat (1 - 1))"
    unfolding macro_open_input ..
  from macro_signature_response [OF macro_open_facts i, of emptySession]
    macro_open_answer [of "js ''(arg1,arg2)''" myMacroInput]
  show ?thesis
    unfolding session_sent_empty by blast
qed

lemma hd_single: "length xs = Suc 0 \<Longrightarrow> hd xs = xs ! 0"
  by (cases xs) auto

lemma memberOnOpen_constructor:
  assumes "getText doc
             (\<lparr>line = line pos, character = tok_p prev\<rparr>,
              \<lparr>line = line pos, character = tok_p prev + tok_c prev\<rparr>) = js ''%New''"
    and "queryRows env newQuery
           [Some (getClassMemberContext env doc parsed (thistoken - 2) (line pos)),
            Some (quoteUDLIdentifier env (js ''%New'')), Some (js ''%OnNew'')] = Some rows"
  shows "\<not> (length rows = 2 \<and> Origin (rows ! 1) \<noteq> js ''%Library.RegisteredObject'') \<Longrightarrow>
         fst (memberOnOpen env st doc parsed pos thistoken prev) = NewSignature None \<or>
         fst (memberOnOpen env st doc parsed pos thistoken prev) = Returned None"
    and "length rows = 2 \<Longrightarrow> Origin (rows ! 1) \<noteq> js ''%Library.RegisteredObject'' \<Longrightarrow>
         getClassMemberContext env doc parsed (thistoken - 2) (line pos) \<noteq> [] \<Longrightarrow>
         \<exists>d. fst (memberOnOpen env st doc parsed pos thistoken prev) =
           NewSignature
             (Some \<lparr>signatures =
                      [\<lparr>label = beautifyFormalSpec env (FormalSpec (rows ! 1)) @ js '' As '' @
                                getClassMemberContext env doc parsed (thistoken - 2) (line pos),
                        SignatureInformation.parameters =
                          formalSpecToParamsArr (beautifyFormalSpec env (FormalSpec (rows ! 1))),
                        documentation = d\<rparr>],
                    activeSignature = 0, activeParameter = Some 0\<rparr>)"
  using assms
  by (auto simp: memberOnOpen_def queryMember_def methodDocumentation_def Let_def hd_single
      split: list.splits prod.splits)

lemma getMethodSignatureDetails_constructor:
  assumes "tokenAt parsed parenLine (parenToken - 1) = Some prev"
    and "getText doc
             (\<lparr>line = parenLine, character = tok_p prev\<rparr>,
              \<lparr>line = parenLine, character = tok_p prev + tok_c prev\<rparr>) = js ''%New''"
    and "queryRows env newQuery
           [Some (getClassMemberContext env doc parsed (parenToken - 2) parenLine),
            Some (quoteUDLIdentifier env (js ''%New'')), Some (js ''%OnNew'')] = Some rows"
    and "\<not> (length rows = 2 \<and> Origin (rows ! 1) \<noteq> js ''%Library.RegisteredObject'')"
  shows "getMethodSignatureDetails env doc parsed parenLine parenToken = None"
  using assms
  by (auto simp: getMethodSignatureDetails_def Let_def hd_single
      split: option.splits list.splits)

text \<open>
  Claim C2, amended. For the constructor \<open>%New\<close>, when the answer of the query does not
  have a second row with an origin other than \<open>%Library.RegisteredObject\<close>, the
  class-member resolver produces no signature: in \<open>onSignatureHelp\<close> the variable
  \<open>newsignature\<close> stays \<open>null\<close> (or the request returns \<open>null\<close>, when the class is not
  known), and \<open>getMethodSignatureDetails\<close> returns \<open>null\<close>. A signature is produced
  when \<open>%OnNew\<close> is overridden: its parameters are those of the formal spec of \<open>%OnNew\<close>.
\<close>

theorem constructor_without_hook:
  assumes "tokenAt parsed (line pos) (thistoken - 1) = Some prev"
    and "getText doc
             (\<lparr>line = line pos, character = tok_p prev\<rparr>,
              \<lparr>line = line pos, character = tok_p prev + tok_c prev\<rparr>) = js ''%New''"
    and "queryRows env newQuery
           [Some (getClassMemberContext env doc parsed (thistoken - 2) (line pos)),
            Some (quoteUDLIdentifier env (js ''%New'')), Some (js ''%OnNew'')] = Some rows"
  shows "(\<not> (length rows = 2 \<and> Origin (rows ! 1) \<noteq> js ''%Library.RegisteredObject'') \<longrightarrow>
          (fst (memberOnOpen env st doc parsed pos thistoken prev) = NewSignature None \<or>
           fst (memberOnOpen env st doc parsed pos thistoken prev) = Returned None) \<and>
          getMethodSignatureDetails env doc parsed (line pos) thistoken = None) \<and>
         (length rows = 2 \<and> Origin (rows ! 1) \<noteq> js ''%Library.RegisteredObject'' \<and>
          getClassMemberContext env doc parsed (thistoken - 2) (line pos) \<noteq> [] \<longrightarrow>
          (\<exists>d. fst (memberOnOpen env st doc parsed pos thistoken prev) =
             NewSignature
               (Some \<lparr>signatures =
                        [\<lparr>label = beautifyFormalSpec env (FormalSpec (rows ! 1)) @ js '' As '' @
                                  getClassMemberContext env doc parsed (thistoken - 2) (line pos),
                          SignatureInformation.parameters =
                            formalSpecToParamsArr (beautifyFormalSpec env (FormalSpec (rows ! 1))),
                          documentation = d\<rparr>],
                      activeSignature = 0, activeParameter = Some 0\<rparr>)))"
  using memberOnOpen_constructor [OF assms(2,3), of st]
    getMethodSignatureDetails_constructor [OF assms]
  by blast

lemma newServices_fields:
  shows "documents newServices u = Some newDocument"
    and "getParsedDocument newServices u = Some newTokens"
    and "cos_langindex newServices = 1"
    and "cos_macro_attrindex newServices = 30"
    and "cos_method_attrindex newServices = 23"
    and "cos_mem_attrindex newServices = 24"
    and "getClassMemberContext newServices d p tk ln = js ''My.Class''"
    and "quoteUDLIdentifier newServices name = name"
    and "queryRows newServices newQuery ps = Some libraryRows"
    and "routineSource newServices = routineServer"
    and "\<not> noSignatureAttribute newServices 5"
  by (simp_all add: newServices_def exampleServices_def noSignatureAttribute_def)

lemma new_request_fields:
  shows "requestContext newRequest =
      Some \<lparr>triggerKind = 2, triggerCharacter = Some (js ''(''), isRetrigger = False,
              activeSignatureHelp = None\<rparr>"
    and "position newRequest = \<lparr>line = 0, character = 16\<rparr>"
    and "uri newRequest = js ''file:///My.Class.cls''"
  by (simp_all add: newRequest_def)

lemma new_tokens:
  shows "thisTokenLoop (newTokens ! 0) 16 0 = 6"
    and "newTokens ! 0 ! 6 = \<lparr>tok_p = 15, tok_c = 1, tok_l = 1, tok_s = 5\<rparr>"
    and "newTokens ! 0 ! 5 = \<lparr>tok_p = 11, tok_c = 4, tok_l = 1, tok_s = 23\<rparr>"
    and "tokenAt newTokens 0 6 = Some \<lparr>tok_p = 15, tok_c = 1, tok_l = 1, tok_s = 5\<rparr>"
    and "tokenAt newTokens 0 5 = Some \<lparr>tok_p = 11, tok_c = 4, tok_l = 1, tok_s = 23\<rparr>"
    and "length newTokens = 1"
  by (simp_all add: newTokens_def tokenAt_def)

lemma new_texts:
  shows "getText newDocument (\<lparr>line = 0, character = 11\<rparr>, \<lparr>line = 0, character = 15\<rparr>) =
      js ''%New''"
    and "getText newDocument (\<lparr>line = 0, character = 0\<rparr>, \<lparr>line = 0, character = 15\<rparr>) =
      js ''##class(A).%New''"
    and "\<not> insideString newDocument \<lparr>line = 0, character = 16\<rparr>"
  by (simp_all add: newDocument_def singleLineDocument_def insideString_def slice_def
      sliceIndex_def js_def)

lemma new_library_rows:
  "\<not> (length libraryRows = 2 \<and> Origin (libraryRows ! 1) \<noteq> js ''%Library.RegisteredObject'')"
  by (simp add: libraryRows_def)

lemma new_member:
  "memberOnOpen newServices emptySession newDocument newTokens \<lparr>line = 0, character = 16\<rparr> 6
     \<lparr>tok_p = 11, tok_c = 4, tok_l = 1, tok_s = 23\<rparr> =
   (NewSignature None,
    emptySession\<lparr>sent :=
      [Query newQuery [Some (js ''My.Class''), Some (js ''%New''), Some (js ''%OnNew'')]]\<rparr>)"
proof -
  have c: "js ''My.Class'' \<noteq> []" by (simp add: js_def)
  have q: "queryMember newServices emptySession (js ''%New'') (js ''My.Class'') (js ''%New'') =
      (emptySession\<lparr>sent :=
         [Query newQuery [Some (js ''My.Class''), Some (js ''%New''), Some (js ''%OnNew'')]]\<rparr>,
       Some libraryRows)"
    by (simp add: queryMember_def newServices_fields emptySession_def)
  show ?thesis
    using new_library_rows
    by (simp add: memberOnOpen_def new_texts newServices_fields c q Let_def)
       (simp add: libraryRows_def)
qed

lemma regex_eval_new:
  "extractRoutineCall (js ''##class(A).%New'') = None"
  by (simp add: extractRoutineCall_def regex_eval js_def trimEnd_def)

lemma new_routine:
  "routineOnOpen newServices st newDocument newTokens \<lparr>line = 0, character = 16\<rparr> 6 u = (None, st)"
  by (simp add: routineOnOpen_def getRoutineSignatureDetails_def new_tokens new_texts
      regex_eval_new newServices_fields)

lemma new_open:
  "onOpenParen newServices emptySession newDocument newTokens newRequest
     \<lparr>triggerKind = 2, triggerCharacter = Some (js ''(''), isRetrigger = False,
      activeSignatureHelp = None\<rparr> 6 =
   Inr (None,
        emptySession\<lparr>sent :=
          [Query newQuery [Some (js ''My.Class''), Some (js ''%New''), Some (js ''%OnNew'')]]\<rparr>)"
  by (simp add: onOpenParen_def new_request_fields new_tokens newServices_fields new_member
      new_routine Let_def)

text \<open>
  The request at \<open>##class(A).%New(\<close> for a class whose two rows both have the origin
  \<open>%Library.RegisteredObject\<close>: after the query the request returns \<open>null\<close>, and so
  does the hover.
\<close>

theorem constructor_without_hook_counterexample:
  "onSignatureHelp newServices emptySession newRequest =
     Inr (None,
          emptySession\<lparr>sent :=
            [Query newQuery [Some (js ''My.Class''), Some (js ''%New''), Some (js ''%OnNew'')]]\<rparr>) \<and>
   getMethodSignatureDetails newServices newDocument newTokens 0 6 = None"
proof -
  have "onSignatureHelp newServices emptySession newRequest =
      onOpenParen newServices emptySession newDocument newTokens newRequest
        \<lparr>triggerKind = 2, triggerCharacter = Some (js ''(''), isRetrigger = False,
         activeSignatureHelp = None\<rparr> 6"
    by (rule onSignatureHelp_open)
       (simp_all add: new_request_fields newServices_fields new_tokens new_texts)
  moreover have "getMethodSignatureDetails newServices newDocument newTokens 0 6 = None"
  proof (rule getMethodSignatureDetails_constructor)
    show "tokenAt newTokens 0 (6 - 1) = Some \<lparr>tok_p = 11, tok_c = 4, tok_l = 1, tok_s = 23\<rparr>"
      by (simp add: new_tokens)
    show "getText newDocument
        (\<lparr>line = 0, character = tok_p \<lparr>tok_p = 11, tok_c = 4, tok_l = 1, tok_s = 23\<rparr>\<rparr>,
         \<lparr>line = 0,
           character = tok_p \<lparr>tok_p = 11, tok_c = 4, tok_l = 1, tok_s = 23\<rparr> +
                       tok_c \<lparr>tok_p = 11, tok_c = 4, tok_l = 1, tok_s = 23\<rparr>\<rparr>) = js ''%New''"
      by (simp add: new_texts)
    show "queryRows newServices newQuery
        [Some (getClassMemberContext newServices newDocument newTokens (6 - 2) 0),
         Some (quoteUDLIdentifier newServices (js ''%New'')), Some (js ''%OnNew'')] =
        Some libraryRows"
      by (simp add: newServices_fields)
    show "\<not> (length libraryRows = 2 \<and>
        Origin (libraryRows ! 1) \<noteq> js ''%Library.RegisteredObject'')"
      by (rule new_library_rows)
  qed
  ultimately show ?thesis
    by (simp add: new_open)
qed

theorem constructor_without_hook_witness:
  "(fst (memberOnOpen newServices emptySession newDocument newTokens
           \<lparr>line = 0, character = 16\<rparr> 6 \<lparr>tok_p = 11, tok_c = 4, tok_l = 1, tok_s = 23\<rparr>) =
      NewSignature None \<or>
    fst (memberOnOpen newServices emptySession newDocument newTokens
           \<lparr>line = 0, character = 16\<rparr> 6 \<lparr>tok_p = 11, tok_c = 4, tok_l = 1, tok_s = 23\<rparr>) =
      Returned None) \<and>
   getMethodSignatureDetails newServices newDocument newTokens 0 6 = None"
proof -
  have a: "tokenAt newTokens (line \<lparr>line = 0, character = 16\<rparr>) (6 - 1) =
      Some \<lparr>tok_p = 11, tok_c = 4, tok_l = 1, tok_s = 23\<rparr>"
    by (simp add: new_tokens)
  have b: "getText newDocument
      (\<lparr>line = line \<lparr>line = 0, character = 16\<rparr>,
         character = tok_p \<lparr>tok_p = 11, tok_c = 4, tok_l = 1, tok_s = 23\<rparr>\<rparr>,
       \<lparr>line = line \<lparr>line = 0, character = 16\<rparr>,
         character = tok_p \<lparr>tok_p = 11, tok_c = 4, tok_l = 1, tok_s = 23\<rparr> +
                     tok_c \<lparr>tok_p = 11, tok_c = 4, tok_l = 1, tok_s = 23\<rparr>\<rparr>) = js ''%New''"
    by (simp add: new_texts)
  have c: "queryRows newServices newQuery
      [Some (getClassMemberContext newServices newDocument newTokens (6 - 2)
               (line \<lparr>line = 0, character = 16\<rparr>)),
       Some (quoteUDLIdentifier newServices (js ''%New'')), Some (js ''%OnNew'')] =
      Some libraryRows"
    by (simp add: newServices_fields)
  from constructor_without_hook [OF a b c, of emptySession] new_library_rows
  show ?thesis by simp
qed


section \<open>Further properties\<close>

text \<open>
  On the retrigger of a routine signature the active parameter is bounded: it is \<open>null\<close>
  for a signature without parameters, and an index of a parameter otherwise.
\<close>

lemma retrigger_routine_bounded:
  assumes "activeSignatureHelp ctx = Some help"
    and "signatureHelpStartPosition st = Some startPos"
    and "\<exists>prevchar. charBefore doc pos = Inr prevchar \<and> prevchar \<noteq> js '')''"
    and "signatureHelpDocumentationCache st = Some cache"
    and "cacheType cache = routineType"
    and "signatures help = sig # rest"
  shows "\<exists>help' st'. retrigger env st doc pos ctx = Inr (Some help', st') \<and>
     (case activeParameter help' of
        None \<Rightarrow> SignatureInformation.parameters sig = []
      | Some i \<Rightarrow> 0 \<le> i \<and> i < int (length (SignatureInformation.parameters sig)))"
  using assms by (auto simp: retrigger_def clampIndex_def Let_def)

text \<open>
  The search loop of \<open>emphasizeArgument\<close> does not end for the first argument of a list
  that begins with a space and has a second space: \<open>lastspace\<close> stays 0 and the number
  of spaces found never is 0 again.
\<close>

lemma emphasizeLoop_leading_space:
  assumes "emphasizeLoop arglist normalized arg endp lastspace spacesfound = Some y"
  shows "\<not> (normalized = js '' A B'' \<and> arg = 1 \<and> lastspace = 0 \<and> 0 \<le> spacesfound)"
proof (rule emphasizeLoop.raw_induct
    [where P = "\<lambda>a n g e l s r. \<not> (n = js '' A B'' \<and> g = 1 \<and> l = 0 \<and> 0 \<le> s)", OF _ assms])
  fix f :: "jsstring \<Rightarrow> jsstring \<Rightarrow> int \<Rightarrow> int \<Rightarrow> int \<Rightarrow> int \<Rightarrow> jsstring option"
  fix a n :: jsstring and g e l s :: int and r :: jsstring
  assume IH: "\<And>a' n' g' e' l' s' r'. f a' n' g' e' l' s' = Some r' \<Longrightarrow>
      \<not> (n' = js '' A B'' \<and> g' = 1 \<and> l' = 0 \<and> 0 \<le> s')"
  assume step: "(if indexOf n 32 (l + 1) \<noteq> - 1
      then if g = s + 1 + 1
           then Some (slice a 0 (indexOf n 32 l + 1) @ emphasizePrefix @
                  slice a (indexOf n 32 l + 1)
                   (if e = - 1 then indexOf n 32 (indexOf n 32 l + 1) - 1 else e) @
                  emphasizeSuffix @
                  sliceFrom a (if e = - 1 then indexOf n 32 (indexOf n 32 l + 1) - 1 else e))
           else f a n g e (indexOf n 32 l) (s + 1)
      else Some a) = Some r"
  show "\<not> (n = js '' A B'' \<and> g = 1 \<and> l = 0 \<and> 0 \<le> s)"
  proof
    assume inv: "n = js '' A B'' \<and> g = 1 \<and> l = 0 \<and> 0 \<le> s"
    have x: "indexOf (js '' A B'') 32 (0 + 1) \<noteq> - 1"
      by (simp add: indexOf_def js_def)
    have y: "indexOf (js '' A B'') 32 0 = 0"
      by (simp add: indexOf_def js_def)
    from inv have z: "g \<noteq> s + 1 + 1" by simp
    from step inv x y z have "f a n g e 0 (s + 1) = Some r"
      by simp
    from IH [OF this] inv show False by simp
  qed
qed

lemma emphasizeArgument_no_return: "emphasizeArgument (js '' A B'') 1 = None"
proof -
  have "emphasizeLoop (js '' A B'') (js '' A B'') 1 (- 1) 0 0 = None"
    using emphasizeLoop_leading_space [of "js '' A B''" "js '' A B''" 1 "- 1" 0 0]
    by (cases "emphasizeLoop (js '' A B'') (js '' A B'') 1 (- 1) 0 0") auto
  moreover have "replaceNbsp (js '' A B'') = js '' A B''"
    by (simp add: replaceNbsp_def js_def)
  moreover have "indexOf (js '' A B'') 32 0 - 1 = - 1"
    by (simp add: indexOf_def js_def)
  moreover have "int (length (splitChar 32 (js '' A B''))) = 3"
    by (simp add: js_def)
  ultimately show ?thesis
    by (simp add: emphasizeArgument_def Let_def splitChar_nonempty)
qed

end
